theory Spec2Isabelle
  imports Main "HOL-Library.Word"
begin

unbundle bit_operations_syntax

section \<open>Bytes and strings\<close>

text \<open>
  The server works on byte strings (\<open>char *\<close>, \<open>std::string\<close>, \<open>std::string_view\<close>).
  A byte is a \<^typ>\<open>char\<close>, a byte string a \<^typ>\<open>string\<close>; the bytes that the code
  names are given names here.
\<close>

abbreviation NUL :: "char" where "NUL \<equiv> CHR 0x00"
abbreviation LF :: "char" where "LF \<equiv> CHR 0x0A"
abbreviation CR :: "char" where "CR \<equiv> CHR 0x0D"
abbreviation DQUOTE :: "char" where "DQUOTE \<equiv> CHR 0x22"
abbreviation SLASH :: "char" where "SLASH \<equiv> CHR ''/''"

abbreviation CRLF :: "string" where "CRLF \<equiv> [CR, LF]"

section \<open>Path encoding (\<open>decodePath\<close>, \<open>encodePath\<close>)\<close>

text \<open>
  \<open>decodePath (buffer_, size_)\<close> walks the first \<open>size_\<close> bytes of the buffer in place and
  turns every NUL into LF.
\<close>

definition decodeByte :: "char \<Rightarrow> char" where
  "decodeByte c = (if c = NUL then LF else c)"

definition decodePath :: "string \<Rightarrow> nat \<Rightarrow> string" where
  "decodePath buffer n = map decodeByte (take n buffer) @ drop n buffer"

text \<open>
  The \<open>do ... while (p)\<close> loop of \<open>encodePath\<close>: every \<open>memchr\<close> hit on a double quote
  advances past the hit and counts it.
\<close>

fun countQuotes :: "string \<Rightarrow> nat" where
  "countQuotes [] = 0"
| "countQuotes (c # cs) = (if c = DQUOTE then Suc (countQuotes cs) else countQuotes cs)"

text \<open>The \<open>while (in < end)\<close> loop of \<open>encodePath\<close>, writing to the output buffer.\<close>

fun encodeLoop :: "bool \<Rightarrow> string \<Rightarrow> string" where
  "encodeLoop quotes [] = []"
| "encodeLoop quotes (c # cs) =
     (if c = LF then NUL # encodeLoop quotes cs
      else if quotes \<and> c = DQUOTE then DQUOTE # DQUOTE # encodeLoop quotes cs
      else c # encodeLoop quotes cs)"

definition encodePath :: "string \<Rightarrow> bool \<Rightarrow> string" where
  "encodePath buffer quotes =
     (let lf = (LF \<in> set buffer);
          numQuotes = (if quotes then countQuotes buffer else 0)
      in if \<not> lf \<and> numQuotes = 0 then buffer else encodeLoop quotes buffer)"

section \<open>Path construction and resolution\<close>

text \<open>\<open>std::string_view::find (ch, pos)\<close> and \<open>rfind (ch)\<close>; \<open>None\<close> is \<open>npos\<close>.\<close>

function find_from :: "string \<Rightarrow> char \<Rightarrow> nat \<Rightarrow> nat option" where
  "find_from s c pos =
     (if length s \<le> pos then None
      else if s ! pos = c then Some pos
      else find_from s c (Suc pos))"
  by pat_completeness auto
termination
  by (relation "measure (\<lambda>(s, c, pos). length s - pos)") auto

declare find_from.simps [simp del]

fun rfind :: "string \<Rightarrow> char \<Rightarrow> nat option" where
  "rfind [] c = None"
| "rfind (x # xs) c =
     (case rfind xs c of
        Some i \<Rightarrow> Some (Suc i)
      | None \<Rightarrow> if x = c then Some 0 else None)"

text \<open>\<open>substr (pos, n)\<close> for \<open>pos \<le> size\<close> (the only way the code calls it).\<close>

definition substr :: "string \<Rightarrow> nat \<Rightarrow> nat \<Rightarrow> string" where
  "substr s pos n = take n (drop pos s)"

text \<open>\<open>dirName\<close>: the path without its last component, or \<open>/\<close> when nothing is left.\<close>

definition dirName :: "string \<Rightarrow> string" where
  "dirName path =
     (let dir = (case rfind path SLASH of None \<Rightarrow> path | Some i \<Rightarrow> substr path 0 i)
      in if dir = [] then ''/'' else dir)"

text \<open>
  What \<open>::stat\<close> reports on a path: the call fails with an \<open>errno\<close>, or it yields the
  \<open>st_mode\<close>, size and modification time of the file.
\<close>

record stat_t =
  st_mode :: "32 word"
  st_size :: nat
  st_mtime :: int
  st_nlink :: nat
  st_uid :: nat
  st_gid :: nat

text \<open>The file type bits of \<open>st_mode\<close> and the macros that test them.\<close>

abbreviation S_IFMT :: "32 word" where "S_IFMT \<equiv> 0xF000"
abbreviation S_IFDIR :: "32 word" where "S_IFDIR \<equiv> 0x4000"
abbreviation S_IFREG :: "32 word" where "S_IFREG \<equiv> 0x8000"

definition S_ISDIR :: "32 word \<Rightarrow> bool" where
  "S_ISDIR m = (m AND S_IFMT = S_IFDIR)"

definition S_ISREG :: "32 word \<Rightarrow> bool" where
  "S_ISREG m = (m AND S_IFMT = S_IFREG)"


lemma find_from_Some:
  "find_from s c pos = Some n \<Longrightarrow> pos \<le> n \<and> n < length s \<and> s ! n = c"
proof (induction s c pos rule: find_from.induct)
  case (1 s c pos)
  show ?case
  proof (cases "length s \<le> pos")
    case True
    with "1.prems" show ?thesis by (simp add: find_from.simps [of s c pos])
  next
    case False
    show ?thesis
    proof (cases "s ! pos = c")
      case True
      with False "1.prems" show ?thesis by (simp add: find_from.simps [of s c pos])
    next
      case ne: False
      with False "1.prems" have "find_from s c (Suc pos) = Some n"
        by (simp add: find_from.simps [of s c pos])
      with "1.IH" False ne show ?thesis by fastforce
    qed
  qed
qed



text \<open>
  The first loop of \<open>resolvePath\<close>: from \<open>pos\<close>, every \<open>/\<close> found ends a component, and
  the component is kept unless it is empty. The loop returns the final \<open>pos\<close> with the
  components collected so far.
\<close>

function split_loop :: "string \<Rightarrow> nat \<Rightarrow> string list \<Rightarrow> nat \<times> string list" where
  "split_loop path pos components =
     (case find_from path SLASH pos of
        None \<Rightarrow> (pos, components)
      | Some next \<Rightarrow>
          split_loop path (Suc next)
            (if next \<noteq> pos then components @ [substr path pos (next - pos)]
             else components))"
  by pat_completeness auto
termination
proof (relation "measure (\<lambda>(path, pos, components). length path - pos)")
  show "wf (measure (\<lambda>(path, pos, components). length path - pos))" by simp
next
  fix path :: string and pos :: nat and components :: "string list" and x2 :: nat
  assume "find_from path SLASH pos = Some x2"
  then have "pos \<le> x2" and "x2 < length path" using find_from_Some by blast+
  then show "((path, Suc x2,
        if x2 \<noteq> pos then components @ [substr path pos (x2 - pos)] else components),
       path, pos, components)
      \<in> measure (\<lambda>(path, pos, components). length path - pos)"
    by simp
qed

declare split_loop.simps [simp del]

definition splitComponents :: "string \<Rightarrow> string list" where
  "splitComponents path =
     (case split_loop path 1 [] of
        (pos, components) \<Rightarrow>
          if pos \<noteq> length path then components @ [drop pos path] else components)"

text \<open>\<open>std::vector::erase\<close> at an index.\<close>

definition erase :: "'a list \<Rightarrow> nat \<Rightarrow> 'a list" where
  "erase xs i = take i xs @ drop (Suc i) xs"

text \<open>
  The second loop of \<open>resolvePath\<close>, with the iterator as an index: a \<open>.\<close> is erased;
  a \<open>..\<close> is erased together with the component before it, when there is one; anything
  else is stepped over.
\<close>

function collapse :: "nat \<Rightarrow> string list \<Rightarrow> string list" where
  "collapse it components =
     (if length components \<le> it then components
      else if components ! it = ''.'' then collapse it (erase components it)
      else if components ! it = ''..'' then
        (if it \<noteq> 0 then collapse (it - 1) (erase (erase components (it - 1)) (it - 1))
         else collapse it (erase components it))
      else collapse (Suc it) components)"
  by pat_completeness auto
termination
  by (relation "measure (\<lambda>(it, components). length components - it)")
     (auto simp: erase_def)

declare collapse.simps [simp del]

text \<open>The last loop: every component is appended with a \<open>/\<close>, and the last \<open>/\<close> is dropped.\<close>

definition joinComponents :: "string list \<Rightarrow> string" where
  "joinComponents components =
     (let outPath = fold (\<lambda>component out. out @ component @ ''/'') components ''/''
      in if length outPath > 1 then butlast outPath else outPath)"

text \<open>\<open>c_str ()\<close>: what a C function sees of a string, the bytes before the first NUL.\<close>

definition c_str :: "string \<Rightarrow> string" where
  "c_str s = takeWhile (\<lambda>c. c \<noteq> NUL) s"

text \<open>
  \<open>resolvePath\<close> fails on an assertion for a path that is empty or not absolute, and with
  the \<open>errno\<close> of \<open>::stat\<close> (or \<open>ENOTDIR\<close>) when the parent is not a directory; the code
  returns the empty string then. The file system is the parameter \<open>stat\<close>.
\<close>

datatype resolve_error = AssertionFailed | Errno nat

abbreviation ENOMEM :: "nat" where "ENOMEM \<equiv> 12"
abbreviation EAGAIN :: "nat" where "EAGAIN \<equiv> 11"
abbreviation ENOTDIR :: "nat" where "ENOTDIR \<equiv> 20"
abbreviation EINVAL :: "nat" where "EINVAL \<equiv> 22"

definition resolvePath :: "(string \<Rightarrow> nat + stat_t) \<Rightarrow> string \<Rightarrow> resolve_error + string" where
  "resolvePath stat path =
     (if path = [] \<or> hd path \<noteq> SLASH then Inl AssertionFailed
      else case stat (c_str (dirName path)) of
        Inl e \<Rightarrow> Inl (Errno e)
      | Inr st \<Rightarrow>
          if \<not> S_ISDIR (st_mode st) then Inl (Errno ENOTDIR)
          else Inr (joinComponents (collapse 0 (splitComponents path))))"

text \<open>
  \<open>buildPath\<close>: the argument when it is absolute, the working directory, a \<open>/\<close> and the
  argument otherwise; then every \<open>/\<close> that follows a \<open>/\<close> is erased. \<open>args_[0]\<close> of an
  empty argument is the terminating NUL, so an empty argument is relative.
\<close>

fun coalesceSlashes :: "string \<Rightarrow> string" where
  "coalesceSlashes [] = []"
| "coalesceSlashes [c] = [c]"
| "coalesceSlashes (a # b # cs) =
     (if b = SLASH \<and> a = SLASH then coalesceSlashes (a # cs)
      else a # coalesceSlashes (b # cs))"

definition buildPath :: "string \<Rightarrow> string \<Rightarrow> string" where
  "buildPath cwd args =
     coalesceSlashes (if args \<noteq> [] \<and> hd args = SLASH then args else cwd @ ''/'' @ args)"

definition buildResolvedPath ::
  "(string \<Rightarrow> nat + stat_t) \<Rightarrow> string \<Rightarrow> string \<Rightarrow> resolve_error + string" where
  "buildResolvedPath stat cwd args = resolvePath stat (buildPath cwd args)"

section \<open>What the specification says of a resolved path\<close>

text \<open>
  The components of a path are the pieces between its slashes; \<open>hasDoubledSlash\<close> finds
  two slashes in a row. \<open>popDots\<close> is the specification's reading of the collapse: drop
  \<open>.\<close>, pop on \<open>..\<close> without going above the root (the stack is kept reversed).
\<close>

fun splitOn :: "char \<Rightarrow> string \<Rightarrow> string list" where
  "splitOn c [] = [[]]"
| "splitOn c (x # xs) =
     (if x = c then [] # splitOn c xs
      else (case splitOn c xs of
              [] \<Rightarrow> [[x]]
            | y # ys \<Rightarrow> (x # y) # ys))"



section \<open>The session\<close>

subsection \<open>Buffers\<close>

text \<open>
  Modelled from the specification: the class \<open>Buffer\<close> is declared in a header that is
  not part of the sources at hand. It is a contiguous byte region of a fixed capacity with
  a used region; \<open>markUsed (n)\<close> extends the used region into the free area behind it,
  \<open>markFree (n)\<close> releases its first \<open>n\<close> bytes, \<open>clear\<close> resets both ends and \<open>coalesce\<close>
  moves the used bytes to the front. \<open>b_start\<close> is the number of released bytes that
  still precede the used region; \<open>b_data\<close> are the used bytes.
\<close>

record Buffer =
  b_cap :: nat
  b_start :: nat
  b_data :: string

definition newBuffer :: "nat \<Rightarrow> Buffer" where
  "newBuffer cap = \<lparr>b_cap = cap, b_start = 0, b_data = []\<rparr>"

definition freeSize :: "Buffer \<Rightarrow> nat" where
  "freeSize b = b_cap b - (b_start b + length (b_data b))"

definition usedSize :: "Buffer \<Rightarrow> nat" where
  "usedSize b = length (b_data b)"

definition usedArea :: "Buffer \<Rightarrow> string" where
  "usedArea b = b_data b"

definition bufEmpty :: "Buffer \<Rightarrow> bool" where
  "bufEmpty b = (b_data b = [])"

text \<open>Bytes written to the free area and then marked used (the caller checks the room).\<close>

definition markUsed :: "string \<Rightarrow> Buffer \<Rightarrow> Buffer" where
  "markUsed bytes b = b\<lparr>b_data := b_data b @ bytes\<rparr>"

definition markFree :: "nat \<Rightarrow> Buffer \<Rightarrow> Buffer" where
  "markFree n b = b\<lparr>b_start := b_start b + min n (length (b_data b)), b_data := drop n (b_data b)\<rparr>"

definition coalesce :: "Buffer \<Rightarrow> Buffer" where
  "coalesce b = b\<lparr>b_start := 0\<rparr>"

definition clear :: "Buffer \<Rightarrow> Buffer" where
  "clear b = b\<lparr>b_start := 0, b_data := []\<rparr>"

subsection \<open>Sockets, files and the platform\<close>

text \<open>
  A socket is known by its identity: two handles are the same socket when they are equal.
  \<open>SharedSocket\<close> and \<open>UniqueSocket\<close> handles are \<open>socket option\<close>, \<open>None\<close> for a null
  handle. A read or write on a socket gives a number of bytes, 0, \<open>EWOULDBLOCK\<close> or
  another error.
\<close>

type_synonym socket = nat

datatype io_result = IoBytes nat | IoZero | IoWouldBlock | IoError nat

datatype connect_result = Connected | InProgress | ConnectFailed nat

datatype platform = NDS | N3DS | SWITCH | POSIX

datatype State = COMMAND | DATA_CONNECT | DATA_TRANSFER

datatype XferFileMode = RETR_mode | STOR_mode | APPE_mode

datatype XferDirMode = LIST_mode | MLSD_mode | MLST_mode | NLST_mode | STAT_mode

datatype Transfer = listTransfer_fn | globTransfer_fn | retrieveTransfer_fn | storeTransfer_fn

datatype zkind = Deflate | Inflate

text \<open>What a read gives: bytes, the end of the input, \<open>EWOULDBLOCK\<close> or another error.\<close>

datatype read_result = RdBytes string | RdEof | RdWouldBlock | RdError nat

text \<open>
  What one call of zlib's \<open>deflate\<close> or \<open>inflate\<close> gives: the return code, the number of
  input bytes it took, the output bytes it made and its message.
\<close>

datatype zcode = Z_OK | Z_STREAM_END | Z_BUF_ERROR | Z_OTHER

record zresult =
  z_rc :: zcode
  z_taken :: nat
  z_made :: string
  z_msg :: "string option"

text \<open>The open file of a session: its path, the \<open>fopen\<close> mode and the offset sought.\<close>

record file_t =
  f_path :: string
  f_mode :: string
  f_pos :: "64 word"

text \<open>
  Modelled from the specification: \<open>FtpConfig\<close> is declared in a header that is not part of
  the sources at hand; it holds the user, the password, the listen port, the deflate level
  and the platform toggles.
\<close>

record config =
  cfg_user :: string
  cfg_pass :: string
  cfg_port :: nat
  cfg_deflateLevel :: int
  cfg_hostname :: string
  cfg_getMTime :: bool

text \<open>
  The session. The fields are those of \<open>FtpSession\<close> that the protocol engine reads,
  under their names; the log, the window and plot names and the transfer rate history
  serve the display only and are left out. Three fields stand for the world around the
  session: \<open>w_cmdWrites\<close> are the results the kernel will give to the coming writes on the
  command socket (\<open>EWOULDBLOCK\<close> once the list is used up), \<open>w_sent\<close> are the bytes
  written to the command socket so far, \<open>w_dataSent\<close> those written to data sockets, and
  \<open>w_aborted\<close> says that an assertion has failed (or a null handle was used) and the
  process is gone.
\<close>

record session =
  m_config :: config
  m_commandSocket :: "socket option"
  m_pasvSocket :: "socket option"
  m_dataSocket :: "socket option"
  m_pendingCloseSocket :: "socket list"
  m_commandBuffer :: Buffer
  m_responseBuffer :: Buffer
  m_xferBuffer :: Buffer
  m_zStreamBuffer :: Buffer
  m_zStream :: "zkind option"
  m_file :: "file_t option"
  m_dir :: "string list option"
  m_glob :: "string list option"
  m_state :: State
  m_timestamp :: int
  m_cwd :: string
  m_lwd :: string
  m_rename :: string
  m_workItem :: string
  m_portAddr :: "32 word \<times> 16 word"
  m_restartPosition :: "64 word"
  m_fileSize :: "64 word"
  m_filePosition :: "64 word"
  m_zStreamPosition :: "64 word"
  m_xferDirMode :: XferDirMode
  m_transfer :: Transfer
  m_authorizedUser :: bool
  m_authorizedPass :: bool
  m_pasv :: bool
  m_port :: bool
  m_recv :: bool
  m_send :: bool
  m_urgent :: bool
  m_deflate :: bool
  m_zFlushed :: bool
  m_eof :: bool
  m_mlstType :: bool
  m_mlstSize :: bool
  m_mlstModify :: bool
  m_mlstPerm :: bool
  m_mlstUnixMode :: bool
  m_devZero :: bool
  w_cmdWrites :: "io_result list"
  w_sent :: string
  w_dataSent :: string
  w_aborted :: bool

text \<open>
  What one command finds around it: the clock, \<open>errno\<close> as it stands on entry, the text of
  \<open>strerror\<close>, the file system calls with the \<open>errno\<close> of a failure, the socket calls, zlib's
  stream set-up and calls, the reads and writes of a transfer, the library's \<open>inet_aton\<close>, the configuration's own parsers, the build
  (platform, glob support, buffer sizes) and the server's start time.
\<close>

record env =
  e_now :: int
  e_errno :: nat
  e_strerror :: "nat \<Rightarrow> string"
  e_stat :: "string \<Rightarrow> nat + stat_t"
  e_lstat :: "string \<Rightarrow> nat + stat_t"
  e_unlink :: "string \<Rightarrow> nat option"
  e_mkdir :: "string \<Rightarrow> nat option"
  e_rmdir :: "string \<Rightarrow> nat option"
  e_rename :: "string \<Rightarrow> string \<Rightarrow> nat option"
  e_open :: "string \<Rightarrow> string \<Rightarrow> nat option"
  e_seek :: "64 word \<Rightarrow> nat option"
  e_opendir :: "string \<Rightarrow> nat + string list"
  e_chdir :: "string \<Rightarrow> nat option"
  e_globf :: "string \<Rightarrow> nat + string list"
  e_socket :: "socket option"
  e_bind :: bool
  e_listen :: bool
  e_sockName :: "string \<times> nat"
  e_setNonBlocking :: bool
  e_connect :: connect_result
  e_accept :: "socket option"
  e_zInit :: "string option option"
  e_inet_aton :: "string \<Rightarrow> 32 word option"
  e_setPort :: "string \<Rightarrow> nat + nat"
  e_setDeflateLevel :: "string \<Rightarrow> nat + int"
  e_save :: "nat option"
  e_startTime :: int
  e_stray :: char
  e_atMark :: int
  e_cmdRead :: "nat \<Rightarrow> read_result"
  e_cmdReadOOB :: "nat \<Rightarrow> read_result"
  e_dataWrite :: io_result
  e_dataRead :: "nat \<Rightarrow> read_result"
  e_fileRead :: "nat \<Rightarrow> read_result"
  e_fileWrite :: io_result
  e_deflate :: "bool \<Rightarrow> string \<Rightarrow> nat \<Rightarrow> zresult"
  e_inflate :: "string \<Rightarrow> nat \<Rightarrow> zresult"
  e_platform :: platform
  e_hasGlob :: bool
  e_COMMAND_BUFFERSIZE :: nat
  e_RESPONSE_BUFFERSIZE :: nat
  e_XFER_BUFFERSIZE :: nat


subsection \<open>Characters and numbers in replies\<close>

definition isdigit :: "char \<Rightarrow> bool" where
  "isdigit c = (48 \<le> (of_char c :: nat) \<and> (of_char c :: nat) \<le> 57)"

definition isspace :: "char \<Rightarrow> bool" where
  "isspace c = (c = CHR '' '' \<or> (9 \<le> (of_char c :: nat) \<and> (of_char c :: nat) \<le> 13))"

definition tolower :: "char \<Rightarrow> char" where
  "tolower c =
     (if 65 \<le> (of_char c :: nat) \<and> (of_char c :: nat) \<le> 90
      then char_of ((of_char c :: nat) + 32) else c)"

definition digitChar :: "nat \<Rightarrow> char" where
  "digitChar d = char_of (48 + d)"

text \<open>\<open>%u\<close>, \<open>%llu\<close> and \<open>%d\<close> of a number that is not negative; \<open>%lo\<close>; \<open>%02u\<close>.\<close>

function decimal :: "nat \<Rightarrow> string" where
  "decimal n = (if n < 10 then [digitChar n] else decimal (n div 10) @ [digitChar (n mod 10)])"
  by pat_completeness auto
termination
  by (relation "measure (\<lambda>n. n)") auto

declare decimal.simps [simp del]

function octal :: "nat \<Rightarrow> string" where
  "octal n = (if n < 8 then [digitChar n] else octal (n div 8) @ [digitChar (n mod 8)])"
  by pat_completeness auto
termination
  by (relation "measure (\<lambda>n. n)") auto

declare octal.simps [simp del]

definition pad2 :: "nat \<Rightarrow> string" where
  "pad2 n = (if n < 10 then CHR ''0'' # decimal n else decimal n)"

text \<open>\<open>%d\<close> of an \<open>int\<close>.\<close>

definition decimalInt :: "int \<Rightarrow> string" where
  "decimalInt i = (if i < 0 then CHR ''-'' # decimal (nat (- i)) else decimal (nat i))"

text \<open>A byte of a C string at an index; the terminating NUL at and beyond the end.\<close>

definition cnth :: "string \<Rightarrow> nat \<Rightarrow> char" where
  "cnth s i = (if i < length s then s ! i else NUL)"

subsection \<open>Closing sockets and changing state\<close>

text \<open>
  \<open>closeSocket\<close> on a shared handle: the last handle of a socket shuts the socket down
  and moves it to the pending list; a handle that shares the socket is only reset. Within
  a session the command handle and the data handle are the only ones that can share.
\<close>

definition closeCommand :: "session \<Rightarrow> session" where
  "closeCommand s =
     (case m_commandSocket s of
        None \<Rightarrow> s
      | Some c \<Rightarrow>
          if m_dataSocket s = Some c then s\<lparr>m_commandSocket := None\<rparr>
          else s\<lparr>m_pendingCloseSocket := m_pendingCloseSocket s @ [c], m_commandSocket := None\<rparr>)"

definition closePasv :: "session \<Rightarrow> session" where
  "closePasv s = s\<lparr>m_pasvSocket := None\<rparr>"

definition closeData :: "session \<Rightarrow> session" where
  "closeData s =
     (let s1 =
        (case m_dataSocket s of
           None \<Rightarrow> s
         | Some d \<Rightarrow>
             if m_commandSocket s = Some d then s\<lparr>m_dataSocket := None\<rparr>
             else s\<lparr>m_pendingCloseSocket := m_pendingCloseSocket s @ [d], m_dataSocket := None\<rparr>)
      in s1\<lparr>m_recv := False, m_send := False\<rparr>)"

definition authorized :: "session \<Rightarrow> bool" where
  "authorized s = (m_authorizedUser s \<and> m_authorizedPass s)"

definition setState :: "env \<Rightarrow> State \<Rightarrow> bool \<Rightarrow> bool \<Rightarrow> session \<Rightarrow> session" where
  "setState env state closePasvF closeDataF s =
     (let s1 = s\<lparr>m_state := state, m_timestamp := e_now env\<rparr>;
          s2 = (if closePasvF then closePasv s1 else s1);
          s3 = (if closeDataF then closeData s2 else s2)
      in if state = COMMAND then
           s3\<lparr>m_restartPosition := 0, m_fileSize := 0, m_filePosition := 0, m_workItem := [],
              m_devZero := False, m_file := None, m_dir := None, m_zStream := None\<rparr>
         else s3)"

subsection \<open>Replies\<close>

text \<open>
  Modelled from the specification: \<open>Socket::write (Buffer &)\<close> is not part of the sources
  at hand. It writes from the used area and releases what it wrote. The kernel's answer
  is the next entry of \<open>w_cmdWrites\<close>.
\<close>

definition cmdWrite :: "session \<Rightarrow> io_result \<times> session" where
  "cmdWrite s =
     (case w_cmdWrites s of
        [] \<Rightarrow> (IoWouldBlock, s)
      | r # rs \<Rightarrow>
          (case r of
             IoBytes n \<Rightarrow>
               (let k = min n (usedSize (m_responseBuffer s)) in
                if k = 0 then (IoZero, s\<lparr>w_cmdWrites := rs\<rparr>)
                else (IoBytes k,
                      s\<lparr>w_cmdWrites := rs,
                        w_sent := w_sent s @ take k (usedArea (m_responseBuffer s)),
                        m_responseBuffer := markFree k (m_responseBuffer s)\<rparr>))
           | _ \<Rightarrow> (r, s\<lparr>w_cmdWrites := rs\<rparr>)))"

text \<open>
  \<open>sendResponse (fmt, ...)\<close>, given the formatted text. \<open>vsnprintf\<close> returns the length of
  the text; a text longer than the free area closes the command socket; a text of
  exactly the free area's size loses its last byte to the terminating NUL. Then one write
  is tried at once: \<open>EWOULDBLOCK\<close> leaves the text in the buffer, any other failure (or 0)
  closes the command socket.
\<close>

definition sendResponse :: "env \<Rightarrow> string \<Rightarrow> session \<Rightarrow> session" where
  "sendResponse env response s =
     (if m_commandSocket s = None then s
      else
        let sz = freeSize (m_responseBuffer s); rc = length response in
        if rc > sz then closeCommand s
        else
          let s1 = s\<lparr>m_responseBuffer :=
                      markUsed (if rc < sz then response else butlast response @ [NUL])
                        (m_responseBuffer s)\<rparr>
          in case cmdWrite s1 of
               (IoBytes n, s2) \<Rightarrow>
                 s2\<lparr>m_timestamp := e_now env, m_responseBuffer := coalesce (m_responseBuffer s2)\<rparr>
             | (IoWouldBlock, s2) \<Rightarrow> s2
             | (_, s2) \<Rightarrow> closeCommand s2)"

text \<open>\<open>sendResponse (std::string_view)\<close> copies the text and tries no write.\<close>

definition sendResponseView :: "string \<Rightarrow> session \<Rightarrow> session" where
  "sendResponseView response s =
     (if m_commandSocket s = None then s
      else if length response > freeSize (m_responseBuffer s) then closeCommand s
      else s\<lparr>m_responseBuffer := markUsed response (m_responseBuffer s)\<rparr>)"

text \<open>\<open>writeResponse\<close>, on \<open>POLLOUT\<close> of the command socket.\<close>

definition writeResponse :: "env \<Rightarrow> session \<Rightarrow> session" where
  "writeResponse env s =
     (case cmdWrite s of
        (IoBytes n, s1) \<Rightarrow>
          s1\<lparr>m_timestamp := e_now env, m_responseBuffer := coalesce (m_responseBuffer s1)\<rparr>
      | (_, s1) \<Rightarrow> closeCommand s1)"

text \<open>
  Everything the server has put on the command channel, written or still queued, in
  order: the replies a client will read.
\<close>

definition replies :: "session \<Rightarrow> string" where
  "replies s = w_sent s @ usedArea (m_responseBuffer s)"

definition abort :: "session \<Rightarrow> session" where
  "abort s = s\<lparr>w_aborted := True\<rparr>"


subsection \<open>Broken-down time\<close>

text \<open>
  The C library's \<open>gmtime\<close> and the conversions of \<open>strftime\<close> that \<open>fillDirent\<close> uses, in
  the C locale. \<open>gmtime\<close> turns seconds since 1970-01-01 00:00:00 UTC into a calendar date
  of the proleptic Gregorian calendar; it fails when the year does not fit an \<open>int\<close>.
\<close>

record tm =
  tm_sec :: int
  tm_min :: int
  tm_hour :: int
  tm_mday :: int
  tm_mon :: int
  tm_year :: int

definition gmtime :: "int \<Rightarrow> tm option" where
  "gmtime t =
     (let days = t div 86400; secs = t mod 86400;
          z = days + 719468;
          era = z div 146097;
          doe = z - era * 146097;
          yoe = (doe - doe div 1460 + doe div 36524 - doe div 146096) div 365;
          y = yoe + era * 400;
          doy = doe - (365 * yoe + yoe div 4 - yoe div 100);
          mp = (5 * doy + 2) div 153;
          d = doy - (153 * mp + 2) div 5 + 1;
          m = (if mp < 10 then mp + 3 else mp - 9);
          year = (if m \<le> 2 then y + 1 else y)
      in if year - 1900 < - (2 ^ 31) \<or> 2 ^ 31 \<le> year - 1900 then None
         else Some \<lparr>tm_sec = secs mod 60, tm_min = (secs div 60) mod 60, tm_hour = secs div 3600,
                    tm_mday = d, tm_mon = m - 1, tm_year = year - 1900\<rparr>)"

definition pad2i :: "int \<Rightarrow> string" where
  "pad2i i = pad2 (nat i)"

text \<open>\<open>%e\<close>: the day of the month, padded with a space.\<close>

definition padSpace2 :: "int \<Rightarrow> string" where
  "padSpace2 i = (if i < 10 then CHR '' '' # decimal (nat i) else decimal (nat i))"

text \<open>\<open>%b\<close>: the abbreviated month name.\<close>

definition monthName :: "int \<Rightarrow> string" where
  "monthName m =
     [''Jan'', ''Feb'', ''Mar'', ''Apr'', ''May'', ''Jun'',
      ''Jul'', ''Aug'', ''Sep'', ''Oct'', ''Nov'', ''Dec''] ! nat (m mod 12)"

text \<open>The three formats: \<open>Modify=%Y%m%d%H%M%S;\<close>, \<open>%b %e %Y \<close> and \<open>%b %e %H:%M \<close>.\<close>

definition fmtModify :: "tm \<Rightarrow> string" where
  "fmtModify t =
     ''Modify='' @ decimalInt (tm_year t + 1900) @ pad2i (tm_mon t + 1) @ pad2i (tm_mday t)
       @ pad2i (tm_hour t) @ pad2i (tm_min t) @ pad2i (tm_sec t) @ '';''"

definition fmtDateYear :: "tm \<Rightarrow> string" where
  "fmtDateYear t =
     monthName (tm_mon t) @ '' '' @ padSpace2 (tm_mday t) @ '' ''
       @ decimalInt (tm_year t + 1900) @ '' ''"

definition fmtDateTime :: "tm \<Rightarrow> string" where
  "fmtDateTime t =
     monthName (tm_mon t) @ '' '' @ padSpace2 (tm_mday t) @ '' ''
       @ pad2i (tm_hour t) @ '':'' @ pad2i (tm_min t) @ '' ''"

subsection \<open>Formatting a directory entry (\<open>fillDirent\<close>)\<close>

text \<open>The file types and permission bits of \<open>st_mode\<close>.\<close>

abbreviation S_IFLNK :: "32 word" where "S_IFLNK \<equiv> 0xA000"
abbreviation S_IFCHR :: "32 word" where "S_IFCHR \<equiv> 0x2000"
abbreviation S_IFBLK :: "32 word" where "S_IFBLK \<equiv> 0x6000"
abbreviation S_IFIFO :: "32 word" where "S_IFIFO \<equiv> 0x1000"
abbreviation S_IFSOCK :: "32 word" where "S_IFSOCK \<equiv> 0xC000"

abbreviation S_IRUSR :: "32 word" where "S_IRUSR \<equiv> 0x100"
abbreviation S_IWUSR :: "32 word" where "S_IWUSR \<equiv> 0x80"
abbreviation S_IXUSR :: "32 word" where "S_IXUSR \<equiv> 0x40"
abbreviation S_IRGRP :: "32 word" where "S_IRGRP \<equiv> 0x20"
abbreviation S_IWGRP :: "32 word" where "S_IWGRP \<equiv> 0x10"
abbreviation S_IXGRP :: "32 word" where "S_IXGRP \<equiv> 0x8"
abbreviation S_IROTH :: "32 word" where "S_IROTH \<equiv> 0x4"
abbreviation S_IWOTH :: "32 word" where "S_IWOTH \<equiv> 0x2"
abbreviation S_IXOTH :: "32 word" where "S_IXOTH \<equiv> 0x1"

text \<open>\<open>S_IRWXU | S_IRWXG | S_IRWXO | S_ISVTX | S_ISGID | S_ISUID\<close>, octal 7777.\<close>

abbreviation UNIX_MODE_MASK :: "32 word" where "UNIX_MODE_MASK \<equiv> 0xFFF"

definition isType :: "32 word \<Rightarrow> 32 word \<Rightarrow> bool" where
  "isType m t = (m AND S_IFMT = t)"

definition hasBit :: "32 word \<Rightarrow> 32 word \<Rightarrow> bool" where
  "hasBit m b = (m AND b \<noteq> 0)"

text \<open>
  Writing into the free area of the buffer, of \<open>size\<close> bytes: \<open>out\<close> are the bytes written
  so far, so that \<open>pos\<close> is their number. A step fails with \<open>EAGAIN\<close> when the room is
  used up. \<open>snprintf\<close> passes a text of exactly the room's size, with its last byte lost to
  the terminating NUL; \<open>strftime\<close> needs room for the NUL as well.
\<close>

definition putc :: "nat \<Rightarrow> char \<Rightarrow> string \<Rightarrow> nat + string" where
  "putc sz c out = (if sz \<le> length out then Inl EAGAIN else Inr (out @ [c]))"

definition snprintfAt :: "nat \<Rightarrow> string \<Rightarrow> string \<Rightarrow> nat + string" where
  "snprintfAt sz text out =
     (let room = sz - length out; rc = length text in
      if rc > room then Inl EAGAIN
      else if rc = room then Inr (out @ butlast text @ [NUL])
      else Inr (out @ text))"

definition strftimeAt :: "nat \<Rightarrow> string \<Rightarrow> string \<Rightarrow> nat + string" where
  "strftimeAt sz text out =
     (if sz - length out < length text + 1 then Inl EAGAIN else Inr (out @ text))"

text \<open>The steps run in order; the first failure ends the run.\<close>

definition steps :: "(string \<Rightarrow> nat + string) list \<Rightarrow> string \<Rightarrow> nat + string" where
  "steps fs out = foldl (\<lambda>acc f. case acc of Inl e \<Rightarrow> Inl e | Inr o1 \<Rightarrow> f o1) (Inr out) fs"

definition whenStep :: "bool \<Rightarrow> (string \<Rightarrow> nat + string) \<Rightarrow> string \<Rightarrow> nat + string" where
  "whenStep b f out = (if b then f out else Inr out)"

text \<open>The type fact: the type given by the caller, or the one read off \<open>st_mode\<close>.\<close>

definition mlstTypeName :: "platform \<Rightarrow> 32 word \<Rightarrow> string" where
  "mlstTypeName pf m =
     (if S_ISREG m then ''file''
      else if S_ISDIR m then ''dir''
      else if pf = N3DS \<or> pf = SWITCH then ''???''
      else if isType m S_IFLNK then ''os.unix=symlink''
      else if isType m S_IFCHR then ''os.unix=character''
      else if isType m S_IFBLK then ''os.unix=block''
      else if isType m S_IFIFO then ''os.unix=fifo''
      else if isType m S_IFSOCK then ''os.unix=socket''
      else ''???'')"

definition permFact :: "nat \<Rightarrow> 32 word \<Rightarrow> string \<Rightarrow> nat + string" where
  "permFact sz m out =
     (if sz - length out < 5 then Inl EAGAIN
      else steps
        [whenStep (S_ISREG m \<and> hasBit m S_IWUSR) (putc sz CHR ''a''),
         whenStep (S_ISDIR m \<and> hasBit m S_IWUSR) (putc sz CHR ''c''),
         putc sz CHR ''d'',
         whenStep (S_ISDIR m \<and> hasBit m S_IXUSR) (putc sz CHR ''e''),
         putc sz CHR ''f'',
         whenStep (S_ISDIR m \<and> hasBit m S_IRUSR) (putc sz CHR ''l''),
         whenStep (S_ISDIR m \<and> hasBit m S_IWUSR) (putc sz CHR ''m''),
         whenStep (S_ISDIR m \<and> hasBit m S_IWUSR) (putc sz CHR ''p''),
         whenStep (S_ISREG m \<and> hasBit m S_IRUSR) (putc sz CHR ''r''),
         whenStep (S_ISREG m \<and> hasBit m S_IWUSR) (putc sz CHR ''w''),
         putc sz CHR '';'']
        (out @ ''Perm=''))"

definition modifyFact :: "nat \<Rightarrow> nat \<Rightarrow> int \<Rightarrow> string \<Rightarrow> nat + string" where
  "modifyFact errno sz mtime out =
     (case gmtime mtime of
        None \<Rightarrow> Inl errno
      | Some t \<Rightarrow> strftimeAt sz (fmtModify t) out)"

text \<open>
  The space before the name: \<open>buffer[pos - 1]\<close> is the last byte written, or, when nothing
  was written, the byte that happens to precede the free area.
\<close>

definition spaceBeforeName :: "nat \<Rightarrow> char \<Rightarrow> string \<Rightarrow> nat + string" where
  "spaceBeforeName sz stray out =
     (if (if out = [] then stray else last out) \<noteq> CHR '' '' then putc sz CHR '' '' out
      else Inr out)"

definition typeChar :: "platform \<Rightarrow> 32 word \<Rightarrow> char" where
  "typeChar pf m =
     (if S_ISREG m then CHR ''-''
      else if S_ISDIR m then CHR ''d''
      else if pf = N3DS \<or> pf = SWITCH then CHR ''?''
      else if isType m S_IFLNK then CHR ''l''
      else if isType m S_IFCHR then CHR ''c''
      else if isType m S_IFBLK then CHR ''b''
      else if isType m S_IFIFO then CHR ''p''
      else if isType m S_IFSOCK then CHR ''s''
      else CHR ''?'')"

definition rwx :: "32 word \<Rightarrow> string" where
  "rwx m =
     [if hasBit m S_IRUSR then CHR ''r'' else CHR ''-'',
      if hasBit m S_IWUSR then CHR ''w'' else CHR ''-'',
      if hasBit m S_IXUSR then CHR ''x'' else CHR ''-'',
      if hasBit m S_IRGRP then CHR ''r'' else CHR ''-'',
      if hasBit m S_IWGRP then CHR ''w'' else CHR ''-'',
      if hasBit m S_IXGRP then CHR ''x'' else CHR ''-'',
      if hasBit m S_IROTH then CHR ''r'' else CHR ''-'',
      if hasBit m S_IWOTH then CHR ''w'' else CHR ''-'',
      if hasBit m S_IXOTH then CHR ''x'' else CHR ''-'']"

definition ownerName :: "platform \<Rightarrow> nat \<Rightarrow> string" where
  "ownerName pf uid =
     (if pf = N3DS then ''3DS'' else if pf = SWITCH then ''Switch'' else decimal uid)"

definition listHeader :: "platform \<Rightarrow> stat_t \<Rightarrow> string" where
  "listHeader pf st =
     typeChar pf (st_mode st) # rwx (st_mode st) @ '' '' @ decimal (st_nlink st) @ '' ''
       @ ownerName pf (st_uid st) @ '' '' @ ownerName pf (st_gid st) @ '' ''
       @ decimal (st_size st) @ '' ''"

text \<open>
  The timestamp of a \<open>LIST\<close> line. \<open>strftime\<close> returns 0 when the text does not fit, and
  the code goes on with nothing added.
\<close>

definition listTime :: "nat \<Rightarrow> nat \<Rightarrow> int \<Rightarrow> int \<Rightarrow> string \<Rightarrow> nat + string" where
  "listTime errno sz timestamp mtime out =
     (case gmtime mtime of
        None \<Rightarrow> Inl errno
      | Some t \<Rightarrow>
          (let text = (if timestamp > mtime \<and> timestamp - mtime < 60 * 60 * 24 * 365 div 2
                       then fmtDateTime t else fmtDateYear t)
           in if sz - length out < length text + 1 then Inr out else Inr (out @ text)))"

text \<open>
  \<open>fillDirent (st_, path_, type_)\<close>: the entry is written to the free area of the
  \<open>ioBuffer\<close> (the zlib staging buffer under \<open>MODE Z\<close>, the transfer buffer otherwise) and
  marked used. The result is 0 or an \<open>errno\<close>.
\<close>

definition direntLine :: "env \<Rightarrow> session \<Rightarrow> nat \<Rightarrow> stat_t \<Rightarrow> string \<Rightarrow> string option \<Rightarrow> nat + string" where
  "direntLine env s sz st path type =
     (case
        (if m_xferDirMode s = MLSD_mode \<or> m_xferDirMode s = MLST_mode then
           steps
             [whenStep (m_xferDirMode s = MLST_mode) (putc sz CHR '' ''),
              whenStep (m_mlstType s)
                (snprintfAt sz
                   (''Type='' @ (case type of
                                   None \<Rightarrow> mlstTypeName (e_platform env) (st_mode st)
                                 | Some t \<Rightarrow> t) @ '';'')),
              whenStep (m_mlstSize s) (snprintfAt sz (''Size='' @ decimal (st_size st) @ '';'')),
              whenStep (m_mlstModify s) (modifyFact (e_errno env) sz (st_mtime st)),
              whenStep (m_mlstPerm s) (permFact sz (st_mode st)),
              whenStep (m_mlstUnixMode s)
                (snprintfAt sz
                   (''UNIX.mode=0'' @ octal (unat (st_mode st AND UNIX_MODE_MASK)) @ '';'')),
              spaceBeforeName sz (e_stray env)]
             []
         else if m_xferDirMode s \<noteq> NLST_mode then
           steps
             [whenStep (m_xferDirMode s = STAT_mode) (putc sz CHR '' ''),
              snprintfAt sz (listHeader (e_platform env) st),
              listTime (e_errno env) sz (m_timestamp s) (st_mtime st)]
             []
         else Inr [])
      of
        Inl e \<Rightarrow> Inl e
      | Inr out \<Rightarrow>
          if sz - length out < length path + 2 then Inl EAGAIN
          else Inr (out @ path @ CRLF))"

definition fillDirent ::
    "env \<Rightarrow> stat_t \<Rightarrow> string \<Rightarrow> string option \<Rightarrow> session \<Rightarrow> nat \<times> session" where
  "fillDirent env st path type s =
     (let ioBuffer = (if m_deflate s then m_zStreamBuffer s else m_xferBuffer s) in
      case direntLine env s (freeSize ioBuffer) st path type of
        Inl e \<Rightarrow> (e, s)
      | Inr line \<Rightarrow>
          (0,
           (if m_deflate s then s\<lparr>m_zStreamBuffer := markUsed line ioBuffer\<rparr>
            else s\<lparr>m_xferBuffer := markUsed line ioBuffer\<rparr>)
             \<lparr>m_filePosition := m_filePosition s + of_nat (length line)\<rparr>))"

text \<open>
  \<open>fillDirent (path_, type_)\<close>: \<open>tzStat\<close> first. \<open>e_stat\<close> is what \<open>tzStat\<close> reports, with the
  modification time that the 3DS build substitutes already in place.
\<close>

definition fillDirentPath ::
    "env \<Rightarrow> string \<Rightarrow> string option \<Rightarrow> session \<Rightarrow> nat \<times> session" where
  "fillDirentPath env path type s =
     (case e_stat env (c_str path) of
        Inl e \<Rightarrow> (e, s)
      | Inr st \<Rightarrow> fillDirent env st (encodePath path False) type s)"


subsection \<open>The data connection\<close>

definition zlibMessage :: "string option \<Rightarrow> string" where
  "zlibMessage msg = (case msg of None \<Rightarrow> ''zlib error'' | Some m \<Rightarrow> m)"

text \<open>\<open>dataConnect\<close>: the active connection to the address of the last \<open>PORT\<close>.\<close>

definition dataConnect :: "env \<Rightarrow> session \<Rightarrow> bool \<times> session" where
  "dataConnect env s =
     (if \<not> m_port s then (False, abort s)
      else
        let s1 = s\<lparr>m_port := False, m_dataSocket := e_socket env\<rparr> in
        if m_dataSocket s1 = None then (False, s1)
        else if \<not> e_setNonBlocking env then (False, s1)
        else case e_connect env of
               ConnectFailed e \<Rightarrow> (False, s1)
             | InProgress \<Rightarrow> (True, s1)
             | Connected \<Rightarrow>
                 (True, setState env DATA_TRANSFER True False
                          (sendResponse env (''150 Ready'' @ CRLF) s1)))"

text \<open>\<open>dataAccept\<close>: the passive listener is readable.\<close>

definition dataAccept :: "env \<Rightarrow> session \<Rightarrow> bool \<times> session" where
  "dataAccept env s =
     (if \<not> m_pasv s then
        (False, setState env COMMAND True True
                  (sendResponse env (''503 Bad sequence of commands'' @ CRLF) s))
      else if m_pasvSocket s = None then (False, abort (s\<lparr>m_pasv := False\<rparr>))
      else
        let s1 = s\<lparr>m_pasv := False, m_dataSocket := e_accept env\<rparr> in
        if m_dataSocket s1 = None then
          (False, setState env COMMAND True True
                    (sendResponse env (''425 Failed to establish connection'' @ CRLF) s1))
        else if \<not> e_setNonBlocking env then
          (False, setState env COMMAND True True
                    (sendResponse env (''425 Failed to establish connection'' @ CRLF) s1))
        else
          (True, setState env DATA_TRANSFER True False
                   (sendResponse env (''150 Ready'' @ CRLF) s1)))"

text \<open>
  The end of \<open>xferFile\<close>, from the check that \<open>PORT\<close> or \<open>PASV\<close> came before: the state
  becomes \<open>DATA_CONNECT\<close>, an active connection is started, and the transfer is set up.
\<close>

definition xferFileConnect :: "env \<Rightarrow> XferFileMode \<Rightarrow> string \<Rightarrow> session \<Rightarrow> session" where
  "xferFileConnect env mode path s =
     (if \<not> m_port s \<and> \<not> m_pasv s then
        setState env COMMAND True True
          (sendResponse env (''503 Bad sequence of commands'' @ CRLF) s)
      else
        let s1 = setState env DATA_CONNECT False True s;
            (ok, s2) = (if m_port s1 then dataConnect env s1 else (True, s1))
        in if w_aborted s2 then s2
           else if \<not> ok then
             setState env COMMAND True True
               (sendResponse env (''425 Can't open data connection'' @ CRLF) s2)
           else
             (if mode = RETR_mode then
                s2\<lparr>m_recv := False, m_send := True, m_transfer := retrieveTransfer_fn\<rparr>
              else
                s2\<lparr>m_recv := True, m_send := False, m_transfer := storeTransfer_fn\<rparr>)
               \<lparr>m_workItem := path\<rparr>)"

text \<open>
  The opening of the file in \<open>xferFile\<close>. A failure replies 450 and returns from
  \<open>xferFile\<close> at once (\<open>Inl\<close>), without a change of state.
\<close>

definition xferFileOpen :: "env \<Rightarrow> XferFileMode \<Rightarrow> string \<Rightarrow> session \<Rightarrow> session + session" where
  "xferFileOpen env mode path s =
     (if path = ''/devZero'' then Inr (s\<lparr>m_devZero := True\<rparr>)
      else if mode = RETR_mode then
        (case e_stat env (c_str path) of
           Inl e \<Rightarrow> Inl (sendResponse env (''450 '' @ e_strerror env e @ CRLF) s)
         | Inr st \<Rightarrow>
             (case e_open env (c_str path) ''rb'' of
                Some e \<Rightarrow> Inl (sendResponse env (''450 '' @ e_strerror env e @ CRLF) s)
              | None \<Rightarrow>
                  (let s1 = s\<lparr>m_file := Some \<lparr>f_path = path, f_mode = ''rb'', f_pos = 0\<rparr>,
                               m_fileSize := of_nat (st_size st)\<rparr>
                   in if m_restartPosition s1 \<noteq> 0 then
                        (case e_seek env (m_restartPosition s1) of
                           Some e \<Rightarrow> Inl (sendResponse env (''450 '' @ e_strerror env e @ CRLF) s1)
                         | None \<Rightarrow>
                             Inr (s1\<lparr>m_file := Some \<lparr>f_path = path, f_mode = ''rb'',
                                                       f_pos = m_restartPosition s1\<rparr>,
                                     m_filePosition := m_restartPosition s1\<rparr>))
                      else Inr (s1\<lparr>m_filePosition := m_restartPosition s1\<rparr>))))
      else
        (let append = (mode = APPE_mode);
             fmode = (if append then ''ab'' else if m_restartPosition s \<noteq> 0 then ''r+b'' else ''wb'')
         in case e_open env (c_str path) fmode of
              Some e \<Rightarrow> Inl (sendResponse env (''450 '' @ e_strerror env e @ CRLF) s)
            | None \<Rightarrow>
                (let s1 = s\<lparr>m_file := Some \<lparr>f_path = path, f_mode = fmode, f_pos = 0\<rparr>\<rparr>
                 in if m_restartPosition s1 \<noteq> 0 \<and> \<not> append then
                      (case e_seek env (m_restartPosition s1) of
                         Some e \<Rightarrow> Inl (sendResponse env (''450 '' @ e_strerror env e @ CRLF) s1)
                       | None \<Rightarrow>
                           Inr (s1\<lparr>m_file := Some \<lparr>f_path = path, f_mode = fmode,
                                                     f_pos = m_restartPosition s1\<rparr>,
                                   m_filePosition := m_restartPosition s1\<rparr>))
                    else Inr (s1\<lparr>m_filePosition := m_restartPosition s1\<rparr>))))"

text \<open>The set-up at the start of \<open>xferFile\<close>.\<close>

definition xferFileSetup :: "XferFileMode \<Rightarrow> session \<Rightarrow> session" where
  "xferFileSetup mode s =
     (let s1 = s\<lparr>m_zFlushed := False, m_eof := False,
                 m_xferBuffer := clear (m_xferBuffer s),
                 m_zStreamBuffer := clear (m_zStreamBuffer s)\<rparr>
      in if m_deflate s1 then
           s1\<lparr>m_zStream := Some (if mode = RETR_mode then Deflate else Inflate)\<rparr>
         else s1)"

definition xferFile :: "env \<Rightarrow> string \<Rightarrow> XferFileMode \<Rightarrow> session \<Rightarrow> session" where
  "xferFile env args mode s =
     (let s2 = xferFileSetup mode s
      in if m_deflate s2 \<and> e_zInit env \<noteq> None then
           setState env COMMAND True True
             (sendResponse env (''550 '' @ zlibMessage (the (e_zInit env)) @ CRLF) s2)
         else
           case buildResolvedPath (e_stat env) (m_cwd s2) args of
             Inl AssertionFailed \<Rightarrow> abort s2
           | Inl (Errno e) \<Rightarrow>
               setState env COMMAND True True
                 (sendResponse env (''553 '' @ e_strerror env e @ CRLF) s2)
           | Inr path \<Rightarrow>
               (case xferFileOpen env mode path s2 of
                  Inl s3 \<Rightarrow> s3
                | Inr s3 \<Rightarrow> xferFileConnect env mode path s3))"

subsection \<open>Directory listings (\<open>xferDir\<close>)\<close>

text \<open>
  The end of \<open>xferDir\<close>: \<open>MLST\<close> and \<open>STAT\<close> send their data over the command socket, which
  becomes the data socket as well; the others need \<open>PORT\<close> or \<open>PASV\<close> and connect.
\<close>

definition xferDirConnect :: "env \<Rightarrow> XferDirMode \<Rightarrow> session \<Rightarrow> session" where
  "xferDirConnect env mode s =
     (if mode = MLST_mode \<or> mode = STAT_mode then
        (let s1 = setState env DATA_TRANSFER True True
                    (sendResponse env (''250-Status'' @ CRLF) s)
         in s1\<lparr>m_dataSocket := m_commandSocket s1, m_send := True\<rparr>)
      else if \<not> m_port s \<and> \<not> m_pasv s then
        setState env COMMAND True True
          (sendResponse env (''503 Bad sequence of commands'' @ CRLF) s)
      else
        let s1 = (setState env DATA_CONNECT False True s)\<lparr>m_send := True\<rparr>;
            (ok, s2) = (if m_port s1 then dataConnect env s1 else (True, s1))
        in if w_aborted s2 then s2
           else if \<not> ok then
             setState env COMMAND True True
               (sendResponse env (''425 Can't open data connection'' @ CRLF) s2)
           else s2)"

text \<open>A failed step of \<open>xferDir\<close>: reply 550 with the error text and return to \<open>COMMAND\<close>.\<close>

definition xferDirFail :: "env \<Rightarrow> string \<Rightarrow> nat \<Rightarrow> session \<Rightarrow> session" where
  "xferDirFail env code e s =
     setState env COMMAND True True
       (sendResponse env (code @ '' '' @ e_strerror env e @ CRLF) s)"

text \<open>
  The steps of \<open>xferDir\<close> once the path is known. Each ends with the common end of
  \<open>xferDir\<close> or with a failure.
\<close>

definition xferDirEntry ::
    "env \<Rightarrow> XferDirMode \<Rightarrow> stat_t \<Rightarrow> string \<Rightarrow> string option \<Rightarrow> string \<Rightarrow> session \<Rightarrow> session" where
  "xferDirEntry env mode st name type workItem s =
     (case fillDirent env st name type s of
        (rc, s1) \<Rightarrow>
          if rc \<noteq> 0 then xferDirFail env ''550'' rc s1
          else xferDirConnect env mode (s1\<lparr>m_workItem := workItem\<rparr>))"

definition xferDirEntryPath ::
    "env \<Rightarrow> XferDirMode \<Rightarrow> string \<Rightarrow> string option \<Rightarrow> string \<Rightarrow> session \<Rightarrow> session" where
  "xferDirEntryPath env mode path type workItem s =
     (case fillDirentPath env path type s of
        (rc, s1) \<Rightarrow>
          if rc \<noteq> 0 then xferDirFail env ''550'' rc s1
          else xferDirConnect env mode (s1\<lparr>m_workItem := workItem\<rparr>))"

text \<open>The argument names a directory: it is opened and becomes the listed directory.\<close>

definition xferDirOpen :: "env \<Rightarrow> XferDirMode \<Rightarrow> stat_t \<Rightarrow> string \<Rightarrow> session \<Rightarrow> session" where
  "xferDirOpen env mode st path s =
     (case e_opendir env (c_str path) of
        Inl e \<Rightarrow> xferDirFail env ''550'' e s
      | Inr entries \<Rightarrow>
          (let s1 = s\<lparr>m_dir := Some entries, m_lwd := path\<rparr> in
           if mode = MLSD_mode \<and> m_mlstType s1
           then xferDirEntry env mode st (m_lwd s1) (Some ''cdir'') (m_lwd s1) s1
           else xferDirConnect env mode (s1\<lparr>m_workItem := m_lwd s1\<rparr>)))"

text \<open>The argument names something else: one entry, under its full path or its base name.\<close>

definition xferDirFile :: "env \<Rightarrow> XferDirMode \<Rightarrow> stat_t \<Rightarrow> string \<Rightarrow> session \<Rightarrow> session" where
  "xferDirFile env mode st path s =
     (if mode = NLST_mode then xferDirEntry env mode st (encodePath path False) None path s
      else case rfind path SLASH of
             None \<Rightarrow> abort s
           | Some pos \<Rightarrow>
               xferDirEntry env mode st (encodePath (drop (Suc pos) path) False) None path s)"

definition xferDirStat :: "env \<Rightarrow> XferDirMode \<Rightarrow> stat_t \<Rightarrow> string \<Rightarrow> session \<Rightarrow> session" where
  "xferDirStat env mode st path s =
     (if mode = MLST_mode then xferDirEntry env mode st path None path s
      else if S_ISDIR (st_mode st) then xferDirOpen env mode st path s
      else if mode = MLSD_mode then xferDirFail env ''501'' ENOTDIR s
      else xferDirFile env mode st path s)"

text \<open>
  With an argument. \<open>xferDir\<close> calls itself once, without the workaround, when a client
  sent \<open>LIST -a\<close> or \<open>LIST -l\<close> and the argument is no path; \<open>retry\<close> is that call.
\<close>

definition needWorkaround :: "bool \<Rightarrow> string \<Rightarrow> bool" where
  "needWorkaround workaround args =
     (workaround \<and> cnth args 0 = CHR ''-''
      \<and> (cnth args 1 = CHR ''a'' \<or> cnth args 1 = CHR ''l'')
      \<and> (cnth args 2 = NUL \<or> cnth args 2 = CHR '' ''))"

definition xferDirArg ::
    "env \<Rightarrow> string \<Rightarrow> XferDirMode \<Rightarrow> bool \<Rightarrow> (string \<Rightarrow> session \<Rightarrow> session) \<Rightarrow> session \<Rightarrow> session" where
  "xferDirArg env args mode workaround retry s =
     (case buildResolvedPath (e_stat env) (m_cwd s) args of
        Inl AssertionFailed \<Rightarrow> abort s
      | Inl (Errno e) \<Rightarrow>
          if needWorkaround workaround args
          then retry (drop (2 + (if cnth args 2 = CHR '' '' then 1 else 0)) args) s
          else xferDirFail env ''550'' e s
      | Inr path \<Rightarrow>
          (case e_stat env (c_str path) of
             Inl e \<Rightarrow>
               if needWorkaround workaround args
               then retry (drop (2 + (if cnth args 2 = CHR '' '' then 1 else 0)) args) s
               else xferDirFail env ''550'' e s
           | Inr st \<Rightarrow> xferDirStat env mode st path s))"

text \<open>Without an argument: the working directory.\<close>

definition xferDirCwd :: "env \<Rightarrow> XferDirMode \<Rightarrow> session \<Rightarrow> session" where
  "xferDirCwd env mode s =
     (if mode = MLST_mode then xferDirEntryPath env mode (m_cwd s) None (m_cwd s) s
      else case e_opendir env (c_str (m_cwd s)) of
             Inl e \<Rightarrow> xferDirFail env ''550'' e s
           | Inr entries \<Rightarrow>
               (let s1 = s\<lparr>m_dir := Some entries, m_lwd := m_cwd s\<rparr> in
                if mode = MLSD_mode \<and> m_mlstType s1
                then xferDirEntryPath env mode (m_lwd s1) (Some ''cdir'') (m_lwd s1) s1
                else xferDirConnect env mode (s1\<lparr>m_workItem := m_lwd s1\<rparr>)))"

text \<open>The set-up at the start of \<open>xferDir\<close>.\<close>

definition xferDirSetup :: "XferDirMode \<Rightarrow> session \<Rightarrow> session" where
  "xferDirSetup mode s =
     (let s1 = s\<lparr>m_xferDirMode := mode, m_recv := False, m_send := True,
                 m_zFlushed := False, m_eof := False,
                 m_filePosition := 0, m_zStreamPosition := 0,
                 m_xferBuffer := clear (m_xferBuffer s),
                 m_zStreamBuffer := clear (m_zStreamBuffer s)\<rparr>
      in if m_deflate s1 then s1\<lparr>m_zStream := Some Deflate\<rparr> else s1)"

definition xferDirBody ::
    "env \<Rightarrow> string \<Rightarrow> XferDirMode \<Rightarrow> bool \<Rightarrow> (string \<Rightarrow> session \<Rightarrow> session) \<Rightarrow> session \<Rightarrow> session" where
  "xferDirBody env args mode workaround retry s =
     (let s2 = xferDirSetup mode s in
      if m_deflate s2 \<and> e_zInit env \<noteq> None then
        setState env COMMAND True True
          (sendResponse env (''550 '' @ zlibMessage (the (e_zInit env)) @ CRLF) s2)
      else
        let s3 = s2\<lparr>m_transfer := listTransfer_fn\<rparr> in
        if args \<noteq> [] then xferDirArg env args mode workaround retry s3
        else xferDirCwd env mode s3)"

definition xferDir :: "env \<Rightarrow> string \<Rightarrow> XferDirMode \<Rightarrow> bool \<Rightarrow> session \<Rightarrow> session" where
  "xferDir env args mode workaround s =
     xferDirBody env args mode workaround
       (\<lambda>args2. xferDirBody env args2 mode False (\<lambda>args3 s3. s3)) s"


subsection \<open>The transfer functions\<close>

text \<open>
  \<open>m_dataSocket->write (m_xferBuffer)\<close>: the kernel's answer is \<open>e_dataWrite\<close>; what is
  written leaves the buffer. When the data socket is the command socket (\<open>MLST\<close>, \<open>STAT\<close>)
  the bytes go out on the command channel.
\<close>

definition dataWrite :: "env \<Rightarrow> session \<Rightarrow> io_result \<times> session" where
  "dataWrite env s =
     (case e_dataWrite env of
        IoBytes n \<Rightarrow>
          (let k = min n (usedSize (m_xferBuffer s)) in
           if k = 0 then (IoZero, s)
           else
             (IoBytes k,
              (if m_dataSocket s = m_commandSocket s then
                 s\<lparr>w_sent := w_sent s @ take k (usedArea (m_xferBuffer s))\<rparr>
               else s\<lparr>w_dataSent := w_dataSent s @ take k (usedArea (m_xferBuffer s))\<rparr>)
                \<lparr>m_xferBuffer := markFree k (m_xferBuffer s)\<rparr>))
      | r \<Rightarrow> (r, s))"

text \<open>
  The common end of the sending transfers: send what is pending; \<open>EWOULDBLOCK\<close> yields,
  any other failure replies 426 and returns to \<open>COMMAND\<close>.
\<close>

definition sendPending :: "env \<Rightarrow> session \<Rightarrow> bool \<times> session" where
  "sendPending env s =
     (if m_dataSocket s = None then (False, abort s)
      else case dataWrite env s of
             (IoBytes n, s1) \<Rightarrow> (True, s1\<lparr>m_timestamp := e_now env\<rparr>)
           | (IoWouldBlock, s1) \<Rightarrow> (False, s1)
           | (_, s1) \<Rightarrow>
               (False, setState env COMMAND True True
                         (sendResponse env (''426 Connection broken during transfer'' @ CRLF) s1)))"

definition zlibFail :: "env \<Rightarrow> zresult \<Rightarrow> session \<Rightarrow> bool \<times> session" where
  "zlibFail env r s =
     (False, setState env COMMAND True True
               (sendResponse env (''501 '' @ zlibMessage (z_msg r) @ CRLF) s))"

definition zlibMove :: "zresult \<Rightarrow> nat \<Rightarrow> session \<Rightarrow> session" where
  "zlibMove r counted s =
     s\<lparr>m_zStreamBuffer := markFree (z_taken r) (m_zStreamBuffer s),
       m_xferBuffer := markUsed (z_made r) (m_xferBuffer s),
       m_zStreamPosition := m_zStreamPosition s + of_nat counted\<rparr>"

definition deflateBuffer :: "env \<Rightarrow> bool \<Rightarrow> session \<Rightarrow> bool \<times> session" where
  "deflateBuffer env flush s =
     (if m_zStream s = None then (False, abort s)
      else
        let r = e_deflate env flush (usedArea (m_zStreamBuffer s)) (freeSize (m_xferBuffer s)) in
        if flush then
          (if z_rc r = Z_OK \<or> z_rc r = Z_BUF_ERROR then (True, zlibMove r (length (z_made r)) s)
           else if z_rc r = Z_STREAM_END then
             (True, zlibMove r (length (z_made r)) (s\<lparr>m_zFlushed := True\<rparr>))
           else zlibFail env r s)
        else if z_rc r \<noteq> Z_OK then zlibFail env r s
        else (True, zlibMove r (length (z_made r)) s))"

definition inflateBuffer :: "env \<Rightarrow> session \<Rightarrow> bool \<times> session" where
  "inflateBuffer env s =
     (if m_zStream s = None then (False, abort s)
      else
        let r = e_inflate env (usedArea (m_zStreamBuffer s)) (freeSize (m_xferBuffer s)) in
        if z_rc r = Z_STREAM_END then (True, zlibMove r (z_taken r) (s\<lparr>m_zFlushed := True\<rparr>))
        else if z_rc r \<noteq> Z_OK then zlibFail env r s
        else (True, zlibMove r (z_taken r) s))"

text \<open>Bytes put into the \<open>ioBuffer\<close>: the zlib staging buffer under \<open>MODE Z\<close>.\<close>

definition ioFree :: "session \<Rightarrow> nat" where
  "ioFree s = freeSize (if m_deflate s then m_zStreamBuffer s else m_xferBuffer s)"

definition ioPut :: "string \<Rightarrow> session \<Rightarrow> session" where
  "ioPut bytes s =
     (if m_deflate s then s\<lparr>m_zStreamBuffer := markUsed bytes (m_zStreamBuffer s)\<rparr>
      else s\<lparr>m_xferBuffer := markUsed bytes (m_xferBuffer s)\<rparr>)"

text \<open>
  One round of the \<open>while (m_xferBuffer.empty ())\<close> loop of \<open>listTransfer\<close>: the function
  returns (\<open>Return\<close>) or the loop goes round again (\<open>Continue\<close>). On the 3DS the entry's
  own data stand in for \<open>lstat\<close>; \<open>e_lstat\<close> is what the entry is found to be either way.
\<close>

datatype loop_result = Return bool session | Continue session

definition listRound :: "env \<Rightarrow> session \<Rightarrow> loop_result" where
  "listRound env s0 =
     (let s = s0\<lparr>m_xferBuffer := clear (m_xferBuffer s0)\<rparr> in
      if \<not> bufEmpty (m_zStreamBuffer s) then
        (case deflateBuffer env False s of (b, s1) \<Rightarrow> Return b s1)
      else if m_deflate s \<and> \<not> m_zFlushed s \<and> m_eof s then
        (case deflateBuffer env True s of (b, s1) \<Rightarrow> Return b s1)
      else
        let s1 = s\<lparr>m_zStreamBuffer := clear (m_zStreamBuffer s)\<rparr>;
            rc = (if m_xferDirMode s1 = MLST_mode \<or> m_xferDirMode s1 = STAT_mode
                  then ''250'' else ''226'')
        in if m_eof s1 \<and> (m_deflate s1 = m_zFlushed s1) then
             Return False (setState env COMMAND True True
                             (sendResponse env (rc @ '' OK'' @ CRLF) s1))
           else
             case m_dir s1 of
               None \<Rightarrow> Return True (s1\<lparr>m_eof := True\<rparr>)
             | Some [] \<Rightarrow> Return True (s1\<lparr>m_eof := True\<rparr>)
             | Some (d_name # rest) \<Rightarrow>
                 (let s2 = s1\<lparr>m_dir := Some rest\<rparr> in
                  if d_name = ''.'' \<or> d_name = ''..'' then Continue s2
                  else if m_xferDirMode s2 = NLST_mode then
                    (let path = encodePath (buildPath (m_lwd s2) d_name) False @ CRLF in
                     if ioFree s2 < length path then
                       Return False (setState env COMMAND True True
                                       (sendResponse env (''501 '' @ e_strerror env ENOMEM @ CRLF) s2))
                     else
                       (let s3 = (ioPut path s2)
                                   \<lparr>m_filePosition := m_filePosition s2 + of_nat (length path)\<rparr>
                        in if m_deflate s3 then Return True s3 else Continue s3))
                  else
                    (case e_lstat env (c_str (buildPath (m_lwd s2) d_name)) of
                       Inl e \<Rightarrow> Continue s2
                     | Inr st \<Rightarrow>
                         (case fillDirent env st (encodePath d_name False) None s2 of
                            (rc2, s3) \<Rightarrow>
                              if rc2 \<noteq> 0 then
                                Return False
                                  (setState env COMMAND True True
                                     (sendResponse env
                                        (''425 '' @ e_strerror env (e_errno env) @ CRLF) s3))
                              else if m_deflate s3 then Return True s3
                              else Continue s3))))"

text \<open>The entries left in the open directory: what the loop uses up.\<close>

definition dirLeft :: "session \<Rightarrow> nat" where
  "dirLeft s = (case m_dir s of None \<Rightarrow> 0 | Some entries \<Rightarrow> length entries)"

lemma m_dir_ioPut: "m_dir (ioPut bytes s) = m_dir s"
  by (simp add: ioPut_def)

lemma m_dir_fillDirent: "fillDirent env st path type s = (rc, s') \<Longrightarrow> m_dir s' = m_dir s"
  by (auto simp: fillDirent_def Let_def split: sum.splits if_splits)

lemma listRound_Continue:
  "listRound env s = Continue s' \<Longrightarrow> dirLeft s' < dirLeft s"
  by (auto simp: listRound_def Let_def dirLeft_def m_dir_ioPut
           split: if_splits prod.splits option.splits list.splits sum.splits
           dest: m_dir_fillDirent)

text \<open>
  \<open>listTransfer\<close>: while the transfer buffer is empty the loop goes round, and every
  round that goes on has used up a directory entry; then what is pending is sent.
\<close>

function listTransfer :: "env \<Rightarrow> session \<Rightarrow> bool \<times> session" where
  "listTransfer env s =
     (if \<not> bufEmpty (m_xferBuffer s) then sendPending env s
      else case listRound env s of
             Return b s1 \<Rightarrow> (b, s1)
           | Continue s1 \<Rightarrow> listTransfer env s1)"
  by pat_completeness auto
termination
proof (relation "measure (\<lambda>(env, s). dirLeft s)")
  show "wf (measure (\<lambda>(env, s). dirLeft s))" by simp
next
  fix env :: env and s :: session and x2 :: session
  assume "listRound env s = Continue x2"
  then show "((env, x2), env, s) \<in> measure (\<lambda>(env, s). dirLeft s)"
    by (simp add: listRound_Continue)
qed

declare listTransfer.simps [simp del]

text \<open>\<open>Glob::next\<close> and \<open>globTransfer\<close> (only in a build with glob support).\<close>

definition globTransfer :: "env \<Rightarrow> session \<Rightarrow> bool \<times> session" where
  "globTransfer env s =
     (if \<not> e_hasGlob env then
        (False, setState env COMMAND True True
                  (sendResponse env (''451 Glob unsupported'' @ CRLF) s))
      else if bufEmpty (m_xferBuffer s) then
        (let s1 = s\<lparr>m_xferBuffer := clear (m_xferBuffer s)\<rparr> in
         case m_glob s1 of
           Some (entry # rest) \<Rightarrow>
             (let path = encodePath entry False @ CRLF; s2 = s1\<lparr>m_glob := Some rest\<rparr> in
              if freeSize (m_xferBuffer s2) < length path then
                (False, setState env COMMAND True True
                          (sendResponse env (''501 '' @ e_strerror env ENOMEM @ CRLF) s2))
              else
                sendPending env
                  (s2\<lparr>m_xferBuffer := markUsed path (m_xferBuffer s2),
                      m_filePosition := m_filePosition s2 + of_nat (length path)\<rparr>))
         | _ \<Rightarrow>
             (False, setState env COMMAND True True
                       (sendResponse env (''226 OK'' @ CRLF) (s1\<lparr>m_glob := None\<rparr>))))
      else sendPending env s)"

definition retrieveTransfer :: "env \<Rightarrow> session \<Rightarrow> bool \<times> session" where
  "retrieveTransfer env s0 =
     (if bufEmpty (m_xferBuffer s0) then
        (let s = s0\<lparr>m_xferBuffer := clear (m_xferBuffer s0)\<rparr> in
         if \<not> bufEmpty (m_zStreamBuffer s) then deflateBuffer env False s
         else if m_deflate s \<and> \<not> m_zFlushed s \<and> m_eof s then deflateBuffer env True s
         else
           let s1 = s\<lparr>m_zStreamBuffer := clear (m_zStreamBuffer s)\<rparr> in
           if \<not> m_devZero s1 then
             (if m_eof s1 \<and> (m_deflate s1 = m_zFlushed s1) then
                (False, setState env COMMAND True True
                          (sendResponse env (''226 OK'' @ CRLF) s1))
              else
                case e_fileRead env (ioFree s1) of
                  RdBytes bytes \<Rightarrow>
                    (let got = take (ioFree s1) bytes;
                         s2 = (ioPut got s1)
                                \<lparr>m_filePosition := m_filePosition s1 + of_nat (length got)\<rparr>
                     in if got = [] then (True, s1\<lparr>m_eof := True\<rparr>)
                        else if m_deflate s2 then (True, s2)
                        else sendPending env s2)
                | RdEof \<Rightarrow> (True, s1\<lparr>m_eof := True\<rparr>)
                | RdWouldBlock \<Rightarrow>
                    (False, setState env COMMAND True True
                              (sendResponse env (''451 '' @ e_strerror env EAGAIN @ CRLF) s1))
                | RdError e \<Rightarrow>
                    (False, setState env COMMAND True True
                              (sendResponse env (''451 '' @ e_strerror env e @ CRLF) s1)))
           else
             (let zeros = replicate (ioFree s1) NUL;
                  s2 = (ioPut zeros s1)
                         \<lparr>m_filePosition := m_filePosition s1 + of_nat (length zeros)\<rparr>
              in if m_deflate s2 then (True, s2) else sendPending env s2))
      else sendPending env s0)"

text \<open>The end of \<open>storeTransfer\<close>: what was received goes to the file, or nowhere.\<close>

definition storeWrite :: "env \<Rightarrow> session \<Rightarrow> bool \<times> session" where
  "storeWrite env s =
     (if \<not> m_devZero s then
        (case e_fileWrite env of
           IoBytes n \<Rightarrow>
             (let k = min n (usedSize (m_xferBuffer s)) in
              if k = 0 then
                (False, setState env COMMAND True True
                          (sendResponse env (''426 Failed to write data'' @ CRLF) s))
              else
                (True, s\<lparr>m_xferBuffer := markFree k (m_xferBuffer s),
                         m_filePosition := m_filePosition s + of_nat k\<rparr>))
         | IoZero \<Rightarrow>
             (False, setState env COMMAND True True
                       (sendResponse env (''426 Failed to write data'' @ CRLF) s))
         | IoWouldBlock \<Rightarrow>
             (False, setState env COMMAND True True
                       (sendResponse env (''426 '' @ e_strerror env EAGAIN @ CRLF) s))
         | IoError e \<Rightarrow>
             (False, setState env COMMAND True True
                       (sendResponse env (''426 '' @ e_strerror env e @ CRLF) s)))
      else
        (True, s\<lparr>m_filePosition := m_filePosition s + of_nat (usedSize (m_xferBuffer s)),
                 m_xferBuffer := clear (m_xferBuffer s)\<rparr>))"

definition storeTransfer :: "env \<Rightarrow> session \<Rightarrow> bool \<times> session" where
  "storeTransfer env s0 =
     (if bufEmpty (m_xferBuffer s0) then
        (let s = s0\<lparr>m_xferBuffer := clear (m_xferBuffer s0)\<rparr> in
         if \<not> bufEmpty (m_zStreamBuffer s) then inflateBuffer env s
         else if m_deflate s \<and> \<not> m_zFlushed s \<and> m_eof s then inflateBuffer env s
         else if m_eof s \<and> (m_deflate s = m_zFlushed s) then
           (False, setState env COMMAND True True (sendResponse env (''226 OK'' @ CRLF) s))
         else if m_dataSocket s = None then (False, abort s)
         else
           case e_dataRead env (ioFree s) of
             RdBytes bytes \<Rightarrow>
               (let got = take (ioFree s) bytes;
                    s1 = (ioPut got s)\<lparr>m_timestamp := e_now env\<rparr>
                in if got = [] then (True, s\<lparr>m_eof := True\<rparr>)
                   else if m_deflate s1 then (True, s1)
                   else storeWrite env s1)
           | RdEof \<Rightarrow> (True, s\<lparr>m_eof := True\<rparr>)
           | RdWouldBlock \<Rightarrow> (False, s)
           | RdError e \<Rightarrow>
               (False, setState env COMMAND True True
                         (sendResponse env (''451 '' @ e_strerror env e @ CRLF) s)))
      else storeWrite env s0)"

text \<open>The call through the member function pointer \<open>m_transfer\<close>.\<close>

definition transfer :: "env \<Rightarrow> session \<Rightarrow> bool \<times> session" where
  "transfer env s =
     (case m_transfer s of
        listTransfer_fn \<Rightarrow> listTransfer env s
      | globTransfer_fn \<Rightarrow> globTransfer env s
      | retrieveTransfer_fn \<Rightarrow> retrieveTransfer env s
      | storeTransfer_fn \<Rightarrow> storeTransfer env s)"


section \<open>Command handlers\<close>

subsection \<open>Case-insensitive comparison\<close>

definition isCString :: "string \<Rightarrow> bool" where
  "isCString str = (NUL \<in> set str)"

text \<open>Bytes are compared as unsigned values, after \<open>tolower\<close>.\<close>

definition charDiff :: "char \<Rightarrow> char \<Rightarrow> int" where
  "charDiff l r = int (of_char (tolower l)) - int (of_char (tolower r))"

fun strcasecmp :: "string \<Rightarrow> string \<Rightarrow> int" where
  "strcasecmp [] [] = 0"
| "strcasecmp [] (r # rs) = charDiff NUL r"
| "strcasecmp (l # ls) [] = charDiff l NUL"
| "strcasecmp (l # ls) (r # rs) =
     (if tolower l \<noteq> tolower r then charDiff l r else strcasecmp ls rs)"

fun compareLoop :: "string \<Rightarrow> string \<Rightarrow> int option" where
  "compareLoop (l # ls) (r # rs) =
     (if tolower l \<noteq> tolower r then Some (charDiff l r) else compareLoop ls rs)"
| "compareLoop _ _ = None"

definition compare :: "string \<Rightarrow> string \<Rightarrow> int" where
  "compare lhs rhs =
     (if isCString lhs \<and> isCString rhs then strcasecmp (c_str lhs) (c_str rhs)
      else case compareLoop lhs rhs of
             Some d \<Rightarrow> d
           | None \<Rightarrow> int (length lhs) - int (length rhs))"

text \<open>\<open>strncasecmp (a, b, n) == 0\<close> on C strings: the first \<open>n\<close> bytes, terminator included.\<close>

definition strncasecmpEq :: "string \<Rightarrow> string \<Rightarrow> nat \<Rightarrow> bool" where
  "strncasecmpEq a b n =
     (map tolower (take n (c_str a @ [NUL])) = map tolower (take n (c_str b @ [NUL])))"

subsection \<open>Changing directory\<close>

datatype cd_result = CdOk | CdFailed nat | CdAborted

definition changeDir :: "env \<Rightarrow> string \<Rightarrow> session \<Rightarrow> cd_result \<times> session" where
  "changeDir env args s =
     (if args = ''..'' then
        (case rfind (m_cwd s) SLASH of
           None \<Rightarrow> (CdAborted, abort s)
         | Some pos \<Rightarrow>
             if pos = 0 then (CdOk, s\<lparr>m_cwd := ''/''\<rparr>)
             else (CdOk, s\<lparr>m_cwd := substr (m_cwd s) 0 pos\<rparr>))
      else
        case buildResolvedPath (e_stat env) (m_cwd s) args of
          Inl AssertionFailed \<Rightarrow> (CdAborted, abort s)
        | Inl (Errno e) \<Rightarrow> (CdFailed e, s)
        | Inr path \<Rightarrow>
            (case e_stat env (c_str path) of
               Inl e \<Rightarrow> (CdFailed e, s)
             | Inr st \<Rightarrow>
                 if \<not> S_ISDIR (st_mode st) then (CdFailed ENOTDIR, s)
                 else (CdOk, s\<lparr>m_cwd := path\<rparr>)))"

subsection \<open>The handlers, in the order of the source\<close>

definition reply530 :: "env \<Rightarrow> session \<Rightarrow> session" where
  "reply530 env s = sendResponse env (''530 Not logged in'' @ CRLF) s"

definition ABOR :: "env \<Rightarrow> string \<Rightarrow> session \<Rightarrow> session" where
  "ABOR env args s =
     (if m_state s = COMMAND then sendResponse env (''225 No transfer to abort'' @ CRLF) s
      else
        setState env COMMAND True True
          (sendResponse env (''425 Transfer aborted'' @ CRLF)
             (sendResponse env (''225 Aborted'' @ CRLF) s)))"

definition ALLO :: "env \<Rightarrow> string \<Rightarrow> session \<Rightarrow> session" where
  "ALLO env args s =
     setState env COMMAND False False (sendResponse env (''202 Superfluous command'' @ CRLF) s)"

definition APPE :: "env \<Rightarrow> string \<Rightarrow> session \<Rightarrow> session" where
  "APPE env args s =
     (if \<not> authorized s then reply530 env (setState env COMMAND False False s)
      else xferFile env args APPE_mode s)"

definition CDUP :: "env \<Rightarrow> string \<Rightarrow> session \<Rightarrow> session" where
  "CDUP env args s =
     (let s1 = setState env COMMAND False False s in
      if \<not> authorized s1 then reply530 env s1
      else case changeDir env ''..'' s1 of
             (CdAborted, s2) \<Rightarrow> s2
           | (CdFailed e, s2) \<Rightarrow> sendResponse env (''550 '' @ e_strerror env e @ CRLF) s2
           | (CdOk, s2) \<Rightarrow> sendResponse env (''200 OK'' @ CRLF) s2)"

definition CWD :: "env \<Rightarrow> string \<Rightarrow> session \<Rightarrow> session" where
  "CWD env args s =
     (let s1 = setState env COMMAND False False s in
      if \<not> authorized s1 then reply530 env s1
      else case changeDir env args s1 of
             (CdAborted, s2) \<Rightarrow> s2
           | (CdFailed e, s2) \<Rightarrow> sendResponse env (''550 '' @ e_strerror env e @ CRLF) s2
           | (CdOk, s2) \<Rightarrow> sendResponse env (''200 OK'' @ CRLF) s2)"

definition DELE :: "env \<Rightarrow> string \<Rightarrow> session \<Rightarrow> session" where
  "DELE env args s =
     (let s1 = setState env COMMAND False False s in
      if \<not> authorized s1 then reply530 env s1
      else case buildResolvedPath (e_stat env) (m_cwd s1) args of
             Inl AssertionFailed \<Rightarrow> abort s1
           | Inl (Errno e) \<Rightarrow> sendResponse env (''553 '' @ e_strerror env e @ CRLF) s1
           | Inr path \<Rightarrow>
               (case e_unlink env (c_str path) of
                  Some e \<Rightarrow> sendResponse env (''550 '' @ e_strerror env e @ CRLF) s1
                | None \<Rightarrow> sendResponse env (''250 OK'' @ CRLF) s1))"

definition star :: "bool \<Rightarrow> string" where
  "star b = (if b then ''*'' else [])"

definition FEAT :: "env \<Rightarrow> string \<Rightarrow> session \<Rightarrow> session" where
  "FEAT env args s =
     (let s1 = setState env COMMAND False False s in
      sendResponse env
        (''211-'' @ CRLF
         @ '' MDTM'' @ CRLF
         @ '' MLST Type'' @ star (m_mlstType s1) @ '';Size'' @ star (m_mlstSize s1)
         @ '';Modify'' @ star (m_mlstModify s1) @ '';Perm'' @ star (m_mlstPerm s1)
         @ '';UNIX.mode'' @ star (m_mlstUnixMode s1) @ '';'' @ CRLF
         @ '' MODE Z'' @ CRLF
         @ '' PASV'' @ CRLF
         @ '' SIZE'' @ CRLF
         @ '' TVFS'' @ CRLF
         @ '' UTF8'' @ CRLF
         @ CRLF
         @ ''211 End'' @ CRLF) s1)"

definition HELP :: "env \<Rightarrow> string \<Rightarrow> session \<Rightarrow> session" where
  "HELP env args s =
     sendResponse env
       (''214-'' @ CRLF
        @ ''The following commands are recognized'' @ CRLF
        @ '' ABOR ALLO APPE CDUP CWD DELE FEAT HELP LIST MDTM MKD MLSD MLST MODE'' @ CRLF
        @ '' NLST NOOP OPTS PASS PASV PORT PWD QUIT REST RETR RMD RNFR RNTO SITE'' @ CRLF
        @ '' SIZE STAT STOR STOU STRU SYST TYPE USER XCUP XCWD XMKD XPWD XRMD'' @ CRLF
        @ ''214 End'' @ CRLF)
       (setState env COMMAND False False s)"

definition LIST :: "env \<Rightarrow> string \<Rightarrow> session \<Rightarrow> session" where
  "LIST env args s =
     (if \<not> authorized s then reply530 env (setState env COMMAND False False s)
      else xferDir env args LIST_mode True s)"

definition MDTM :: "env \<Rightarrow> string \<Rightarrow> session \<Rightarrow> session" where
  "MDTM env args s =
     (let s1 = setState env COMMAND False False s in
      if \<not> authorized s1 then reply530 env s1
      else sendResponse env (''502 Command not implemented'' @ CRLF) s1)"

definition MKD :: "env \<Rightarrow> string \<Rightarrow> session \<Rightarrow> session" where
  "MKD env args s =
     (let s1 = setState env COMMAND False False s in
      if \<not> authorized s1 then reply530 env s1
      else case buildResolvedPath (e_stat env) (m_cwd s1) args of
             Inl AssertionFailed \<Rightarrow> abort s1
           | Inl (Errno e) \<Rightarrow> sendResponse env (''553 '' @ e_strerror env e @ CRLF) s1
           | Inr path \<Rightarrow>
               (case e_mkdir env (c_str path) of
                  Some e \<Rightarrow> sendResponse env (''550 '' @ e_strerror env e @ CRLF) s1
                | None \<Rightarrow> sendResponse env (''250 OK'' @ CRLF) s1))"

definition MLSD :: "env \<Rightarrow> string \<Rightarrow> session \<Rightarrow> session" where
  "MLSD env args s =
     (if \<not> authorized s then reply530 env (setState env COMMAND False False s)
      else xferDir env args MLSD_mode False s)"

definition MLST :: "env \<Rightarrow> string \<Rightarrow> session \<Rightarrow> session" where
  "MLST env args s =
     (if \<not> authorized s then reply530 env (setState env COMMAND False False s)
      else xferDir env args MLST_mode False s)"

definition MODE :: "env \<Rightarrow> string \<Rightarrow> session \<Rightarrow> session" where
  "MODE env args s =
     (let s1 = setState env COMMAND False False s in
      if compare args ''S'' = 0 then sendResponse env (''200 OK'' @ CRLF) (s1\<lparr>m_deflate := False\<rparr>)
      else if compare args ''Z'' = 0 then
        sendResponse env (''200 OK'' @ CRLF) (s1\<lparr>m_deflate := True\<rparr>)
      else sendResponse env (''504 Unavailable'' @ CRLF) s1)"

definition NLST :: "env \<Rightarrow> string \<Rightarrow> session \<Rightarrow> session" where
  "NLST env args s =
     (if \<not> authorized s then reply530 env (setState env COMMAND False False s)
      else if e_hasGlob env \<and> CHR ''*'' \<in> set args then
        (case e_chdir env (c_str (m_cwd s)) of
           Some e \<Rightarrow>
             setState env COMMAND False False
               (sendResponse env (''501 '' @ e_strerror env e @ CRLF) s)
         | None \<Rightarrow>
             (case e_globf env args of
                Inl e \<Rightarrow>
                  setState env COMMAND False False
                    (sendResponse env (''501 '' @ e_strerror env e @ CRLF) (s\<lparr>m_glob := None\<rparr>))
              | Inr paths \<Rightarrow>
                  (let s1 = s\<lparr>m_glob := Some paths, m_transfer := globTransfer_fn\<rparr> in
                   if \<not> m_port s1 \<and> \<not> m_pasv s1 then
                     setState env COMMAND True True
                       (sendResponse env (''503 Bad sequence of commands'' @ CRLF) s1)
                   else
                     let s2 = (setState env DATA_CONNECT False True s1)\<lparr>m_send := True\<rparr>;
                         (ok, s3) = (if m_port s2 then dataConnect env s2 else (True, s2))
                     in if w_aborted s3 then s3
                        else if \<not> ok then
                          setState env COMMAND True True
                            (sendResponse env (''425 Can't open data connection'' @ CRLF) s3)
                        else s3)))
      else xferDir env args NLST_mode False s)"

definition NOOP :: "env \<Rightarrow> string \<Rightarrow> session \<Rightarrow> session" where
  "NOOP env args s = sendResponse env (''200 OK'' @ CRLF) s"

text \<open>
  The loop of \<open>OPTS MLST\<close>: at each position the names of the facts are tried, then the
  position moves past the next \<open>;\<close>.
\<close>

lemma dropWhile_Cons_shorter: "dropWhile P p = x # rest \<Longrightarrow> length rest < length p"
proof -
  assume a: "dropWhile P p = x # rest"
  have "length (dropWhile P p) \<le> length p" by (rule length_dropWhile_le)
  with a show ?thesis by simp
qed

definition matchFact :: "string \<Rightarrow> string \<Rightarrow> bool" where
  "matchFact name arg = strncasecmpEq name arg (length name)"

definition mlstFact :: "string \<Rightarrow> session \<Rightarrow> session" where
  "mlstFact p s =
     (if matchFact ''Type;'' p then s\<lparr>m_mlstType := True\<rparr>
      else if matchFact ''Size;'' p then s\<lparr>m_mlstSize := True\<rparr>
      else if matchFact ''Modify;'' p then s\<lparr>m_mlstModify := True\<rparr>
      else if matchFact ''Perm;'' p then s\<lparr>m_mlstPerm := True\<rparr>
      else if matchFact ''UNIX.mode;'' p then s\<lparr>m_mlstUnixMode := True\<rparr>
      else s)"

function optsMlstLoop :: "string \<Rightarrow> session \<Rightarrow> session" where
  "optsMlstLoop p s =
     (if p = [] then s
      else case dropWhile (\<lambda>c. c \<noteq> CHR '';'') p of
             [] \<Rightarrow> mlstFact p s
           | semicolon # rest \<Rightarrow> optsMlstLoop rest (mlstFact p s))"
  by pat_completeness auto
termination
  by (relation "measure (\<lambda>(p, s). length p)") (auto dest: dropWhile_Cons_shorter)

declare optsMlstLoop.simps [simp del]

text \<open>\<open>nextWord\<close> of \<open>OPTS MODE Z\<close>: the next word and the position behind it.\<close>

definition nextWord :: "string \<Rightarrow> string \<times> string" where
  "nextWord p =
     (let start = dropWhile isspace p
      in (takeWhile (\<lambda>c. \<not> isspace c) start, dropWhile (\<lambda>c. \<not> isspace c) start))"

lemma nextWord_le: "nextWord p = (w, rest) \<Longrightarrow> length rest \<le> length p"
proof -
  assume a: "nextWord p = (w, rest)"
  have "length (dropWhile (\<lambda>c. \<not> isspace c) (dropWhile isspace p)) \<le> length (dropWhile isspace p)"
    by (rule length_dropWhile_le)
  moreover have "length (dropWhile isspace p) \<le> length p" by (rule length_dropWhile_le)
  ultimately show ?thesis using a by (auto simp: nextWord_def Let_def)
qed

lemma nextWord_less: "nextWord p = (w, rest) \<Longrightarrow> w \<noteq> [] \<Longrightarrow> length rest < length p"
proof -
  assume a: "nextWord p = (w, rest)" and w: "w \<noteq> []"
  let ?q = "dropWhile isspace p"
  from a have wq: "w = takeWhile (\<lambda>c. \<not> isspace c) ?q" and rq: "rest = dropWhile (\<lambda>c. \<not> isspace c) ?q"
    by (auto simp: nextWord_def Let_def)
  have "length w + length rest = length ?q"
    using wq rq takeWhile_dropWhile_id [of "\<lambda>c. \<not> isspace c" ?q]
    by (metis length_append)
  moreover have "length ?q \<le> length p" by (rule length_dropWhile_le)
  moreover from w have "0 < length w" by simp
  ultimately show ?thesis by linarith
qed

text \<open>
  The loop of \<open>OPTS MODE Z\<close>: every \<open>LEVEL n\<close> sets the level of the configuration at
  once; anything else ends the command with 501 (\<open>None\<close>). \<open>levelWord\<close> reads the word
  after \<open>LEVEL\<close>, one digit.
\<close>

definition levelWord :: "string \<Rightarrow> (int \<times> string) option" where
  "levelWord p1 =
     (case nextWord p1 of
        (val, p2) \<Rightarrow>
          if length val \<noteq> 1 \<or> \<not> isdigit (cnth val 0) then None
          else Some (int (of_char (cnth val 0)) - 48, p2))"

lemma levelWord_le: "levelWord p1 = Some (l, p2) \<Longrightarrow> length p2 \<le> length p1"
  by (auto simp: levelWord_def split: prod.splits if_splits dest: nextWord_le)

lemma levelWord_less:
  "(opt, p1) = nextWord p \<Longrightarrow> opt \<noteq> [] \<Longrightarrow> levelWord p1 = Some (l, p2) \<Longrightarrow> length p2 < length p"
  using nextWord_less [of p opt p1] levelWord_le [of p1 l p2] by simp

function optsModeZLoop :: "string \<Rightarrow> int \<Rightarrow> config \<Rightarrow> int option \<times> config" where
  "optsModeZLoop p level cfg =
     (if p = [] then (Some level, cfg)
      else case nextWord p of
        (opt, p1) \<Rightarrow>
          if opt = [] then (Some level, cfg)
          else if length opt = 5 \<and> strncasecmpEq opt ''LEVEL'' 5 then
            (case levelWord p1 of
               None \<Rightarrow> (None, cfg)
             | Some (l, p2) \<Rightarrow> optsModeZLoop p2 l (cfg\<lparr>cfg_deflateLevel := l\<rparr>))
          else (None, cfg))"
  by pat_completeness auto
termination
  by (relation "measure (\<lambda>(p, level, cfg). length p)") (auto dest: levelWord_less)

declare optsModeZLoop.simps [simp del]

definition OPTS :: "env \<Rightarrow> string \<Rightarrow> session \<Rightarrow> session" where
  "OPTS env args s =
     (let s1 = setState env COMMAND False False s in
      if compare args ''UTF8'' = 0 \<or> compare args ''UTF8 ON'' = 0 \<or> compare args ''UTF8 NLST'' = 0
      then sendResponse env (''200 OK'' @ CRLF) s1
      else if strncasecmpEq args ''MLST '' 5 then
        (let s2 = optsMlstLoop (drop 5 args)
                    (s1\<lparr>m_mlstType := False, m_mlstSize := False, m_mlstModify := False,
                        m_mlstPerm := False, m_mlstUnixMode := False\<rparr>)
         in sendResponse env
              (''200 MLST OPTS''
               @ (if m_mlstType s2 \<or> m_mlstSize s2 \<or> m_mlstModify s2 \<or> m_mlstPerm s2
                     \<or> m_mlstUnixMode s2 then '' '' else [])
               @ (if m_mlstType s2 then ''Type;'' else [])
               @ (if m_mlstSize s2 then ''Size;'' else [])
               @ (if m_mlstModify s2 then ''Modify;'' else [])
               @ (if m_mlstPerm s2 then ''Perm;'' else [])
               @ (if m_mlstUnixMode s2 then ''UNIX.mode;'' else [])
               @ CRLF) s2)
      else if strncasecmpEq args ''MODE Z '' 7 then
        (case optsModeZLoop (drop 7 args) (- 1) (m_config s1) of
           (None, cfg) \<Rightarrow>
             sendResponse env (''501 '' @ e_strerror env EINVAL @ CRLF) (s1\<lparr>m_config := cfg\<rparr>)
         | (Some level, cfg) \<Rightarrow>
             if level < 0 then
               sendResponse env (''501 '' @ e_strerror env EINVAL @ CRLF) (s1\<lparr>m_config := cfg\<rparr>)
             else
               sendResponse env (''200 MODE Z LEVEL set to '' @ decimalInt level @ CRLF)
                 (s1\<lparr>m_config := cfg\<rparr>))
      else sendResponse env (''504 '' @ e_strerror env EINVAL @ CRLF) s1)"

definition PASS :: "env \<Rightarrow> string \<Rightarrow> session \<Rightarrow> session" where
  "PASS env args s =
     (let s1 = (setState env COMMAND False False s)\<lparr>m_authorizedPass := False\<rparr>;
          user = cfg_user (m_config s1);
          pass = cfg_pass (m_config s1)
      in if user \<noteq> [] \<and> \<not> m_authorizedUser s1 then
           sendResponse env (''430 User not authorized'' @ CRLF) s1
         else if pass = [] \<or> pass = args then
           sendResponse env (''230 OK'' @ CRLF) (s1\<lparr>m_authorizedPass := True\<rparr>)
         else sendResponse env (''430 Invalid password'' @ CRLF) s1)"

definition PASV :: "env \<Rightarrow> string \<Rightarrow> session \<Rightarrow> session" where
  "PASV env args s =
     (if \<not> authorized s then reply530 env (setState env COMMAND False False s)
      else
        let s1 = (setState env COMMAND True True s)
                   \<lparr>m_pasv := False, m_port := False, m_pasvSocket := e_socket env\<rparr>
        in if m_pasvSocket s1 = None then
             sendResponse env (''451 Failed to create listening socket'' @ CRLF) s1
           else if m_commandSocket s1 = None then abort s1
           else if \<not> e_bind env then
             sendResponse env (''451 Failed to bind address'' @ CRLF) (closePasv s1)
           else if \<not> e_listen env then
             sendResponse env (''451 Failed to listen on socket'' @ CRLF) (closePasv s1)
           else
             (case e_sockName env of
                (name, port) \<Rightarrow>
                  sendResponse env
                    (''227 Entering Passive Mode (''
                     @ map (\<lambda>c. if c = CHR ''.'' then CHR '','' else c) name
                     @ '','' @ decimal (port div 256) @ '','' @ decimal (port mod 256)
                     @ '').'' @ CRLF)
                    (s1\<lparr>m_pasv := True\<rparr>)))"

text \<open>
  \<open>PORT\<close>. The first loop counts the commas and turns them into dots, but for the fourth,
  which becomes a NUL and starts the port string. The second loop reads the port string:
  \<open>val\<close> is an \<open>int\<close> and \<open>port\<close> a \<open>uint16_t\<close>, with the wrap-around of the machine.
\<close>

fun portCommas :: "string \<Rightarrow> nat \<Rightarrow> nat \<times> string" where
  "portCommas [] commas = (commas, [])"
| "portCommas (p # ps) commas =
     (if p = CHR '','' then
        (case portCommas ps (Suc commas) of
           (n, rest) \<Rightarrow> (n, (if commas \<noteq> 3 then CHR ''.'' else NUL) # rest))
      else
        (case portCommas ps commas of (n, rest) \<Rightarrow> (n, p # rest)))"

fun portParse :: "string \<Rightarrow> bool \<Rightarrow> 32 word \<Rightarrow> 16 word \<Rightarrow> (32 word \<times> 16 word) option" where
  "portParse [] atStart val port = Some (val, port)"
| "portParse (p # ps) atStart val port =
     (if \<not> isdigit p then
        (if atStart \<or> p \<noteq> CHR ''.'' \<or> 0xFF <s val then None
         else portParse ps False 0 (push_bit 8 port + ucast val))
      else portParse ps False (val * 10 + (of_nat (of_char p) - 48)) port)"

definition PORT :: "env \<Rightarrow> string \<Rightarrow> session \<Rightarrow> session" where
  "PORT env args s =
     (if \<not> authorized s then reply530 env (setState env COMMAND False False s)
      else
        let s1 = (setState env COMMAND True True s)\<lparr>m_pasv := False, m_port := False\<rparr>;
            einval = ''501 '' @ e_strerror env EINVAL @ CRLF
        in case portCommas args 0 of
             (commas, addrString) \<Rightarrow>
               if commas \<noteq> 5 then sendResponse env einval s1
               else
                 (case e_inet_aton env (c_str addrString) of
                    None \<Rightarrow> sendResponse env einval s1
                  | Some addr \<Rightarrow>
                      (case portParse (drop (Suc (length (c_str addrString))) addrString) True 0 0 of
                         None \<Rightarrow> sendResponse env einval s1
                       | Some (val, port) \<Rightarrow>
                           if 0xFF <s val \<or> 0xFF < port then sendResponse env einval s1
                           else
                             sendResponse env (''200 OK'' @ CRLF)
                               (s1\<lparr>m_portAddr := (addr, push_bit 8 port + ucast val),
                                   m_port := True\<rparr>))))"

definition PWD :: "env \<Rightarrow> string \<Rightarrow> session \<Rightarrow> session" where
  "PWD env args s =
     (if \<not> authorized s then reply530 env s
      else sendResponseView (''257 '' @ [DQUOTE] @ encodePath (m_cwd s) True @ [DQUOTE] @ CRLF) s)"

definition QUIT :: "env \<Rightarrow> string \<Rightarrow> session \<Rightarrow> session" where
  "QUIT env args s = closeCommand (sendResponse env (''221 Disconnecting'' @ CRLF) s)"

text \<open>
  \<open>REST\<close>: the offset is read digit by digit into a \<open>uint64_t\<close>, with a check before the
  multiplication and one before the addition; \<open>None\<close> is the error reply.
\<close>

abbreviation UINT64_MAX :: "64 word" where "UINT64_MAX \<equiv> 0xFFFFFFFFFFFFFFFF"

fun restParse :: "string \<Rightarrow> 64 word \<Rightarrow> 64 word option" where
  "restParse [] pos = Some pos"
| "restParse (p # ps) pos =
     (if \<not> isdigit p \<or> UINT64_MAX div 10 < pos then None
      else
        let pos10 = pos * 10; d = (of_nat (of_char p) - 48 :: 64 word)
        in if UINT64_MAX - d < pos10 then None
           else restParse ps (pos10 + d))"

definition REST :: "env \<Rightarrow> string \<Rightarrow> session \<Rightarrow> session" where
  "REST env args s =
     (let s1 = setState env COMMAND False False s in
      if \<not> authorized s1 then reply530 env s1
      else case restParse args 0 of
             None \<Rightarrow> sendResponse env (''504 '' @ e_strerror env (e_errno env) @ CRLF) s1
           | Some pos \<Rightarrow> sendResponse env (''350 OK'' @ CRLF) (s1\<lparr>m_restartPosition := pos\<rparr>))"

definition RETR :: "env \<Rightarrow> string \<Rightarrow> session \<Rightarrow> session" where
  "RETR env args s =
     (if \<not> authorized s then reply530 env (setState env COMMAND False False s)
      else xferFile env args RETR_mode s)"

definition RMD :: "env \<Rightarrow> string \<Rightarrow> session \<Rightarrow> session" where
  "RMD env args s =
     (let s1 = setState env COMMAND False False s in
      if \<not> authorized s1 then reply530 env s1
      else case buildResolvedPath (e_stat env) (m_cwd s1) args of
             Inl AssertionFailed \<Rightarrow> abort s1
           | Inl (Errno e) \<Rightarrow> sendResponse env (''553 '' @ e_strerror env e @ CRLF) s1
           | Inr path \<Rightarrow>
               (case e_rmdir env (c_str path) of
                  Some e \<Rightarrow> sendResponse env (''550 3079 '' @ e_strerror env e @ CRLF) s1
                | None \<Rightarrow> sendResponse env (''250 OK'' @ CRLF) s1))"

definition RNFR :: "env \<Rightarrow> string \<Rightarrow> session \<Rightarrow> session" where
  "RNFR env args s =
     (let s1 = setState env COMMAND False False s in
      if \<not> authorized s1 then reply530 env s1
      else case buildResolvedPath (e_stat env) (m_cwd s1) args of
             Inl AssertionFailed \<Rightarrow> abort s1
           | Inl (Errno e) \<Rightarrow> sendResponse env (''553 '' @ e_strerror env e @ CRLF) s1
           | Inr path \<Rightarrow>
               (case e_lstat env (c_str path) of
                  Inl e \<Rightarrow> sendResponse env (''450 '' @ e_strerror env e @ CRLF) s1
                | Inr st \<Rightarrow> sendResponse env (''350 OK'' @ CRLF) (s1\<lparr>m_rename := path\<rparr>)))"

definition RNTO :: "env \<Rightarrow> string \<Rightarrow> session \<Rightarrow> session" where
  "RNTO env args s =
     (let s1 = setState env COMMAND False False s in
      if \<not> authorized s1 then reply530 env s1
      else if m_rename s1 = [] then
        sendResponse env (''503 Bad sequence of commands'' @ CRLF) s1
      else case buildResolvedPath (e_stat env) (m_cwd s1) args of
             Inl AssertionFailed \<Rightarrow> abort s1
           | Inl (Errno e) \<Rightarrow>
               sendResponse env (''554 '' @ e_strerror env e @ CRLF) (s1\<lparr>m_rename := []\<rparr>)
           | Inr path \<Rightarrow>
               (case e_rename env (c_str (m_rename s1)) (c_str path) of
                  Some e \<Rightarrow>
                    sendResponse env (''550 '' @ e_strerror env e @ CRLF) (s1\<lparr>m_rename := []\<rparr>)
                | None \<Rightarrow> sendResponse env (''250 OK'' @ CRLF) (s1\<lparr>m_rename := []\<rparr>)))"

text \<open>
  \<open>SITE\<close>. The test for \<open>HELP\<close> compares the whole argument (\<open>command.data ()\<close> is read up
  to the terminating NUL); the hostname and the \<open>MTIME\<close> toggle are set and then run into
  the last reply. The setters of the configuration that parse their argument
  (\<open>setPort\<close>, \<open>setDeflateLevel\<close>) and \<open>save\<close> are given by the environment.
\<close>

definition siteHelp :: "platform \<Rightarrow> string" where
  "siteHelp pf =
     ''211-'' @ CRLF
     @ '' Show this help: SITE HELP'' @ CRLF
     @ '' Set username: SITE USER <NAME>'' @ CRLF
     @ '' Set password: SITE PASS <PASS>'' @ CRLF
     @ '' Set port: SITE PORT <PORT>'' @ CRLF
     @ '' Set deflate level: SITE DEFLATE <LEVEL>'' @ CRLF
     @ (if pf \<noteq> NDS then '' Set hostname: SITE HOST <HOSTNAME>'' @ CRLF else [])
     @ (if pf = N3DS then '' Set getMTime: SITE MTIME [0|1]'' @ CRLF else [])
     @ '' Save config: SITE SAVE'' @ CRLF
     @ ''211 End'' @ CRLF"

definition SITE :: "env \<Rightarrow> string \<Rightarrow> session \<Rightarrow> session" where
  "SITE env args s =
     (let s1 = setState env COMMAND False False s;
          pos = find_from args CHR '' '' 0;
          command = (case pos of None \<Rightarrow> args | Some i \<Rightarrow> substr args 0 i);
          arg = (case pos of None \<Rightarrow> [] | Some i \<Rightarrow> drop (Suc i) args);
          cfg = m_config s1;
          ok = sendResponse env (''200 OK'' @ CRLF);
          invalid = sendResponse env (''550 Invalid command'' @ CRLF)
      in if compare args ''HELP'' = 0 then sendResponse env (siteHelp (e_platform env)) s1
         else if \<not> authorized s1 then reply530 env s1
         else if compare command ''USER'' = 0 then ok (s1\<lparr>m_config := cfg\<lparr>cfg_user := arg\<rparr>\<rparr>)
         else if compare command ''PASS'' = 0 then ok (s1\<lparr>m_config := cfg\<lparr>cfg_pass := arg\<rparr>\<rparr>)
         else if compare command ''PORT'' = 0 then
           (case e_setPort env arg of
              Inl e \<Rightarrow> sendResponse env (''550 '' @ e_strerror env e @ CRLF) s1
            | Inr p \<Rightarrow> ok (s1\<lparr>m_config := cfg\<lparr>cfg_port := p\<rparr>\<rparr>))
         else if compare command ''DEFLATE'' = 0 then
           (case e_setDeflateLevel env arg of
              Inl e \<Rightarrow> sendResponse env (''550 '' @ e_strerror env e @ CRLF) s1
            | Inr l \<Rightarrow> ok (s1\<lparr>m_config := cfg\<lparr>cfg_deflateLevel := l\<rparr>\<rparr>))
         else if e_platform env \<noteq> NDS \<and> compare command ''HOST'' = 0 then
           invalid (s1\<lparr>m_config := cfg\<lparr>cfg_hostname := arg\<rparr>\<rparr>)
         else if e_platform env = N3DS \<and> compare command ''MTIME'' = 0 then
           (if arg = ''0'' then invalid (s1\<lparr>m_config := cfg\<lparr>cfg_getMTime := False\<rparr>\<rparr>)
            else if arg = ''1'' then invalid (s1\<lparr>m_config := cfg\<lparr>cfg_getMTime := True\<rparr>\<rparr>)
            else sendResponse env (''550 '' @ e_strerror env EINVAL @ CRLF) s1)
         else if compare command ''SAVE'' = 0 then
           (case e_save env of
              Some e \<Rightarrow> sendResponse env (''550 '' @ e_strerror env e @ CRLF) s1
            | None \<Rightarrow> ok s1)
         else invalid s1)"

definition SIZE :: "env \<Rightarrow> string \<Rightarrow> session \<Rightarrow> session" where
  "SIZE env args s =
     (let s1 = setState env COMMAND False False s in
      if \<not> authorized s1 then reply530 env s1
      else case buildResolvedPath (e_stat env) (m_cwd s1) args of
             Inl AssertionFailed \<Rightarrow> abort s1
           | Inl (Errno e) \<Rightarrow> sendResponse env (''553 '' @ e_strerror env e @ CRLF) s1
           | Inr path \<Rightarrow>
               (case e_stat env (c_str path) of
                  Inl e \<Rightarrow> sendResponse env (''550 '' @ e_strerror env e @ CRLF) s1
                | Inr st \<Rightarrow>
                    if \<not> S_ISREG (st_mode st) then
                      sendResponse env (''550 Not a file'' @ CRLF) s1
                    else sendResponse env (''213 '' @ decimal (st_size st) @ CRLF) s1))"

text \<open>
  \<open>STAT\<close>. The uptime is a \<open>time_t\<close> difference, divided as C divides and stored in
  \<open>unsigned\<close> variables.
\<close>

definition cdiv :: "int \<Rightarrow> int \<Rightarrow> int" where
  "cdiv a b = sgn a * sgn b * (\<bar>a\<bar> div \<bar>b\<bar>)"

definition cmod :: "int \<Rightarrow> int \<Rightarrow> int" where
  "cmod a b = a - b * cdiv a b"

definition toUnsigned :: "int \<Rightarrow> nat" where
  "toUnsigned i = nat (i mod 2 ^ 32)"

definition STAT :: "env \<Rightarrow> string \<Rightarrow> session \<Rightarrow> session" where
  "STAT env args s =
     (if m_state s = DATA_CONNECT then
        sendResponse env
          (''211-FTP server status'' @ CRLF @ '' Waiting for data connection'' @ CRLF
           @ ''211 End'' @ CRLF) s
      else if m_state s = DATA_TRANSFER then
        sendResponse env
          (''211-FTP server status'' @ CRLF
           @ '' Transferred '' @ decimal (unat (m_filePosition s)) @ '' bytes'' @ CRLF
           @ ''211 End'' @ CRLF) s
      else if args = [] then
        (let uptime = e_now env - e_startTime env;
             hours = toUnsigned (cdiv uptime 3600);
             minutes = toUnsigned (cmod (cdiv uptime 60) 60);
             seconds = toUnsigned (cmod uptime 60)
         in sendResponse env
              (''211-FTP server status'' @ CRLF
               @ '' Uptime: '' @ pad2 hours @ '':'' @ pad2 minutes @ '':'' @ pad2 seconds @ CRLF
               @ ''211 End'' @ CRLF) s)
      else if \<not> authorized s then reply530 env (setState env COMMAND False False s)
      else xferDir env args STAT_mode False s)"

definition STOR :: "env \<Rightarrow> string \<Rightarrow> session \<Rightarrow> session" where
  "STOR env args s =
     (if \<not> authorized s then reply530 env (setState env COMMAND False False s)
      else xferFile env args STOR_mode s)"

definition STOU :: "env \<Rightarrow> string \<Rightarrow> session \<Rightarrow> session" where
  "STOU env args s =
     sendResponse env (''502 Command not implemented'' @ CRLF)
       (setState env COMMAND False False s)"

definition STRU :: "env \<Rightarrow> string \<Rightarrow> session \<Rightarrow> session" where
  "STRU env args s =
     (let s1 = setState env COMMAND False False s in
      if compare args ''F'' = 0 then sendResponse env (''200 OK'' @ CRLF) s1
      else sendResponse env (''504 Unavailable'' @ CRLF) s1)"

definition SYST :: "env \<Rightarrow> string \<Rightarrow> session \<Rightarrow> session" where
  "SYST env args s =
     sendResponse env (''215 UNIX Type: L8'' @ CRLF) (setState env COMMAND False False s)"

text \<open>\<open>TYPE\<close> (the name \<open>TYPE\<close> is taken in Isabelle).\<close>

definition TYPE_handler :: "env \<Rightarrow> string \<Rightarrow> session \<Rightarrow> session" where
  "TYPE_handler env args s = sendResponse env (''200 OK'' @ CRLF) (setState env COMMAND False False s)"

definition USER :: "env \<Rightarrow> string \<Rightarrow> session \<Rightarrow> session" where
  "USER env args s =
     (let s1 = (setState env COMMAND False False s)\<lparr>m_authorizedUser := False\<rparr>;
          user = cfg_user (m_config s1);
          pass = cfg_pass (m_config s1)
      in if user = [] \<or> user = args then
           (if pass = [] then sendResponse env (''230 OK'' @ CRLF) (s1\<lparr>m_authorizedUser := True\<rparr>)
            else sendResponse env (''331 Need password'' @ CRLF) (s1\<lparr>m_authorizedUser := True\<rparr>))
         else sendResponse env (''430 Invalid user'' @ CRLF) s1)"

subsection \<open>The dispatch table\<close>

type_synonym handler = "env \<Rightarrow> string \<Rightarrow> session \<Rightarrow> session"

definition handlers :: "(string \<times> handler) list" where
  "handlers =
     [(''ABOR'', ABOR), (''ALLO'', ALLO), (''APPE'', APPE), (''CDUP'', CDUP), (''CWD'', CWD),
      (''DELE'', DELE), (''FEAT'', FEAT), (''HELP'', HELP), (''LIST'', LIST), (''MDTM'', MDTM),
      (''MKD'', MKD), (''MLSD'', MLSD), (''MLST'', MLST), (''MODE'', MODE), (''NLST'', NLST),
      (''NOOP'', NOOP), (''OPTS'', OPTS), (''PASS'', PASS), (''PASV'', PASV), (''PORT'', PORT),
      (''PWD'', PWD), (''QUIT'', QUIT), (''REST'', REST), (''RETR'', RETR), (''RMD'', RMD),
      (''RNFR'', RNFR), (''RNTO'', RNTO), (''SITE'', SITE), (''SIZE'', SIZE), (''STAT'', STAT),
      (''STOR'', STOR), (''STOU'', STOU), (''STRU'', STRU), (''SYST'', SYST), (''TYPE'', TYPE_handler),
      (''USER'', USER), (''XCUP'', CDUP), (''XCWD'', CWD), (''XMKD'', MKD), (''XPWD'', PWD),
      (''XRMD'', RMD)]"

text \<open>
  \<open>std::lower_bound\<close> over the table, by halving: \<open>first\<close> and \<open>count\<close> are the start and
  the length of the range still searched. The result is the index of the first entry
  that does not compare below the command.
\<close>

function lower_bound :: "(string \<times> 'h) list \<Rightarrow> string \<Rightarrow> nat \<Rightarrow> nat \<Rightarrow> nat" where
  "lower_bound table command first count =
     (if count = 0 then first
      else
        let step = count div 2; it = first + step
        in if compare (fst (table ! it)) command < 0
           then lower_bound table command (Suc it) (count - (step + 1))
           else lower_bound table command first step)"
  by pat_completeness auto
termination
  by (relation "measure (\<lambda>(table, command, first, count). count)") auto

declare lower_bound.simps [simp del]

text \<open>
  The search of \<open>readCommand\<close>: the entry found must compare equal to the command, or the
  command is invalid.
\<close>

definition findHandler :: "(string \<times> 'h) list \<Rightarrow> string \<Rightarrow> (string \<times> 'h) option" where
  "findHandler table command =
     (let it = lower_bound table command 0 (length table)
      in if it = length table \<or> compare (fst (table ! it)) command \<noteq> 0 then None
         else Some (table ! it))"

subsection \<open>One command line\<close>

text \<open>
  The body of the loop of \<open>readCommand\<close> for one line, the bytes before the delimiter: the
  line is decoded, split at the first white space into command and arguments, and the
  handler is looked up. An unknown command is answered with 502. During a transfer only
  six commands reach their handler, any other known command is answered with 503 and
  ends the transfer and the command connection. In the state \<open>COMMAND\<close> the rename path
  is cleared for every known command but \<open>RNTO\<close>, and the handler runs.
\<close>

definition duringTransfer :: "string \<Rightarrow> bool" where
  "duringTransfer command =
     (\<not> (compare command ''ABOR'' \<noteq> 0 \<and> compare command ''NOOP'' \<noteq> 0
         \<and> compare command ''PWD'' \<noteq> 0 \<and> compare command ''QUIT'' \<noteq> 0
         \<and> compare command ''STAT'' \<noteq> 0 \<and> compare command ''XPWD'' \<noteq> 0))"

definition lineCommand :: "string \<Rightarrow> string" where
  "lineCommand line = takeWhile (\<lambda>c. \<not> isspace c) (decodePath line (length line))"

definition lineArgs :: "string \<Rightarrow> string" where
  "lineArgs line =
     (case dropWhile (\<lambda>c. \<not> isspace c) (decodePath line (length line)) of
        [] \<Rightarrow> []
      | space # rest \<Rightarrow> rest)"

definition invalidCommand :: "string \<Rightarrow> string \<Rightarrow> string" where
  "invalidCommand command args =
     ''502 Invalid command '' @ [DQUOTE] @ encodePath command False
       @ (if args \<noteq> [] then '' '' @ encodePath args False else [])
       @ [DQUOTE] @ CRLF"

definition dispatch :: "env \<Rightarrow> string \<Rightarrow> session \<Rightarrow> session" where
  "dispatch env line s =
     (if w_aborted s then s
      else
        let command = lineCommand line;
            args = lineArgs line;
            s1 = s\<lparr>m_timestamp := e_now env\<rparr>
        in case findHandler handlers command of
             None \<Rightarrow> sendResponseView (invalidCommand command args) s1
           | Some (name, handler) \<Rightarrow>
               if m_state s1 \<noteq> COMMAND then
                 (if \<not> duringTransfer command then
                    closeCommand
                      (setState env COMMAND True True
                         (sendResponse env (''503 Invalid command during transfer'' @ CRLF) s1))
                  else handler env args s1)
               else
                 handler env args
                   (if compare command ''RNTO'' \<noteq> 0 then s1\<lparr>m_rename := []\<rparr> else s1))"

text \<open>A sequence of command lines, each with what it finds around it.\<close>

fun run :: "(env \<times> string) list \<Rightarrow> session \<Rightarrow> session" where
  "run [] s = s"
| "run ((env, line) # rest) s = run rest (dispatch env line s)"


section \<open>Reading commands\<close>

text \<open>
  \<open>parseCommand\<close>: the first \<open>CR LF\<close> or bare \<open>LF\<close> in the buffer, as the position of the
  delimiter and the position behind it.
\<close>

function parseFrom :: "string \<Rightarrow> nat \<Rightarrow> (nat \<times> nat) option" where
  "parseFrom buffer p =
     (if length buffer \<le> p then None
      else if buffer ! p = CR \<and> Suc p < length buffer \<and> buffer ! Suc p = LF then Some (p, p + 2)
      else if buffer ! p = LF then Some (p, p + 1)
      else parseFrom buffer (Suc p))"
  by pat_completeness auto
termination
  by (relation "measure (\<lambda>(buffer, p). length buffer - p)") auto

declare parseFrom.simps [simp del]

definition parseCommand :: "string \<Rightarrow> (nat \<times> nat) option" where
  "parseCommand buffer = parseFrom buffer 0"

lemma parseFrom_next: "parseFrom buffer p = Some (delim, nxt) \<Longrightarrow> delim < nxt"
proof (induction buffer p rule: parseFrom.induct)
  case (1 buffer p)
  then show ?case
    by (subst (asm) (2) parseFrom.simps) (auto split: if_splits)
qed

text \<open>
  The loop of \<open>readCommand\<close> over the bytes of the command buffer: each complete line is
  dispatched and released. The handlers do not touch the command buffer, so the bytes
  are carried beside the session; what is left goes back into the buffer, coalesced.
\<close>

function commandLoop :: "env \<Rightarrow> string \<Rightarrow> session \<Rightarrow> string \<times> session" where
  "commandLoop env buffer s =
     (if length buffer < 1 then (buffer, s)
      else case parseCommand buffer of
             None \<Rightarrow> (buffer, s)
           | Some (delim, nxt) \<Rightarrow>
               commandLoop env (drop nxt buffer) (dispatch env (take delim buffer) s))"
  by pat_completeness auto
termination
proof (relation "measure (\<lambda>(env, buffer, s). length buffer)")
  show "wf (measure (\<lambda>(env, buffer, s). length buffer))" by simp
next
  fix env :: env and buffer :: string and s :: session and x2 :: "nat \<times> nat" and x y :: nat
  assume "\<not> length buffer < 1" and "parseCommand buffer = Some x2" and "(x, y) = x2"
  then have "0 < y" and "buffer \<noteq> []"
    using parseFrom_next [of buffer 0 x y] by (auto simp: parseCommand_def)
  then show "((env, drop y buffer, dispatch env (take x buffer) s), env, buffer, s)
      \<in> measure (\<lambda>(env, buffer, s). length buffer)"
    by simp
qed

declare commandLoop.simps [simp del]

definition runCommands :: "env \<Rightarrow> session \<Rightarrow> session" where
  "runCommands env s =
     (case commandLoop env (usedArea (m_commandBuffer s)) s of
        (left, s1) \<Rightarrow>
          s1\<lparr>m_commandBuffer := (m_commandBuffer s1)\<lparr>b_start := 0, b_data := left\<rparr>\<rparr>)"

text \<open>
  Modelled from the specification: \<open>Socket::read (Buffer &, oob)\<close> is not part of the
  sources at hand. It reads into the free area and marks what it read as used.
\<close>

definition commandRead :: "read_result \<Rightarrow> session \<Rightarrow> read_result \<times> session" where
  "commandRead r s =
     (case r of
        RdBytes bytes \<Rightarrow>
          (let got = take (freeSize (m_commandBuffer s)) bytes in
           if got = [] then (RdEof, s)
           else (RdBytes got, s\<lparr>m_commandBuffer := markUsed got (m_commandBuffer s)\<rparr>))
      | _ \<Rightarrow> (r, s))"

text \<open>Poll events, with the values of the C library.\<close>

abbreviation POLLIN :: "16 word" where "POLLIN \<equiv> 0x001"
abbreviation POLLPRI :: "16 word" where "POLLPRI \<equiv> 0x002"
abbreviation POLLOUT :: "16 word" where "POLLOUT \<equiv> 0x004"
abbreviation POLLERR :: "16 word" where "POLLERR \<equiv> 0x008"
abbreviation POLLHUP :: "16 word" where "POLLHUP \<equiv> 0x010"

definition anyOf :: "16 word \<Rightarrow> 16 word \<Rightarrow> bool" where
  "anyOf events bits = (events AND bits \<noteq> 0)"

text \<open>The Telnet data mark and the search for it (\<open>memchr\<close>).\<close>

abbreviation DATA_MARK :: "char" where "DATA_MARK \<equiv> CHR 0xF2"

definition urgentPart :: "env \<Rightarrow> session \<Rightarrow> session" where
  "urgentPart env s0 =
     (let s = s0\<lparr>m_urgent := True\<rparr> in
      if e_atMark env < 0 then closeCommand s
      else if e_atMark env = 0 then
        (case commandRead (e_cmdRead env (b_cap (m_commandBuffer s)))
                (s\<lparr>m_commandBuffer := clear (m_commandBuffer s)\<rparr>) of
           (RdError e, s1) \<Rightarrow> closeCommand s1
         | (r, s1) \<Rightarrow> s1\<lparr>m_timestamp := e_now env\<rparr>)
      else
        (case commandRead (e_cmdReadOOB env (b_cap (m_commandBuffer s)))
                (s\<lparr>m_commandBuffer := clear (m_commandBuffer s)\<rparr>) of
           (RdError e, s1) \<Rightarrow> closeCommand s1
         | (RdWouldBlock, s1) \<Rightarrow> s1\<lparr>m_timestamp := e_now env\<rparr>
         | (r, s1) \<Rightarrow>
             s1\<lparr>m_timestamp := e_now env, m_commandBuffer := clear (m_commandBuffer s1)\<rparr>))"

definition readCommand :: "env \<Rightarrow> 16 word \<Rightarrow> session \<Rightarrow> session" where
  "readCommand env events s =
     (if m_commandSocket s = None then abort s
      else if e_platform env \<noteq> NDS \<and> anyOf events POLLPRI then urgentPart env s
      else if anyOf events POLLIN then
        (if freeSize (m_commandBuffer s) = 0 then closeCommand s
         else case commandRead (e_cmdRead env (freeSize (m_commandBuffer s))) s of
                (RdBytes got, s1) \<Rightarrow>
                  (let s2 = s1\<lparr>m_timestamp := e_now env\<rparr> in
                   if m_urgent s2 then
                     (case find_from (usedArea (m_commandBuffer s2)) DATA_MARK 0 of
                        None \<Rightarrow> s2
                      | Some mark \<Rightarrow>
                          runCommands env
                            (s2\<lparr>m_commandBuffer := coalesce (markFree (Suc mark) (m_commandBuffer s2)),
                                m_urgent := False\<rparr>))
                   else runCommands env s2)
              | (r, s1) \<Rightarrow> closeCommand s1)
      else runCommands env s)"


section \<open>The reactor (\<open>FtpSession::poll\<close>)\<close>

text \<open>The idle timeout, in seconds.\<close>

definition IDLE_TIMEOUT :: "int" where
  "IDLE_TIMEOUT = 60"

record PollInfo =
  pi_socket :: socket
  pi_events :: "16 word"
  pi_revents :: "16 word"

text \<open>
  What one tick finds: whether the two calls of \<open>Socket::poll\<close> fail, the events they
  report for a socket (for the second call, given the events asked for), the time read
  after the second call, and what the session at each index finds when its handlers run.
\<close>

record tick =
  t_pendingFails :: bool
  t_pendingRevents :: "socket \<Rightarrow> 16 word"
  t_pollFails :: bool
  t_revents :: "socket \<Rightarrow> 16 word \<Rightarrow> 16 word"
  t_now :: int
  t_env :: "nat \<Rightarrow> env"

text \<open>
  The first pass: every pending socket is polled for \<open>POLLIN\<close>, and a socket with an
  event is erased from the pending list of every session.
\<close>

definition dropPending :: "tick \<Rightarrow> session \<Rightarrow> session" where
  "dropPending t s =
     s\<lparr>m_pendingCloseSocket :=
         filter (\<lambda>sock. t_pendingRevents t sock = 0) (m_pendingCloseSocket s)\<rparr>"

text \<open>
  The descriptors a session adds to the second poll set. A failed assertion or a null
  handle gives \<open>None\<close>.
\<close>

definition pollSet :: "session \<Rightarrow> (socket \<times> 16 word) list option" where
  "pollSet s =
     (let command =
            (case m_commandSocket s of
               None \<Rightarrow> []
             | Some c \<Rightarrow>
                 [(c, (POLLIN OR POLLPRI)
                      OR (if usedSize (m_responseBuffer s) \<noteq> 0 then POLLOUT else 0))])
      in case m_state s of
           COMMAND \<Rightarrow> Some command
         | DATA_CONNECT \<Rightarrow>
             if m_pasv s then
               (if m_port s then None
                else case m_pasvSocket s of
                       None \<Rightarrow> None
                     | Some p \<Rightarrow> Some (command @ [(p, POLLIN)]))
             else
               (case m_dataSocket s of
                  None \<Rightarrow> None
                | Some d \<Rightarrow> Some (command @ [(d, POLLOUT)]))
         | DATA_TRANSFER \<Rightarrow>
             (case m_dataSocket s of
                None \<Rightarrow> None
              | Some d \<Rightarrow>
                  if m_recv s then (if m_send s then None else Some (command @ [(d, POLLIN)]))
                  else (if m_send s then Some (command @ [(d, POLLOUT)]) else None)))"

fun pollSets :: "session list \<Rightarrow> (socket \<times> 16 word) list option" where
  "pollSets [] = Some []"
| "pollSets (s # ss) =
     (case pollSet s of
        None \<Rightarrow> None
      | Some a \<Rightarrow> (case pollSets ss of None \<Rightarrow> None | Some b \<Rightarrow> Some (a @ b)))"

text \<open>The transfer function is called up to ten times, until it returns false.\<close>

fun pump :: "nat \<Rightarrow> env \<Rightarrow> session \<Rightarrow> session" where
  "pump 0 env s = s"
| "pump (Suc n) env s =
     (case transfer env s of
        (True, s1) \<Rightarrow> pump n env s1
      | (False, s1) \<Rightarrow> s1)"

text \<open>What a ready descriptor does to a session whose command socket it is.\<close>

definition commandEvent :: "env \<Rightarrow> PollInfo \<Rightarrow> session \<Rightarrow> session" where
  "commandEvent env i s =
     (if m_commandSocket s = Some (pi_socket i) then
        (let s1 = (if m_dataSocket s = None \<and> anyOf (pi_revents i) POLLOUT
                   then writeResponse env s else s);
             s2 = (if anyOf (pi_revents i) (POLLIN OR POLLPRI)
                   then readCommand env (pi_revents i) s1 else s1)
         in if anyOf (pi_revents i) (POLLERR OR POLLHUP) then closeCommand s2 else s2)
      else s)"

text \<open>What it does to a session whose passive or data socket it is.\<close>

definition dataEvent :: "env \<Rightarrow> PollInfo \<Rightarrow> session \<Rightarrow> session" where
  "dataEvent env i s =
     (if m_pasvSocket s = Some (pi_socket i) \<or> m_dataSocket s = Some (pi_socket i) then
        (case m_state s of
           COMMAND \<Rightarrow> abort s
         | DATA_CONNECT \<Rightarrow>
             if anyOf (pi_revents i) (POLLERR OR POLLHUP) then
               setState env COMMAND True True
                 (sendResponse env (''426 Data connection failed'' @ CRLF) s)
             else if anyOf (pi_revents i) POLLIN then snd (dataAccept env s)
             else if anyOf (pi_revents i) POLLOUT then
               (if m_dataSocket s = None then abort s
                else setState env DATA_TRANSFER True False
                       (sendResponse env (''150 Ready'' @ CRLF) s))
             else s
         | DATA_TRANSFER \<Rightarrow>
             if anyOf (pi_revents i) (POLLERR OR POLLHUP) then
               setState env COMMAND True True
                 (sendResponse env (''426 Data connection failed'' @ CRLF) s)
             else if anyOf (pi_revents i) (POLLIN OR POLLOUT) then pump 10 env s
             else s)
      else s)"

text \<open>
  The inner loop over the poll set for one session: \<open>handled\<close> is set by every entry
  that has an event, before the entry is matched against the sockets of the session.
\<close>

fun sessionEvents :: "env \<Rightarrow> PollInfo list \<Rightarrow> bool \<times> session \<Rightarrow> bool \<times> session" where
  "sessionEvents env [] hs = hs"
| "sessionEvents env (i # infos) (handled, s) =
     (if pi_revents i = 0 then sessionEvents env infos (handled, s)
      else if w_aborted s then sessionEvents env infos (True, s)
      else sessionEvents env infos (True, dataEvent env i (commandEvent env i s)))"

text \<open>The body of the outer loop: the events of the session, then the idle timeout.\<close>

definition sessionTick :: "env \<Rightarrow> int \<Rightarrow> PollInfo list \<Rightarrow> session \<Rightarrow> session" where
  "sessionTick env now infos s =
     (case sessionEvents env infos (False, s) of
        (handled, s1) \<Rightarrow>
          if \<not> handled \<and> now - m_timestamp s1 \<ge> IDLE_TIMEOUT
          then closeData (closePasv (closeCommand s1))
          else s1)"

datatype poll_result = PollAborted | PollReturned bool "session list"

definition poll :: "tick \<Rightarrow> session list \<Rightarrow> poll_result" where
  "poll t sessions =
     (let pending = concat (map m_pendingCloseSocket sessions) in
      if pending \<noteq> [] \<and> t_pendingFails t then PollReturned False sessions
      else
        let sessions1 = (if pending \<noteq> [] then map (dropPending t) sessions else sessions) in
        case pollSets sessions1 of
          None \<Rightarrow> PollAborted
        | Some asked \<Rightarrow>
            if asked = [] then PollReturned True sessions1
            else if t_pollFails t then PollReturned False sessions1
            else
              let infos = map (\<lambda>(sock, events).
                                 \<lparr>pi_socket = sock, pi_events = events,
                                  pi_revents = t_revents t sock events\<rparr>) asked;
                  sessions2 = map (\<lambda>(k, s). sessionTick (t_env t k) (t_now t) infos s)
                                (enumerate 0 sessions1)
              in if list_ex w_aborted sessions2 then PollAborted
                 else PollReturned True sessions2)"

section \<open>A new session\<close>

text \<open>
  The constructor. Members that it does not name take the initial values of the class
  declaration; modelled from the specification, where the declaration is not part of the
  sources at hand: the state is \<open>COMMAND\<close>, the working directory is \<open>/\<close>, counters are 0
  and strings are empty.
\<close>

definition FtpSession :: "env \<Rightarrow> config \<Rightarrow> socket \<Rightarrow> io_result list \<Rightarrow> session" where
  "FtpSession env cfg commandSocket writes =
     sendResponse env (''220 Hello!'' @ CRLF)
       \<lparr>m_config = cfg,
        m_commandSocket = Some commandSocket,
        m_pasvSocket = None,
        m_dataSocket = None,
        m_pendingCloseSocket = [],
        m_commandBuffer = newBuffer (e_COMMAND_BUFFERSIZE env),
        m_responseBuffer = newBuffer (e_RESPONSE_BUFFERSIZE env),
        m_xferBuffer = newBuffer (e_XFER_BUFFERSIZE env),
        m_zStreamBuffer = newBuffer (e_XFER_BUFFERSIZE env),
        m_zStream = None,
        m_file = None,
        m_dir = None,
        m_glob = None,
        m_state = COMMAND,
        m_timestamp = e_now env,
        m_cwd = ''/'',
        m_lwd = [],
        m_rename = [],
        m_workItem = [],
        m_portAddr = (0, 0),
        m_restartPosition = 0,
        m_fileSize = 0,
        m_filePosition = 0,
        m_zStreamPosition = 0,
        m_xferDirMode = LIST_mode,
        m_transfer = listTransfer_fn,
        m_authorizedUser = (cfg_user cfg = []),
        m_authorizedPass = (cfg_pass cfg = []),
        m_pasv = False,
        m_port = False,
        m_recv = False,
        m_send = False,
        m_urgent = False,
        m_deflate = False,
        m_zFlushed = False,
        m_eof = False,
        m_mlstType = True,
        m_mlstSize = True,
        m_mlstModify = True,
        m_mlstPerm = True,
        m_mlstUnixMode = False,
        m_devZero = False,
        w_cmdWrites = writes,
        w_sent = [],
        w_dataSent = [],
        w_aborted = False\<rparr>"


section \<open>Notions used in the properties\<close>

text \<open>
  A command channel in good order: the kernel answers every write with a positive count
  or with \<open>EWOULDBLOCK\<close>, never with an error or 0.
\<close>

definition okWrite :: "io_result \<Rightarrow> bool" where
  "okWrite r = (case r of IoBytes n \<Rightarrow> 0 < n | IoWouldBlock \<Rightarrow> True | _ \<Rightarrow> False)"

definition healthy :: "session \<Rightarrow> bool" where
  "healthy s = (m_commandSocket s \<noteq> None \<and> list_all okWrite (w_cmdWrites s))"

text \<open>The room left in the response buffer.\<close>

definition room :: "session \<Rightarrow> nat" where
  "room s = freeSize (m_responseBuffer s)"

text \<open>What the session remembers of the login and of a rename under way.\<close>

definition loginView :: "session \<Rightarrow> bool \<times> bool \<times> string \<times> string \<times> string" where
  "loginView s =
     (m_authorizedUser s, m_authorizedPass s, cfg_user (m_config s), cfg_pass (m_config s),
      m_rename s)"


text \<open>A configuration with the same user and password.\<close>

definition keepsLogin :: "config \<Rightarrow> config \<Rightarrow> bool" where
  "keepsLogin c c' = (cfg_user c' = cfg_user c \<and> cfg_pass c' = cfg_pass c)"


text \<open>
  The verb of a command line: the name of the entry of the dispatch table that the
  line's command selects, if any; and the handler that the table gives to a name.
\<close>

definition verbOf :: "string \<Rightarrow> string option" where
  "verbOf line = map_option fst (findHandler handlers (lineCommand line))"

definition handlerOf :: "string \<Rightarrow> handler" where
  "handlerOf n = the (map_of handlers n)"



section \<open>An example environment and example sessions\<close>

text \<open>A file system in which every path is a directory, for the examples.\<close>

definition dirStat :: "stat_t" where
  "dirStat = \<lparr>st_mode = 0x41ED, st_size = 4096, st_mtime = 0, st_nlink = 2, st_uid = 0, st_gid = 0\<rparr>"

definition allDirs :: "string \<Rightarrow> nat + stat_t" where
  "allDirs path = Inr dirStat"


text \<open>
  An environment in which every call succeeds: every path is a directory, sockets are
  created, connected and accepted, zlib stores its input, and the command buffer is 4096
  bytes, the response buffer 32768 and the transfer buffer 65536.
\<close>

definition exEnv :: "env" where
  "exEnv =
     \<lparr>e_now = 1000,
      e_errno = 0,
      e_strerror = (\<lambda>e. ''error '' @ decimal e),
      e_stat = allDirs,
      e_lstat = allDirs,
      e_unlink = (\<lambda>p. None),
      e_mkdir = (\<lambda>p. None),
      e_rmdir = (\<lambda>p. None),
      e_rename = (\<lambda>a b. None),
      e_open = (\<lambda>p m. None),
      e_seek = (\<lambda>pos. None),
      e_opendir = (\<lambda>p. Inr [''.'', ''..'']),
      e_chdir = (\<lambda>p. None),
      e_globf = (\<lambda>p. Inr []),
      e_socket = Some 7,
      e_bind = True,
      e_listen = True,
      e_sockName = (''10.0.0.1'', 5001),
      e_setNonBlocking = True,
      e_connect = InProgress,
      e_accept = Some 8,
      e_zInit = None,
      e_inet_aton = (\<lambda>a. Some 0x0A000002),
      e_setPort = (\<lambda>a. Inr 5000),
      e_setDeflateLevel = (\<lambda>a. Inr 6),
      e_save = None,
      e_startTime = 0,
      e_stray = NUL,
      e_atMark = 0,
      e_cmdRead = (\<lambda>n. RdWouldBlock),
      e_cmdReadOOB = (\<lambda>n. RdWouldBlock),
      e_dataWrite = IoBytes 65536,
      e_dataRead = (\<lambda>n. RdEof),
      e_fileRead = (\<lambda>n. RdEof),
      e_fileWrite = IoBytes 65536,
      e_deflate = (\<lambda>flush input n.
                     \<lparr>z_rc = (if flush then Z_STREAM_END else Z_OK), z_taken = length input,
                      z_made = input, z_msg = None\<rparr>),
      e_inflate = (\<lambda>input n.
                     \<lparr>z_rc = Z_OK, z_taken = length input, z_made = input, z_msg = None\<rparr>),
      e_platform = POSIX,
      e_hasGlob = True,
      e_COMMAND_BUFFERSIZE = 4096,
      e_RESPONSE_BUFFERSIZE = 32768,
      e_XFER_BUFFERSIZE = 65536\<rparr>"

text \<open>A configuration with a user and a password, and one without.\<close>

definition exConfig :: "config" where
  "exConfig =
     \<lparr>cfg_user = ''alice'', cfg_pass = ''secret'', cfg_port = 5000, cfg_deflateLevel = 6,
      cfg_hostname = ''ftpd'', cfg_getMTime = False\<rparr>"


text \<open>
  A fresh session with a login to make, and one that needs none; the kernel takes every
  byte of every reply at once.
\<close>

definition exSession :: "session" where
  "exSession = FtpSession exEnv exConfig 3 (replicate 20 (IoBytes 65536))"




section \<open>Fields that the basic operations leave alone\<close>

lemma closeCommand_fields [simp]:
  "m_config (closeCommand s) = m_config s"
  "m_pasvSocket (closeCommand s) = m_pasvSocket s"
  "m_dataSocket (closeCommand s) = m_dataSocket s"
  "m_commandBuffer (closeCommand s) = m_commandBuffer s"
  "m_responseBuffer (closeCommand s) = m_responseBuffer s"
  "m_xferBuffer (closeCommand s) = m_xferBuffer s"
  "m_zStreamBuffer (closeCommand s) = m_zStreamBuffer s"
  "m_zStream (closeCommand s) = m_zStream s"
  "m_file (closeCommand s) = m_file s"
  "m_dir (closeCommand s) = m_dir s"
  "m_glob (closeCommand s) = m_glob s"
  "m_state (closeCommand s) = m_state s"
  "m_timestamp (closeCommand s) = m_timestamp s"
  "m_cwd (closeCommand s) = m_cwd s"
  "m_lwd (closeCommand s) = m_lwd s"
  "m_rename (closeCommand s) = m_rename s"
  "m_workItem (closeCommand s) = m_workItem s"
  "m_portAddr (closeCommand s) = m_portAddr s"
  "m_restartPosition (closeCommand s) = m_restartPosition s"
  "m_fileSize (closeCommand s) = m_fileSize s"
  "m_filePosition (closeCommand s) = m_filePosition s"
  "m_zStreamPosition (closeCommand s) = m_zStreamPosition s"
  "m_xferDirMode (closeCommand s) = m_xferDirMode s"
  "m_transfer (closeCommand s) = m_transfer s"
  "m_authorizedUser (closeCommand s) = m_authorizedUser s"
  "m_authorizedPass (closeCommand s) = m_authorizedPass s"
  "m_pasv (closeCommand s) = m_pasv s"
  "m_port (closeCommand s) = m_port s"
  "m_recv (closeCommand s) = m_recv s"
  "m_send (closeCommand s) = m_send s"
  "m_urgent (closeCommand s) = m_urgent s"
  "m_deflate (closeCommand s) = m_deflate s"
  "m_zFlushed (closeCommand s) = m_zFlushed s"
  "m_eof (closeCommand s) = m_eof s"
  "m_mlstType (closeCommand s) = m_mlstType s"
  "m_mlstSize (closeCommand s) = m_mlstSize s"
  "m_mlstModify (closeCommand s) = m_mlstModify s"
  "m_mlstPerm (closeCommand s) = m_mlstPerm s"
  "m_mlstUnixMode (closeCommand s) = m_mlstUnixMode s"
  "m_devZero (closeCommand s) = m_devZero s"
  "w_cmdWrites (closeCommand s) = w_cmdWrites s"
  "w_sent (closeCommand s) = w_sent s"
  "w_dataSent (closeCommand s) = w_dataSent s"
  "w_aborted (closeCommand s) = w_aborted s"
  by (simp_all add: closeCommand_def split: option.splits)

lemma closePasv_fields [simp]:
  "m_config (closePasv s) = m_config s"
  "m_commandSocket (closePasv s) = m_commandSocket s"
  "m_dataSocket (closePasv s) = m_dataSocket s"
  "m_pendingCloseSocket (closePasv s) = m_pendingCloseSocket s"
  "m_commandBuffer (closePasv s) = m_commandBuffer s"
  "m_responseBuffer (closePasv s) = m_responseBuffer s"
  "m_xferBuffer (closePasv s) = m_xferBuffer s"
  "m_zStreamBuffer (closePasv s) = m_zStreamBuffer s"
  "m_zStream (closePasv s) = m_zStream s"
  "m_file (closePasv s) = m_file s"
  "m_dir (closePasv s) = m_dir s"
  "m_glob (closePasv s) = m_glob s"
  "m_state (closePasv s) = m_state s"
  "m_timestamp (closePasv s) = m_timestamp s"
  "m_cwd (closePasv s) = m_cwd s"
  "m_lwd (closePasv s) = m_lwd s"
  "m_rename (closePasv s) = m_rename s"
  "m_workItem (closePasv s) = m_workItem s"
  "m_portAddr (closePasv s) = m_portAddr s"
  "m_restartPosition (closePasv s) = m_restartPosition s"
  "m_fileSize (closePasv s) = m_fileSize s"
  "m_filePosition (closePasv s) = m_filePosition s"
  "m_zStreamPosition (closePasv s) = m_zStreamPosition s"
  "m_xferDirMode (closePasv s) = m_xferDirMode s"
  "m_transfer (closePasv s) = m_transfer s"
  "m_authorizedUser (closePasv s) = m_authorizedUser s"
  "m_authorizedPass (closePasv s) = m_authorizedPass s"
  "m_pasv (closePasv s) = m_pasv s"
  "m_port (closePasv s) = m_port s"
  "m_recv (closePasv s) = m_recv s"
  "m_send (closePasv s) = m_send s"
  "m_urgent (closePasv s) = m_urgent s"
  "m_deflate (closePasv s) = m_deflate s"
  "m_zFlushed (closePasv s) = m_zFlushed s"
  "m_eof (closePasv s) = m_eof s"
  "m_mlstType (closePasv s) = m_mlstType s"
  "m_mlstSize (closePasv s) = m_mlstSize s"
  "m_mlstModify (closePasv s) = m_mlstModify s"
  "m_mlstPerm (closePasv s) = m_mlstPerm s"
  "m_mlstUnixMode (closePasv s) = m_mlstUnixMode s"
  "m_devZero (closePasv s) = m_devZero s"
  "w_cmdWrites (closePasv s) = w_cmdWrites s"
  "w_sent (closePasv s) = w_sent s"
  "w_dataSent (closePasv s) = w_dataSent s"
  "w_aborted (closePasv s) = w_aborted s"
  by (simp_all add: closePasv_def)

lemma closeData_fields [simp]:
  "m_config (closeData s) = m_config s"
  "m_commandSocket (closeData s) = m_commandSocket s"
  "m_pasvSocket (closeData s) = m_pasvSocket s"
  "m_commandBuffer (closeData s) = m_commandBuffer s"
  "m_responseBuffer (closeData s) = m_responseBuffer s"
  "m_xferBuffer (closeData s) = m_xferBuffer s"
  "m_zStreamBuffer (closeData s) = m_zStreamBuffer s"
  "m_zStream (closeData s) = m_zStream s"
  "m_file (closeData s) = m_file s"
  "m_dir (closeData s) = m_dir s"
  "m_glob (closeData s) = m_glob s"
  "m_state (closeData s) = m_state s"
  "m_timestamp (closeData s) = m_timestamp s"
  "m_cwd (closeData s) = m_cwd s"
  "m_lwd (closeData s) = m_lwd s"
  "m_rename (closeData s) = m_rename s"
  "m_workItem (closeData s) = m_workItem s"
  "m_portAddr (closeData s) = m_portAddr s"
  "m_restartPosition (closeData s) = m_restartPosition s"
  "m_fileSize (closeData s) = m_fileSize s"
  "m_filePosition (closeData s) = m_filePosition s"
  "m_zStreamPosition (closeData s) = m_zStreamPosition s"
  "m_xferDirMode (closeData s) = m_xferDirMode s"
  "m_transfer (closeData s) = m_transfer s"
  "m_authorizedUser (closeData s) = m_authorizedUser s"
  "m_authorizedPass (closeData s) = m_authorizedPass s"
  "m_pasv (closeData s) = m_pasv s"
  "m_port (closeData s) = m_port s"
  "m_urgent (closeData s) = m_urgent s"
  "m_deflate (closeData s) = m_deflate s"
  "m_zFlushed (closeData s) = m_zFlushed s"
  "m_eof (closeData s) = m_eof s"
  "m_mlstType (closeData s) = m_mlstType s"
  "m_mlstSize (closeData s) = m_mlstSize s"
  "m_mlstModify (closeData s) = m_mlstModify s"
  "m_mlstPerm (closeData s) = m_mlstPerm s"
  "m_mlstUnixMode (closeData s) = m_mlstUnixMode s"
  "m_devZero (closeData s) = m_devZero s"
  "w_cmdWrites (closeData s) = w_cmdWrites s"
  "w_sent (closeData s) = w_sent s"
  "w_dataSent (closeData s) = w_dataSent s"
  "w_aborted (closeData s) = w_aborted s"
  by (simp_all add: closeData_def Let_def split: option.splits)

lemma abort_fields [simp]:
  "m_config (abort s) = m_config s"
  "m_commandSocket (abort s) = m_commandSocket s"
  "m_pasvSocket (abort s) = m_pasvSocket s"
  "m_dataSocket (abort s) = m_dataSocket s"
  "m_pendingCloseSocket (abort s) = m_pendingCloseSocket s"
  "m_commandBuffer (abort s) = m_commandBuffer s"
  "m_responseBuffer (abort s) = m_responseBuffer s"
  "m_xferBuffer (abort s) = m_xferBuffer s"
  "m_zStreamBuffer (abort s) = m_zStreamBuffer s"
  "m_zStream (abort s) = m_zStream s"
  "m_file (abort s) = m_file s"
  "m_dir (abort s) = m_dir s"
  "m_glob (abort s) = m_glob s"
  "m_state (abort s) = m_state s"
  "m_timestamp (abort s) = m_timestamp s"
  "m_cwd (abort s) = m_cwd s"
  "m_lwd (abort s) = m_lwd s"
  "m_rename (abort s) = m_rename s"
  "m_workItem (abort s) = m_workItem s"
  "m_portAddr (abort s) = m_portAddr s"
  "m_restartPosition (abort s) = m_restartPosition s"
  "m_fileSize (abort s) = m_fileSize s"
  "m_filePosition (abort s) = m_filePosition s"
  "m_zStreamPosition (abort s) = m_zStreamPosition s"
  "m_xferDirMode (abort s) = m_xferDirMode s"
  "m_transfer (abort s) = m_transfer s"
  "m_authorizedUser (abort s) = m_authorizedUser s"
  "m_authorizedPass (abort s) = m_authorizedPass s"
  "m_pasv (abort s) = m_pasv s"
  "m_port (abort s) = m_port s"
  "m_recv (abort s) = m_recv s"
  "m_send (abort s) = m_send s"
  "m_urgent (abort s) = m_urgent s"
  "m_deflate (abort s) = m_deflate s"
  "m_zFlushed (abort s) = m_zFlushed s"
  "m_eof (abort s) = m_eof s"
  "m_mlstType (abort s) = m_mlstType s"
  "m_mlstSize (abort s) = m_mlstSize s"
  "m_mlstModify (abort s) = m_mlstModify s"
  "m_mlstPerm (abort s) = m_mlstPerm s"
  "m_mlstUnixMode (abort s) = m_mlstUnixMode s"
  "m_devZero (abort s) = m_devZero s"
  "w_cmdWrites (abort s) = w_cmdWrites s"
  "w_sent (abort s) = w_sent s"
  "w_dataSent (abort s) = w_dataSent s"
  by (simp_all add: abort_def)

lemma setState_fields [simp]:
  "m_config (setState env st a b s) = m_config s"
  "m_commandSocket (setState env st a b s) = m_commandSocket s"
  "m_commandBuffer (setState env st a b s) = m_commandBuffer s"
  "m_responseBuffer (setState env st a b s) = m_responseBuffer s"
  "m_xferBuffer (setState env st a b s) = m_xferBuffer s"
  "m_zStreamBuffer (setState env st a b s) = m_zStreamBuffer s"
  "m_glob (setState env st a b s) = m_glob s"
  "m_cwd (setState env st a b s) = m_cwd s"
  "m_lwd (setState env st a b s) = m_lwd s"
  "m_rename (setState env st a b s) = m_rename s"
  "m_portAddr (setState env st a b s) = m_portAddr s"
  "m_zStreamPosition (setState env st a b s) = m_zStreamPosition s"
  "m_xferDirMode (setState env st a b s) = m_xferDirMode s"
  "m_transfer (setState env st a b s) = m_transfer s"
  "m_authorizedUser (setState env st a b s) = m_authorizedUser s"
  "m_authorizedPass (setState env st a b s) = m_authorizedPass s"
  "m_pasv (setState env st a b s) = m_pasv s"
  "m_port (setState env st a b s) = m_port s"
  "m_urgent (setState env st a b s) = m_urgent s"
  "m_deflate (setState env st a b s) = m_deflate s"
  "m_zFlushed (setState env st a b s) = m_zFlushed s"
  "m_eof (setState env st a b s) = m_eof s"
  "m_mlstType (setState env st a b s) = m_mlstType s"
  "m_mlstSize (setState env st a b s) = m_mlstSize s"
  "m_mlstModify (setState env st a b s) = m_mlstModify s"
  "m_mlstPerm (setState env st a b s) = m_mlstPerm s"
  "m_mlstUnixMode (setState env st a b s) = m_mlstUnixMode s"
  "w_cmdWrites (setState env st a b s) = w_cmdWrites s"
  "w_sent (setState env st a b s) = w_sent s"
  "w_dataSent (setState env st a b s) = w_dataSent s"
  "w_aborted (setState env st a b s) = w_aborted s"
  by (simp_all add: setState_def Let_def)

lemma cmdWrite_fields [simp]:
  "m_config (snd (cmdWrite s)) = m_config s"
  "m_commandSocket (snd (cmdWrite s)) = m_commandSocket s"
  "m_pasvSocket (snd (cmdWrite s)) = m_pasvSocket s"
  "m_dataSocket (snd (cmdWrite s)) = m_dataSocket s"
  "m_pendingCloseSocket (snd (cmdWrite s)) = m_pendingCloseSocket s"
  "m_commandBuffer (snd (cmdWrite s)) = m_commandBuffer s"
  "m_xferBuffer (snd (cmdWrite s)) = m_xferBuffer s"
  "m_zStreamBuffer (snd (cmdWrite s)) = m_zStreamBuffer s"
  "m_zStream (snd (cmdWrite s)) = m_zStream s"
  "m_file (snd (cmdWrite s)) = m_file s"
  "m_dir (snd (cmdWrite s)) = m_dir s"
  "m_glob (snd (cmdWrite s)) = m_glob s"
  "m_state (snd (cmdWrite s)) = m_state s"
  "m_timestamp (snd (cmdWrite s)) = m_timestamp s"
  "m_cwd (snd (cmdWrite s)) = m_cwd s"
  "m_lwd (snd (cmdWrite s)) = m_lwd s"
  "m_rename (snd (cmdWrite s)) = m_rename s"
  "m_workItem (snd (cmdWrite s)) = m_workItem s"
  "m_portAddr (snd (cmdWrite s)) = m_portAddr s"
  "m_restartPosition (snd (cmdWrite s)) = m_restartPosition s"
  "m_fileSize (snd (cmdWrite s)) = m_fileSize s"
  "m_filePosition (snd (cmdWrite s)) = m_filePosition s"
  "m_zStreamPosition (snd (cmdWrite s)) = m_zStreamPosition s"
  "m_xferDirMode (snd (cmdWrite s)) = m_xferDirMode s"
  "m_transfer (snd (cmdWrite s)) = m_transfer s"
  "m_authorizedUser (snd (cmdWrite s)) = m_authorizedUser s"
  "m_authorizedPass (snd (cmdWrite s)) = m_authorizedPass s"
  "m_pasv (snd (cmdWrite s)) = m_pasv s"
  "m_port (snd (cmdWrite s)) = m_port s"
  "m_recv (snd (cmdWrite s)) = m_recv s"
  "m_send (snd (cmdWrite s)) = m_send s"
  "m_urgent (snd (cmdWrite s)) = m_urgent s"
  "m_deflate (snd (cmdWrite s)) = m_deflate s"
  "m_zFlushed (snd (cmdWrite s)) = m_zFlushed s"
  "m_eof (snd (cmdWrite s)) = m_eof s"
  "m_mlstType (snd (cmdWrite s)) = m_mlstType s"
  "m_mlstSize (snd (cmdWrite s)) = m_mlstSize s"
  "m_mlstModify (snd (cmdWrite s)) = m_mlstModify s"
  "m_mlstPerm (snd (cmdWrite s)) = m_mlstPerm s"
  "m_mlstUnixMode (snd (cmdWrite s)) = m_mlstUnixMode s"
  "m_devZero (snd (cmdWrite s)) = m_devZero s"
  "w_dataSent (snd (cmdWrite s)) = w_dataSent s"
  "w_aborted (snd (cmdWrite s)) = w_aborted s"
  by (simp_all add: cmdWrite_def Let_def split: list.splits io_result.splits)

lemma sendResponse_fields [simp]:
  "m_config (sendResponse env r s) = m_config s"
  "m_pasvSocket (sendResponse env r s) = m_pasvSocket s"
  "m_dataSocket (sendResponse env r s) = m_dataSocket s"
  "m_commandBuffer (sendResponse env r s) = m_commandBuffer s"
  "m_xferBuffer (sendResponse env r s) = m_xferBuffer s"
  "m_zStreamBuffer (sendResponse env r s) = m_zStreamBuffer s"
  "m_zStream (sendResponse env r s) = m_zStream s"
  "m_file (sendResponse env r s) = m_file s"
  "m_dir (sendResponse env r s) = m_dir s"
  "m_glob (sendResponse env r s) = m_glob s"
  "m_state (sendResponse env r s) = m_state s"
  "m_cwd (sendResponse env r s) = m_cwd s"
  "m_lwd (sendResponse env r s) = m_lwd s"
  "m_rename (sendResponse env r s) = m_rename s"
  "m_workItem (sendResponse env r s) = m_workItem s"
  "m_portAddr (sendResponse env r s) = m_portAddr s"
  "m_restartPosition (sendResponse env r s) = m_restartPosition s"
  "m_fileSize (sendResponse env r s) = m_fileSize s"
  "m_filePosition (sendResponse env r s) = m_filePosition s"
  "m_zStreamPosition (sendResponse env r s) = m_zStreamPosition s"
  "m_xferDirMode (sendResponse env r s) = m_xferDirMode s"
  "m_transfer (sendResponse env r s) = m_transfer s"
  "m_authorizedUser (sendResponse env r s) = m_authorizedUser s"
  "m_authorizedPass (sendResponse env r s) = m_authorizedPass s"
  "m_pasv (sendResponse env r s) = m_pasv s"
  "m_port (sendResponse env r s) = m_port s"
  "m_recv (sendResponse env r s) = m_recv s"
  "m_send (sendResponse env r s) = m_send s"
  "m_urgent (sendResponse env r s) = m_urgent s"
  "m_deflate (sendResponse env r s) = m_deflate s"
  "m_zFlushed (sendResponse env r s) = m_zFlushed s"
  "m_eof (sendResponse env r s) = m_eof s"
  "m_mlstType (sendResponse env r s) = m_mlstType s"
  "m_mlstSize (sendResponse env r s) = m_mlstSize s"
  "m_mlstModify (sendResponse env r s) = m_mlstModify s"
  "m_mlstPerm (sendResponse env r s) = m_mlstPerm s"
  "m_mlstUnixMode (sendResponse env r s) = m_mlstUnixMode s"
  "m_devZero (sendResponse env r s) = m_devZero s"
  "w_dataSent (sendResponse env r s) = w_dataSent s"
  "w_aborted (sendResponse env r s) = w_aborted s"
  by (simp_all add: sendResponse_def Let_def case_prod_beta split: io_result.splits)

lemma sendResponseView_fields [simp]:
  "m_config (sendResponseView r s) = m_config s"
  "m_pasvSocket (sendResponseView r s) = m_pasvSocket s"
  "m_dataSocket (sendResponseView r s) = m_dataSocket s"
  "m_commandBuffer (sendResponseView r s) = m_commandBuffer s"
  "m_xferBuffer (sendResponseView r s) = m_xferBuffer s"
  "m_zStreamBuffer (sendResponseView r s) = m_zStreamBuffer s"
  "m_zStream (sendResponseView r s) = m_zStream s"
  "m_file (sendResponseView r s) = m_file s"
  "m_dir (sendResponseView r s) = m_dir s"
  "m_glob (sendResponseView r s) = m_glob s"
  "m_state (sendResponseView r s) = m_state s"
  "m_timestamp (sendResponseView r s) = m_timestamp s"
  "m_cwd (sendResponseView r s) = m_cwd s"
  "m_lwd (sendResponseView r s) = m_lwd s"
  "m_rename (sendResponseView r s) = m_rename s"
  "m_workItem (sendResponseView r s) = m_workItem s"
  "m_portAddr (sendResponseView r s) = m_portAddr s"
  "m_restartPosition (sendResponseView r s) = m_restartPosition s"
  "m_fileSize (sendResponseView r s) = m_fileSize s"
  "m_filePosition (sendResponseView r s) = m_filePosition s"
  "m_zStreamPosition (sendResponseView r s) = m_zStreamPosition s"
  "m_xferDirMode (sendResponseView r s) = m_xferDirMode s"
  "m_transfer (sendResponseView r s) = m_transfer s"
  "m_authorizedUser (sendResponseView r s) = m_authorizedUser s"
  "m_authorizedPass (sendResponseView r s) = m_authorizedPass s"
  "m_pasv (sendResponseView r s) = m_pasv s"
  "m_port (sendResponseView r s) = m_port s"
  "m_recv (sendResponseView r s) = m_recv s"
  "m_send (sendResponseView r s) = m_send s"
  "m_urgent (sendResponseView r s) = m_urgent s"
  "m_deflate (sendResponseView r s) = m_deflate s"
  "m_zFlushed (sendResponseView r s) = m_zFlushed s"
  "m_eof (sendResponseView r s) = m_eof s"
  "m_mlstType (sendResponseView r s) = m_mlstType s"
  "m_mlstSize (sendResponseView r s) = m_mlstSize s"
  "m_mlstModify (sendResponseView r s) = m_mlstModify s"
  "m_mlstPerm (sendResponseView r s) = m_mlstPerm s"
  "m_mlstUnixMode (sendResponseView r s) = m_mlstUnixMode s"
  "m_devZero (sendResponseView r s) = m_devZero s"
  "w_cmdWrites (sendResponseView r s) = w_cmdWrites s"
  "w_sent (sendResponseView r s) = w_sent s"
  "w_dataSent (sendResponseView r s) = w_dataSent s"
  "w_aborted (sendResponseView r s) = w_aborted s"
  by (simp_all add: sendResponseView_def)

section \<open>What the handlers leave alone\<close>

text \<open>
  The login state and the rename path are written by few functions. Every other
  function of the session leaves them as they are.
\<close>

lemma loginView_update [simp]:
  "loginView (m_commandSocket_update f0 s) = loginView s"
  "loginView (m_pasvSocket_update f1 s) = loginView s"
  "loginView (m_dataSocket_update f2 s) = loginView s"
  "loginView (m_pendingCloseSocket_update f3 s) = loginView s"
  "loginView (m_commandBuffer_update f4 s) = loginView s"
  "loginView (m_responseBuffer_update f5 s) = loginView s"
  "loginView (m_xferBuffer_update f6 s) = loginView s"
  "loginView (m_zStreamBuffer_update f7 s) = loginView s"
  "loginView (m_zStream_update f8 s) = loginView s"
  "loginView (m_file_update f9 s) = loginView s"
  "loginView (m_dir_update f10 s) = loginView s"
  "loginView (m_glob_update f11 s) = loginView s"
  "loginView (m_state_update f12 s) = loginView s"
  "loginView (m_timestamp_update f13 s) = loginView s"
  "loginView (m_cwd_update f14 s) = loginView s"
  "loginView (m_lwd_update f15 s) = loginView s"
  "loginView (m_workItem_update f16 s) = loginView s"
  "loginView (m_portAddr_update f17 s) = loginView s"
  "loginView (m_restartPosition_update f18 s) = loginView s"
  "loginView (m_fileSize_update f19 s) = loginView s"
  "loginView (m_filePosition_update f20 s) = loginView s"
  "loginView (m_zStreamPosition_update f21 s) = loginView s"
  "loginView (m_xferDirMode_update f22 s) = loginView s"
  "loginView (m_transfer_update f23 s) = loginView s"
  "loginView (m_pasv_update f24 s) = loginView s"
  "loginView (m_port_update f25 s) = loginView s"
  "loginView (m_recv_update f26 s) = loginView s"
  "loginView (m_send_update f27 s) = loginView s"
  "loginView (m_urgent_update f28 s) = loginView s"
  "loginView (m_deflate_update f29 s) = loginView s"
  "loginView (m_zFlushed_update f30 s) = loginView s"
  "loginView (m_eof_update f31 s) = loginView s"
  "loginView (m_mlstType_update f32 s) = loginView s"
  "loginView (m_mlstSize_update f33 s) = loginView s"
  "loginView (m_mlstModify_update f34 s) = loginView s"
  "loginView (m_mlstPerm_update f35 s) = loginView s"
  "loginView (m_mlstUnixMode_update f36 s) = loginView s"
  "loginView (m_devZero_update f37 s) = loginView s"
  "loginView (w_cmdWrites_update f38 s) = loginView s"
  "loginView (w_sent_update f39 s) = loginView s"
  "loginView (w_dataSent_update f40 s) = loginView s"
  "loginView (w_aborted_update f41 s) = loginView s"
  by (simp_all add: loginView_def)

lemma loginView_closeCommand [simp]: "loginView (closeCommand s) = loginView s"
  by (simp add: closeCommand_def split: option.splits)

lemma loginView_closePasv [simp]: "loginView (closePasv s) = loginView s"
  by (simp add: closePasv_def)

lemma loginView_closeData [simp]: "loginView (closeData s) = loginView s"
  by (simp add: closeData_def Let_def split: option.splits)

lemma loginView_abort [simp]: "loginView (abort s) = loginView s"
  by (simp add: abort_def)

lemma loginView_setState [simp]: "loginView (setState env st a b s) = loginView s"
  by (simp add: setState_def Let_def)

lemma loginView_cmdWrite: "cmdWrite s = (r, s') \<Longrightarrow> loginView s' = loginView s"
  by (auto simp: cmdWrite_def Let_def split: list.splits io_result.splits if_splits)

lemma loginView_sendResponse [simp]: "loginView (sendResponse env r s) = loginView s"
  by (auto simp: sendResponse_def Let_def split: prod.splits io_result.splits dest!: loginView_cmdWrite)

lemma loginView_sendResponseView [simp]: "loginView (sendResponseView r s) = loginView s"
  by (simp add: sendResponseView_def)


lemma loginView_dataConnect [simp]: "loginView (snd (dataConnect env s)) = loginView s"
  by (simp add: dataConnect_def Let_def split: connect_result.splits)

lemma loginView_dataAccept [simp]: "loginView (snd (dataAccept env s)) = loginView s"
  by (simp add: dataAccept_def Let_def)

lemma loginView_fillDirent [simp]: "loginView (snd (fillDirent env st path type s)) = loginView s"
  by (simp add: fillDirent_def Let_def split: sum.splits)

lemma loginView_fillDirentPath [simp]: "loginView (snd (fillDirentPath env path type s)) = loginView s"
  by (simp add: fillDirentPath_def split: sum.splits)

lemma loginView_xferFileConnect [simp]: "loginView (xferFileConnect env mode path s) = loginView s"
  by (simp add: xferFileConnect_def Let_def case_prod_beta)

lemma loginView_xferFileOpen:
  "loginView (case xferFileOpen env mode path s of Inl s1 \<Rightarrow> s1 | Inr s1 \<Rightarrow> s1) = loginView s"
  by (simp add: xferFileOpen_def Let_def split: sum.splits option.splits)

lemma loginView_xferFileOpen_Inl: "xferFileOpen env mode path s = Inl s1 \<Longrightarrow> loginView s1 = loginView s"
  using loginView_xferFileOpen [of env mode path s] by simp

lemma loginView_xferFileOpen_Inr: "xferFileOpen env mode path s = Inr s1 \<Longrightarrow> loginView s1 = loginView s"
  using loginView_xferFileOpen [of env mode path s] by simp

lemma loginView_xferFileSetup [simp]: "loginView (xferFileSetup mode s) = loginView s"
  by (simp add: xferFileSetup_def Let_def)

lemma loginView_xferFile [simp]: "loginView (xferFile env args mode s) = loginView s"
  by (auto simp: xferFile_def Let_def
      split: sum.splits resolve_error.splits
      dest: loginView_xferFileOpen_Inl loginView_xferFileOpen_Inr)

lemma loginView_xferDirConnect [simp]: "loginView (xferDirConnect env mode s) = loginView s"
  by (simp add: xferDirConnect_def Let_def case_prod_beta)

lemma loginView_xferDirFail [simp]: "loginView (xferDirFail env code e s) = loginView s"
  by (simp add: xferDirFail_def)

lemma loginView_xferDirEntry [simp]:
  "loginView (xferDirEntry env mode st name type workItem s) = loginView s"
  by (simp add: xferDirEntry_def case_prod_beta)

lemma loginView_xferDirEntryPath [simp]:
  "loginView (xferDirEntryPath env mode path type workItem s) = loginView s"
  by (simp add: xferDirEntryPath_def case_prod_beta)

lemma loginView_xferDirOpen [simp]: "loginView (xferDirOpen env mode st path s) = loginView s"
  by (simp add: xferDirOpen_def Let_def split: sum.splits)

lemma loginView_xferDirFile [simp]: "loginView (xferDirFile env mode st path s) = loginView s"
  by (simp add: xferDirFile_def split: option.splits)

lemma loginView_xferDirStat [simp]: "loginView (xferDirStat env mode st path s) = loginView s"
  by (simp add: xferDirStat_def)

lemma loginView_xferDirArg:
  "(\<And>a s1. loginView (retry a s1) = loginView s1) \<Longrightarrow>
     loginView (xferDirArg env args mode workaround retry s) = loginView s"
  by (simp add: xferDirArg_def split: sum.splits resolve_error.splits)

lemma loginView_xferDirCwd [simp]: "loginView (xferDirCwd env mode s) = loginView s"
  by (simp add: xferDirCwd_def Let_def split: sum.splits)

lemma loginView_xferDirSetup [simp]: "loginView (xferDirSetup mode s) = loginView s"
  by (simp add: xferDirSetup_def Let_def)

lemma loginView_xferDirBody:
  "(\<And>a s1. loginView (retry a s1) = loginView s1) \<Longrightarrow>
     loginView (xferDirBody env args mode workaround retry s) = loginView s"
  by (simp add: xferDirBody_def Let_def loginView_xferDirArg)

lemma loginView_xferDir [simp]: "loginView (xferDir env args mode workaround s) = loginView s"
  by (simp add: xferDir_def loginView_xferDirBody)

lemma loginView_changeDir [simp]: "loginView (snd (changeDir env args s)) = loginView s"
  by (simp add: changeDir_def split: option.splits sum.splits resolve_error.splits)

lemma loginView_reply530 [simp]: "loginView (reply530 env s) = loginView s"
  by (simp add: reply530_def)

lemma loginView_config:
  "cfg_user c = cfg_user (m_config s) \<Longrightarrow> cfg_pass c = cfg_pass (m_config s) \<Longrightarrow>
     loginView (s\<lparr>m_config := c\<rparr>) = loginView s"
  by (simp add: loginView_def)

lemma loginView_mlstFact [simp]: "loginView (mlstFact p s) = loginView s"
  by (simp add: mlstFact_def)

lemma loginView_optsMlstLoop [simp]: "loginView (optsMlstLoop p s) = loginView s"
proof (induction p s rule: optsMlstLoop.induct)
  case (1 p s)
  show ?case
    by (subst optsMlstLoop.simps) (auto split: list.splits simp: "1.IH")
qed

lemma optsModeZLoop_user: "keepsLogin cfg (snd (optsModeZLoop p l cfg))"
proof (induction p l cfg rule: optsModeZLoop.induct)
  case (1 p level cfg)
  have step: "keepsLogin cfg (snd (optsModeZLoop p2 l (cfg\<lparr>cfg_deflateLevel := l\<rparr>)))"
    if "p \<noteq> []" "nextWord p = (opt, p1)" "opt \<noteq> []"
       "length opt = 5 \<and> strncasecmpEq opt ''LEVEL'' 5" "levelWord p1 = Some (l, p2)"
    for opt p1 l p2
  proof -
    have "keepsLogin (cfg\<lparr>cfg_deflateLevel := l\<rparr>)
            (snd (optsModeZLoop p2 l (cfg\<lparr>cfg_deflateLevel := l\<rparr>)))"
      using "1.IH" that by auto
    then show ?thesis by (simp add: keepsLogin_def)
  qed
  show ?case
    by (subst optsModeZLoop.simps)
       (auto split: prod.splits option.splits simp: step, simp_all add: keepsLogin_def)
qed

lemma loginView_keeps:
  "keepsLogin (m_config s) c \<Longrightarrow> loginView (s\<lparr>m_config := c\<rparr>) = loginView s"
  by (simp add: loginView_def keepsLogin_def)

lemma loginView_OPTS [simp]: "loginView (OPTS env args s) = loginView s"
  by (simp add: OPTS_def Let_def case_prod_beta loginView_keeps optsModeZLoop_user
      split: option.splits)

lemma loginView_ABOR [simp]: "loginView (ABOR env args s) = loginView s"
  by (simp add: ABOR_def)

lemma loginView_ALLO [simp]: "loginView (ALLO env args s) = loginView s"
  by (simp add: ALLO_def)

lemma loginView_APPE [simp]: "loginView (APPE env args s) = loginView s"
  by (simp add: APPE_def)

lemma loginView_CDUP [simp]: "loginView (CDUP env args s) = loginView s"
proof -
  have "loginView (case changeDir env a s1 of
           (CdAborted, s2) \<Rightarrow> s2
         | (CdFailed e, s2) \<Rightarrow> sendResponse env (''550 '' @ e_strerror env e @ CRLF) s2
         | (CdOk, s2) \<Rightarrow> sendResponse env (''200 OK'' @ CRLF) s2) = loginView (snd (changeDir env a s1))" for a s1
    by (cases "changeDir env a s1") (simp split: cd_result.splits)
  then show ?thesis by (simp add: CDUP_def Let_def)
qed

lemma loginView_CWD [simp]: "loginView (CWD env args s) = loginView s"
proof -
  have "loginView (case changeDir env a s1 of
           (CdAborted, s2) \<Rightarrow> s2
         | (CdFailed e, s2) \<Rightarrow> sendResponse env (''550 '' @ e_strerror env e @ CRLF) s2
         | (CdOk, s2) \<Rightarrow> sendResponse env (''200 OK'' @ CRLF) s2) = loginView (snd (changeDir env a s1))" for a s1
    by (cases "changeDir env a s1") (simp split: cd_result.splits)
  then show ?thesis by (simp add: CWD_def Let_def)
qed

lemma loginView_DELE [simp]: "loginView (DELE env args s) = loginView s"
  by (simp add: DELE_def Let_def split: sum.splits resolve_error.splits option.splits)

lemma loginView_FEAT [simp]: "loginView (FEAT env args s) = loginView s"
  by (simp add: FEAT_def Let_def)

lemma loginView_HELP [simp]: "loginView (HELP env args s) = loginView s"
  by (simp add: HELP_def)

lemma loginView_LIST [simp]: "loginView (LIST env args s) = loginView s"
  by (simp add: LIST_def)

lemma loginView_MDTM [simp]: "loginView (MDTM env args s) = loginView s"
  by (simp add: MDTM_def Let_def)

lemma loginView_MKD [simp]: "loginView (MKD env args s) = loginView s"
  by (simp add: MKD_def Let_def split: sum.splits resolve_error.splits option.splits)

lemma loginView_MLSD [simp]: "loginView (MLSD env args s) = loginView s"
  by (simp add: MLSD_def)

lemma loginView_MLST [simp]: "loginView (MLST env args s) = loginView s"
  by (simp add: MLST_def)

lemma loginView_MODE [simp]: "loginView (MODE env args s) = loginView s"
  by (simp add: MODE_def Let_def)

lemma loginView_NLST [simp]: "loginView (NLST env args s) = loginView s"
  by (simp add: NLST_def Let_def case_prod_beta split: sum.splits option.splits)

lemma loginView_NOOP [simp]: "loginView (NOOP env args s) = loginView s"
  by (simp add: NOOP_def)

lemma loginView_PASV [simp]: "loginView (PASV env args s) = loginView s"
  by (simp add: PASV_def Let_def case_prod_beta)

lemma loginView_PORT [simp]: "loginView (PORT env args s) = loginView s"
  by (simp add: PORT_def Let_def case_prod_beta split: option.splits)

lemma loginView_PWD [simp]: "loginView (PWD env args s) = loginView s"
  by (simp add: PWD_def)

lemma loginView_QUIT [simp]: "loginView (QUIT env args s) = loginView s"
  by (simp add: QUIT_def)

lemma loginView_REST [simp]: "loginView (REST env args s) = loginView s"
  by (simp add: REST_def Let_def split: option.splits)

lemma loginView_RETR [simp]: "loginView (RETR env args s) = loginView s"
  by (simp add: RETR_def)

lemma loginView_RMD [simp]: "loginView (RMD env args s) = loginView s"
  by (simp add: RMD_def Let_def split: sum.splits resolve_error.splits option.splits)

lemma loginView_SIZE [simp]: "loginView (SIZE env args s) = loginView s"
  by (simp add: SIZE_def Let_def split: sum.splits resolve_error.splits option.splits)

lemma loginView_STAT [simp]: "loginView (STAT env args s) = loginView s"
  by (simp add: STAT_def Let_def)

lemma loginView_STOR [simp]: "loginView (STOR env args s) = loginView s"
  by (simp add: STOR_def)

lemma loginView_STOU [simp]: "loginView (STOU env args s) = loginView s"
  by (simp add: STOU_def)

lemma loginView_STRU [simp]: "loginView (STRU env args s) = loginView s"
  by (simp add: STRU_def Let_def)

lemma loginView_SYST [simp]: "loginView (SYST env args s) = loginView s"
  by (simp add: SYST_def)

lemma loginView_TYPE [simp]: "loginView (TYPE_handler env args s) = loginView s"
  by (simp add: TYPE_handler_def)

section \<open>Comparison and lookup\<close>

lemma tolower_eq_charDiff: "charDiff l r = 0 \<longleftrightarrow> tolower l = tolower r"
  by (auto simp: charDiff_def)

lemma compareLoop_None:
  "compareLoop a b = None \<longleftrightarrow> map tolower (take (length b) a) = map tolower (take (length a) b)"
  by (induction a b rule: compareLoop.induct) auto

lemma compareLoop_Some: "compareLoop a b = Some d \<Longrightarrow> d \<noteq> 0"
  by (induction a b rule: compareLoop.induct) (auto simp: tolower_eq_charDiff split: if_splits)

lemma compare_zero:
  assumes "NUL \<notin> set a \<or> NUL \<notin> set b"
  shows "compare a b = 0 \<longleftrightarrow> map tolower a = map tolower b"
proof -
  from assms have c: "compare a b = (case compareLoop a b of Some d \<Rightarrow> d
      | None \<Rightarrow> int (length a) - int (length b))"
    by (auto simp: compare_def isCString_def)
  show ?thesis
  proof (cases "compareLoop a b")
    case None
    then have m: "map tolower (take (length b) a) = map tolower (take (length a) b)"
      by (simp add: compareLoop_None)
    show ?thesis
    proof
      assume "compare a b = 0"
      with c None have "length a = length b" by simp
      with m show "map tolower a = map tolower b" by simp
    next
      assume e: "map tolower a = map tolower b"
      then have "length a = length b" by (metis length_map)
      with c None show "compare a b = 0" by simp
    qed
  next
    case (Some d)
    then have d: "d \<noteq> 0" by (rule compareLoop_Some)
    have "map tolower a \<noteq> map tolower b"
    proof
      assume e: "map tolower a = map tolower b"
      then have l: "length a = length b" by (metis length_map)
      with e have "map tolower (take (length b) a) = map tolower (take (length a) b)" by simp
      then have "compareLoop a b = None" by (simp add: compareLoop_None)
      with Some show False by simp
    qed
    with c Some d show ?thesis by simp
  qed
qed

lemma lower_bound_le:
  "lower_bound table command first count \<le> first + count"
proof (induction table command first count rule: lower_bound.induct)
  case (1 table command first count)
  show ?case
  proof (cases "count = 0")
    case True
    then show ?thesis by (subst lower_bound.simps) simp
  next
    case False
    let ?step = "count div 2"
    let ?it = "first + ?step"
    show ?thesis
    proof (cases "compare (fst (table ! ?it)) command < 0")
      case True
      from "1.IH"(1) [OF False refl refl True]
      have "lower_bound table command (Suc ?it) (count - (?step + 1)) \<le> Suc ?it + (count - (?step + 1))" .
      moreover have "Suc ?it + (count - (?step + 1)) \<le> first + count" using False by simp
      ultimately show ?thesis using False True
        by (subst lower_bound.simps) (simp add: Let_def)
    next
      case no: False
      from "1.IH"(2) [OF False refl refl no]
      have "lower_bound table command first ?step \<le> first + ?step" .
      then show ?thesis using False no
        by (subst lower_bound.simps) (simp add: Let_def)
    qed
  qed
qed

lemma findHandler_Some:
  "findHandler table command = Some (n, h) \<Longrightarrow> (n, h) \<in> set table \<and> compare n command = 0"
proof -
  assume a: "findHandler table command = Some (n, h)"
  let ?it = "lower_bound table command 0 (length table)"
  from a have ne: "?it \<noteq> length table" and c: "compare (fst (table ! ?it)) command = 0"
    and e: "table ! ?it = (n, h)"
    by (auto simp: findHandler_def Let_def split: if_splits)
  have "?it \<le> length table" using lower_bound_le [of table command 0 "length table"] by simp
  with ne have "?it < length table" by simp
  then have "table ! ?it \<in> set table" by simp
  with e c show ?thesis by simp
qed

lemma NUL_decodePath: "NUL \<notin> set (decodePath line (length line))"
  by (auto simp: decodePath_def decodeByte_def)

lemma NUL_lineCommand: "NUL \<notin> set (lineCommand line)"
  using NUL_decodePath [of line] by (auto simp: lineCommand_def dest: set_takeWhileD)

section \<open>What a command line selects\<close>

lemma handler_names:
  "map fst handlers =
     [''ABOR'', ''ALLO'', ''APPE'', ''CDUP'', ''CWD'', ''DELE'', ''FEAT'', ''HELP'', ''LIST'',
      ''MDTM'', ''MKD'', ''MLSD'', ''MLST'', ''MODE'', ''NLST'', ''NOOP'', ''OPTS'', ''PASS'',
      ''PASV'', ''PORT'', ''PWD'', ''QUIT'', ''REST'', ''RETR'', ''RMD'', ''RNFR'', ''RNTO'',
      ''SITE'', ''SIZE'', ''STAT'', ''STOR'', ''STOU'', ''STRU'', ''SYST'', ''TYPE'', ''USER'',
      ''XCUP'', ''XCWD'', ''XMKD'', ''XPWD'', ''XRMD'']"
  by (simp add: handlers_def)

lemma lower_names_distinct: "distinct (map (map tolower) (map fst handlers))"
  unfolding handler_names by code_simp

lemma names_distinct: "distinct (map fst handlers)"
  using lower_names_distinct distinct_map [of "map tolower" "map fst handlers"] by blast

lemma lower_inj:
  assumes "n \<in> set (map fst handlers)" "v \<in> set (map fst handlers)"
    "map tolower n = map tolower v"
  shows "n = v"
  using lower_names_distinct assms by (meson distinct_map inj_onD)

lemma names_no_NUL: "n \<in> set (map fst handlers) \<Longrightarrow> NUL \<notin> set n"
  unfolding handler_names by auto

lemma handlerOf_mem: "(n, h) \<in> set handlers \<Longrightarrow> handlerOf n = h"
  using names_distinct by (simp add: handlerOf_def)

lemma verbOf_Some:
  assumes "verbOf line = Some n"
  shows "findHandler handlers (lineCommand line) = Some (n, handlerOf n)"
    and "n \<in> set (map fst handlers)"
    and "map tolower (lineCommand line) = map tolower n"
proof -
  from assms obtain h where f: "findHandler handlers (lineCommand line) = Some (n, h)"
    by (auto simp: verbOf_def)
  from findHandler_Some [OF f] have m: "(n, h) \<in> set handlers" and c: "compare n (lineCommand line) = 0"
    by auto
  from m have h: "handlerOf n = h" by (rule handlerOf_mem)
  with f show "findHandler handlers (lineCommand line) = Some (n, handlerOf n)" by simp
  from m show n: "n \<in> set (map fst handlers)" by force
  from c n show "map tolower (lineCommand line) = map tolower n"
    using compare_zero [of n "lineCommand line"] names_no_NUL [OF n] by simp
qed


lemma compare_verb:
  assumes "verbOf line = Some n" "v \<in> set (map fst handlers)"
  shows "compare (lineCommand line) v = 0 \<longleftrightarrow> n = v"
proof -
  from verbOf_Some [OF assms(1)] have n: "n \<in> set (map fst handlers)"
    and l: "map tolower (lineCommand line) = map tolower n" by auto
  have "compare (lineCommand line) v = 0 \<longleftrightarrow> map tolower (lineCommand line) = map tolower v"
    using compare_zero [of "lineCommand line" v] names_no_NUL [OF assms(2)] by simp
  also have "\<dots> \<longleftrightarrow> map tolower n = map tolower v" using l by simp
  also have "\<dots> \<longleftrightarrow> n = v" using lower_inj [OF n assms(2)] by auto
  finally show ?thesis .
qed





lemma dispatch_command:
  assumes "\<not> w_aborted s" "verbOf line = Some n" "m_state s = COMMAND"
  shows "dispatch env line s =
       handlerOf n env (lineArgs line)
         (if n \<noteq> ''RNTO'' then s\<lparr>m_timestamp := e_now env, m_rename := []\<rparr>
          else s\<lparr>m_timestamp := e_now env\<rparr>)"
proof -
  have "''RNTO'' \<in> set (map fst handlers)" unfolding handler_names by simp
  from compare_verb [OF assms(2) this] assms verbOf_Some(1) [OF assms(2)]
  show ?thesis by (simp add: dispatch_def Let_def)
qed

section \<open>Replies on a command channel in good order\<close>

lemma healthy_update [simp]:
  "healthy (m_config_update f0 s) = healthy s"
  "healthy (m_pasvSocket_update f1 s) = healthy s"
  "healthy (m_dataSocket_update f2 s) = healthy s"
  "healthy (m_pendingCloseSocket_update f3 s) = healthy s"
  "healthy (m_commandBuffer_update f4 s) = healthy s"
  "healthy (m_responseBuffer_update f5 s) = healthy s"
  "healthy (m_xferBuffer_update f6 s) = healthy s"
  "healthy (m_zStreamBuffer_update f7 s) = healthy s"
  "healthy (m_zStream_update f8 s) = healthy s"
  "healthy (m_file_update f9 s) = healthy s"
  "healthy (m_dir_update f10 s) = healthy s"
  "healthy (m_glob_update f11 s) = healthy s"
  "healthy (m_state_update f12 s) = healthy s"
  "healthy (m_timestamp_update f13 s) = healthy s"
  "healthy (m_cwd_update f14 s) = healthy s"
  "healthy (m_lwd_update f15 s) = healthy s"
  "healthy (m_rename_update f16 s) = healthy s"
  "healthy (m_workItem_update f17 s) = healthy s"
  "healthy (m_portAddr_update f18 s) = healthy s"
  "healthy (m_restartPosition_update f19 s) = healthy s"
  "healthy (m_fileSize_update f20 s) = healthy s"
  "healthy (m_filePosition_update f21 s) = healthy s"
  "healthy (m_zStreamPosition_update f22 s) = healthy s"
  "healthy (m_xferDirMode_update f23 s) = healthy s"
  "healthy (m_transfer_update f24 s) = healthy s"
  "healthy (m_authorizedUser_update f25 s) = healthy s"
  "healthy (m_authorizedPass_update f26 s) = healthy s"
  "healthy (m_pasv_update f27 s) = healthy s"
  "healthy (m_port_update f28 s) = healthy s"
  "healthy (m_recv_update f29 s) = healthy s"
  "healthy (m_send_update f30 s) = healthy s"
  "healthy (m_urgent_update f31 s) = healthy s"
  "healthy (m_deflate_update f32 s) = healthy s"
  "healthy (m_zFlushed_update f33 s) = healthy s"
  "healthy (m_eof_update f34 s) = healthy s"
  "healthy (m_mlstType_update f35 s) = healthy s"
  "healthy (m_mlstSize_update f36 s) = healthy s"
  "healthy (m_mlstModify_update f37 s) = healthy s"
  "healthy (m_mlstPerm_update f38 s) = healthy s"
  "healthy (m_mlstUnixMode_update f39 s) = healthy s"
  "healthy (m_devZero_update f40 s) = healthy s"
  "healthy (w_sent_update f41 s) = healthy s"
  "healthy (w_dataSent_update f42 s) = healthy s"
  "healthy (w_aborted_update f43 s) = healthy s"
  by (simp_all add: healthy_def)

lemma room_update [simp]:
  "room (m_config_update f0 s) = room s"
  "room (m_commandSocket_update f1 s) = room s"
  "room (m_pasvSocket_update f2 s) = room s"
  "room (m_dataSocket_update f3 s) = room s"
  "room (m_pendingCloseSocket_update f4 s) = room s"
  "room (m_commandBuffer_update f5 s) = room s"
  "room (m_xferBuffer_update f6 s) = room s"
  "room (m_zStreamBuffer_update f7 s) = room s"
  "room (m_zStream_update f8 s) = room s"
  "room (m_file_update f9 s) = room s"
  "room (m_dir_update f10 s) = room s"
  "room (m_glob_update f11 s) = room s"
  "room (m_state_update f12 s) = room s"
  "room (m_timestamp_update f13 s) = room s"
  "room (m_cwd_update f14 s) = room s"
  "room (m_lwd_update f15 s) = room s"
  "room (m_rename_update f16 s) = room s"
  "room (m_workItem_update f17 s) = room s"
  "room (m_portAddr_update f18 s) = room s"
  "room (m_restartPosition_update f19 s) = room s"
  "room (m_fileSize_update f20 s) = room s"
  "room (m_filePosition_update f21 s) = room s"
  "room (m_zStreamPosition_update f22 s) = room s"
  "room (m_xferDirMode_update f23 s) = room s"
  "room (m_transfer_update f24 s) = room s"
  "room (m_authorizedUser_update f25 s) = room s"
  "room (m_authorizedPass_update f26 s) = room s"
  "room (m_pasv_update f27 s) = room s"
  "room (m_port_update f28 s) = room s"
  "room (m_recv_update f29 s) = room s"
  "room (m_send_update f30 s) = room s"
  "room (m_urgent_update f31 s) = room s"
  "room (m_deflate_update f32 s) = room s"
  "room (m_zFlushed_update f33 s) = room s"
  "room (m_eof_update f34 s) = room s"
  "room (m_mlstType_update f35 s) = room s"
  "room (m_mlstSize_update f36 s) = room s"
  "room (m_mlstModify_update f37 s) = room s"
  "room (m_mlstPerm_update f38 s) = room s"
  "room (m_mlstUnixMode_update f39 s) = room s"
  "room (m_devZero_update f40 s) = room s"
  "room (w_cmdWrites_update f41 s) = room s"
  "room (w_sent_update f42 s) = room s"
  "room (w_dataSent_update f43 s) = room s"
  "room (w_aborted_update f44 s) = room s"
  by (simp_all add: room_def)

lemma replies_update [simp]:
  "replies (m_config_update f0 s) = replies s"
  "replies (m_commandSocket_update f1 s) = replies s"
  "replies (m_pasvSocket_update f2 s) = replies s"
  "replies (m_dataSocket_update f3 s) = replies s"
  "replies (m_pendingCloseSocket_update f4 s) = replies s"
  "replies (m_commandBuffer_update f5 s) = replies s"
  "replies (m_xferBuffer_update f6 s) = replies s"
  "replies (m_zStreamBuffer_update f7 s) = replies s"
  "replies (m_zStream_update f8 s) = replies s"
  "replies (m_file_update f9 s) = replies s"
  "replies (m_dir_update f10 s) = replies s"
  "replies (m_glob_update f11 s) = replies s"
  "replies (m_state_update f12 s) = replies s"
  "replies (m_timestamp_update f13 s) = replies s"
  "replies (m_cwd_update f14 s) = replies s"
  "replies (m_lwd_update f15 s) = replies s"
  "replies (m_rename_update f16 s) = replies s"
  "replies (m_workItem_update f17 s) = replies s"
  "replies (m_portAddr_update f18 s) = replies s"
  "replies (m_restartPosition_update f19 s) = replies s"
  "replies (m_fileSize_update f20 s) = replies s"
  "replies (m_filePosition_update f21 s) = replies s"
  "replies (m_zStreamPosition_update f22 s) = replies s"
  "replies (m_xferDirMode_update f23 s) = replies s"
  "replies (m_transfer_update f24 s) = replies s"
  "replies (m_authorizedUser_update f25 s) = replies s"
  "replies (m_authorizedPass_update f26 s) = replies s"
  "replies (m_pasv_update f27 s) = replies s"
  "replies (m_port_update f28 s) = replies s"
  "replies (m_recv_update f29 s) = replies s"
  "replies (m_send_update f30 s) = replies s"
  "replies (m_urgent_update f31 s) = replies s"
  "replies (m_deflate_update f32 s) = replies s"
  "replies (m_zFlushed_update f33 s) = replies s"
  "replies (m_eof_update f34 s) = replies s"
  "replies (m_mlstType_update f35 s) = replies s"
  "replies (m_mlstSize_update f36 s) = replies s"
  "replies (m_mlstModify_update f37 s) = replies s"
  "replies (m_mlstPerm_update f38 s) = replies s"
  "replies (m_mlstUnixMode_update f39 s) = replies s"
  "replies (m_devZero_update f40 s) = replies s"
  "replies (w_cmdWrites_update f41 s) = replies s"
  "replies (w_dataSent_update f42 s) = replies s"
  "replies (w_aborted_update f43 s) = replies s"
  by (simp_all add: replies_def)

lemma channel_setState [simp]:
  "healthy (setState env st a b s) = healthy s"
  "room (setState env st a b s) = room s"
  "replies (setState env st a b s) = replies s"
  by (simp_all add: healthy_def room_def replies_def)

lemma channel_closePasv [simp]:
  "healthy (closePasv s) = healthy s"
  "room (closePasv s) = room s"
  "replies (closePasv s) = replies s"
  by (simp_all add: healthy_def room_def replies_def)

lemma channel_closeData [simp]:
  "healthy (closeData s) = healthy s"
  "room (closeData s) = room s"
  "replies (closeData s) = replies s"
  by (simp_all add: healthy_def room_def replies_def)

lemma channel_closeCommand [simp]:
  "room (closeCommand s) = room s"
  "replies (closeCommand s) = replies s"
  "m_commandSocket (closeCommand s) = None"
  by (simp_all add: room_def replies_def closeCommand_def split: option.splits)


lemma healthy_cmdWrite:
  assumes "list_all okWrite (w_cmdWrites s)" "b_data (m_responseBuffer s) \<noteq> []"
  shows "list_all okWrite (w_cmdWrites (snd (cmdWrite s)))"
    and "w_sent (snd (cmdWrite s)) @ b_data (m_responseBuffer (snd (cmdWrite s)))
         = w_sent s @ b_data (m_responseBuffer s)"
    and "fst (cmdWrite s) = IoWouldBlock \<or> (\<exists>n. fst (cmdWrite s) = IoBytes n)"
    and "fst (cmdWrite s) = IoWouldBlock \<Longrightarrow> m_responseBuffer (snd (cmdWrite s)) = m_responseBuffer s"
    and "length (b_data (m_responseBuffer (snd (cmdWrite s)))) \<le> length (b_data (m_responseBuffer s))"
    and "b_cap (m_responseBuffer (snd (cmdWrite s))) = b_cap (m_responseBuffer s)"
  using assms
  by (auto simp: cmdWrite_def Let_def okWrite_def usedSize_def usedArea_def markFree_def min_def
      split: list.splits io_result.splits)

lemma sendResponse_ok:
  assumes h: "healthy s" and r: "length r < room s" and rne: "r \<noteq> []"
  shows "replies (sendResponse env r s) = replies s @ r"
    and "healthy (sendResponse env r s)"
    and "room s - length r \<le> room (sendResponse env r s)"
    and "m_commandSocket (sendResponse env r s) = m_commandSocket s"
proof -
  let ?s1 = "s\<lparr>m_responseBuffer := markUsed r (m_responseBuffer s)\<rparr>"
  from h have c: "m_commandSocket s \<noteq> None" and w: "list_all okWrite (w_cmdWrites s)"
    by (auto simp: healthy_def)
  have ne: "r \<noteq> [] \<Longrightarrow> b_data (m_responseBuffer ?s1) \<noteq> []" by (simp add: markUsed_def)
  obtain res s2 where cw: "cmdWrite ?s1 = (res, s2)" by (cases "cmdWrite ?s1")
  show "replies (sendResponse env r s) = replies s @ r"
  proof -
    note False = rne
    from healthy_cmdWrite [of ?s1] w ne [OF False] cw
    have k: "w_sent s2 @ b_data (m_responseBuffer s2) = w_sent s @ b_data (m_responseBuffer s) @ r"
      and cases: "res = IoWouldBlock \<or> (\<exists>n. res = IoBytes n)"
      by (auto simp: markUsed_def)
    from cases c r cw k show ?thesis
      by (auto simp: sendResponse_def Let_def room_def replies_def usedArea_def coalesce_def)
  qed
  show "healthy (sendResponse env r s)"
  proof -
    note False = rne
    from healthy_cmdWrite [of ?s1] w ne [OF False] cw
    have k: "list_all okWrite (w_cmdWrites s2)"
      and cases: "res = IoWouldBlock \<or> (\<exists>n. res = IoBytes n)"
      by auto
    have cs: "m_commandSocket s2 = m_commandSocket s"
      using cmdWrite_fields(2) [of ?s1] cw by simp
    from cases c r cw k cs show ?thesis
      by (auto simp: sendResponse_def Let_def room_def healthy_def)
  qed
  show "m_commandSocket (sendResponse env r s) = m_commandSocket s"
  proof -
    note False = rne
    from healthy_cmdWrite [of ?s1] w ne [OF False] cw
    have cases: "res = IoWouldBlock \<or> (\<exists>n. res = IoBytes n)"
      by auto
    have cs: "m_commandSocket s2 = m_commandSocket s"
      using cmdWrite_fields(2) [of ?s1] cw by simp
    from cases c r cw cs show ?thesis
      by (auto simp: sendResponse_def Let_def room_def healthy_def)
  qed
  show "room s - length r \<le> room (sendResponse env r s)"
  proof -
    note False = rne
    from healthy_cmdWrite [of ?s1] w ne [OF False] cw
    have cases: "res = IoWouldBlock \<or> (\<exists>n. res = IoBytes n)"
      and same: "res = IoWouldBlock \<Longrightarrow> m_responseBuffer s2 = m_responseBuffer ?s1"
      and len: "length (b_data (m_responseBuffer s2)) \<le> length (b_data (m_responseBuffer ?s1))"
      and cap: "b_cap (m_responseBuffer s2) = b_cap (m_responseBuffer ?s1)"
      by auto
    from cases show ?thesis
    proof
      assume wb: "res = IoWouldBlock"
      with c r cw same [OF wb] show ?thesis
        by (auto simp: sendResponse_def Let_def room_def freeSize_def markUsed_def)
    next
      assume "\<exists>n. res = IoBytes n"
      then obtain n where "res = IoBytes n" ..
      with c r cw len cap show ?thesis
        by (auto simp: sendResponse_def Let_def room_def freeSize_def markUsed_def coalesce_def)
    qed
  qed
qed

section \<open>Facts about new sessions and the example sessions\<close>



lemma FtpSession_fields [simp]:
  "m_config (FtpSession env cfg c ws) = cfg"
  "m_pasvSocket (FtpSession env cfg c ws) = None"
  "m_dataSocket (FtpSession env cfg c ws) = None"
  "m_state (FtpSession env cfg c ws) = COMMAND"
  "m_cwd (FtpSession env cfg c ws) = ''/''"
  "m_rename (FtpSession env cfg c ws) = []"
  "m_restartPosition (FtpSession env cfg c ws) = 0"
  "m_authorizedUser (FtpSession env cfg c ws) = (cfg_user cfg = [])"
  "m_authorizedPass (FtpSession env cfg c ws) = (cfg_pass cfg = [])"
  "m_pasv (FtpSession env cfg c ws) = False"
  "m_port (FtpSession env cfg c ws) = False"
  "m_mlstType (FtpSession env cfg c ws) = True"
  "m_mlstSize (FtpSession env cfg c ws) = True"
  "m_mlstModify (FtpSession env cfg c ws) = True"
  "m_mlstPerm (FtpSession env cfg c ws) = True"
  "m_mlstUnixMode (FtpSession env cfg c ws) = False"
  "w_aborted (FtpSession env cfg c ws) = False"
  by (simp_all add: FtpSession_def)

lemma FtpSession_channel:
  assumes "list_all okWrite ws" "12 < e_RESPONSE_BUFFERSIZE env"
  shows "healthy (FtpSession env cfg c ws)"
    and "replies (FtpSession env cfg c ws) = ''220 Hello!'' @ CRLF"
    and "e_RESPONSE_BUFFERSIZE env - 12 \<le> room (FtpSession env cfg c ws)"
    and "m_commandSocket (FtpSession env cfg c ws) = Some c"
proof -
  let ?s = "FtpSession env cfg c ws"
  have "healthy ?s \<and> replies ?s = ''220 Hello!'' @ CRLF
        \<and> e_RESPONSE_BUFFERSIZE env - 12 \<le> room ?s \<and> m_commandSocket ?s = Some c"
    unfolding FtpSession_def
    apply (intro conjI)
       apply (rule sendResponse_ok(2))
    using assms apply (simp_all add: healthy_def room_def newBuffer_def freeSize_def)[3]
      apply (subst sendResponse_ok(1))
    using assms apply (simp_all add: healthy_def room_def newBuffer_def freeSize_def replies_def usedArea_def)[4]
     apply (rule order_trans [OF _ sendResponse_ok(3)])
    using assms apply (simp_all add: healthy_def room_def newBuffer_def freeSize_def)[4]
    apply (subst sendResponse_ok(4))
    using assms apply (simp_all add: healthy_def room_def newBuffer_def freeSize_def)
    done
  then show "healthy ?s" "replies ?s = ''220 Hello!'' @ CRLF"
    "e_RESPONSE_BUFFERSIZE env - 12 \<le> room ?s" "m_commandSocket ?s = Some c"
    by simp_all
qed

lemma okWrites_example: "list_all okWrite (replicate n (IoBytes 65536))"
  by (simp add: list_all_iff okWrite_def)

lemma exEnv_fields [simp]:
  "e_RESPONSE_BUFFERSIZE exEnv = 32768" "e_now exEnv = 1000"
  by (simp_all add: exEnv_def)


lemma exSession_channel:
  "healthy exSession" "replies exSession = ''220 Hello!'' @ CRLF"
  "32756 \<le> room exSession" "m_commandSocket exSession = Some 3"
  "\<not> w_aborted exSession" "m_state exSession = COMMAND"
  "\<not> m_authorizedUser exSession" "\<not> m_authorizedPass exSession"
  "cfg_user (m_config exSession) = ''alice''" "cfg_pass (m_config exSession) = ''secret''"
  using FtpSession_channel [where env=exEnv and cfg=exConfig and c=3, OF okWrites_example, of 20]
  by (simp_all add: exSession_def exConfig_def)


section \<open>Properties of the path encoding\<close>

lemma encodeLoop_False: "encodeLoop False s = map (\<lambda>c. if c = LF then NUL else c) s"
  by (induction s) auto

lemma encodePath_False: "encodePath s False = map (\<lambda>c. if c = LF then NUL else c) s"
proof (cases "LF \<in> set s")
  case True
  then show ?thesis by (simp add: encodePath_def encodeLoop_False)
next
  case False
  then have "map (\<lambda>c. if c = LF then NUL else c) s = s"
    by (induction s) auto
  with False show ?thesis by (simp add: encodePath_def)
qed

lemma decodePath_whole: "decodePath t (length t) = map (\<lambda>c. if c = NUL then LF else c) t"
  by (simp add: decodePath_def decodeByte_def)

text \<open>
  Claim C4. For every byte sequence \<open>s\<close> with no NUL byte, \<open>encodePath\<close> with quotes disabled
  followed by \<open>decodePath\<close> over the whole result gives \<open>s\<close> again: \<open>encodePath\<close> maps each LF
  to NUL, \<open>decodePath\<close> maps each NUL to LF, and no other byte changes.
\<close>

theorem decode_encode_roundtrip:
  "NUL \<notin> set s \<Longrightarrow>
     decodePath (encodePath s False) (length (encodePath s False)) = s
     \<and> encodePath s False = map (\<lambda>c. if c = LF then NUL else c) s
     \<and> (\<forall>t. decodePath t (length t) = map (\<lambda>c. if c = NUL then LF else c) t)"
proof -
  assume nz: "NUL \<notin> set s"
  let ?e = "encodePath s False"
  have e: "?e = map (\<lambda>c. if c = LF then NUL else c) s" by (rule encodePath_False)
  have "decodePath ?e (length ?e) = map (\<lambda>c. if c = NUL then LF else c) ?e"
    by (rule decodePath_whole)
  also have "\<dots> = map (\<lambda>c. if c = NUL then LF else c) (map (\<lambda>c. if c = LF then NUL else c) s)"
    by (simp only: e)
  also have "\<dots> = s" using nz by (induction s) auto
  finally have "decodePath ?e (length ?e) = s" .
  with e decodePath_whole show ?thesis by blast
qed

text \<open>The bytes \<open>a\<close>, LF, \<open>b\<close> make the round trip.\<close>

theorem decode_encode_roundtrip_witness:
  "NUL \<notin> set [CHR ''a'', LF, CHR ''b''] \<and>
   decodePath (encodePath [CHR ''a'', LF, CHR ''b''] False)
     (length (encodePath [CHR ''a'', LF, CHR ''b''] False)) = [CHR ''a'', LF, CHR ''b'']"
proof -
  have h: "NUL \<notin> set [CHR ''a'', LF, CHR ''b'']" by simp
  from decode_encode_roundtrip [OF h] h show ?thesis by blast
qed

section \<open>Properties of path resolution\<close>
















lemma splitOn_nonempty: "splitOn c s \<noteq> []"
  by (induction s) (auto split: list.splits)









section \<open>ABOR during a transfer\<close>







section \<open>Commands during a transfer\<close>









end
